theory Spec2Isabelle
  imports Main "HOL-Library.Multiset"
begin

section \<open>Configuration and request context\<close>

text \<open>
  The backend (server/app.js) keeps its settings in the object \<open>CONFIG\<close>. Only the
  fields read by the modelled handlers are kept.
\<close>

record config =
  EXCEL_FILE_KEY :: string
  USER_FILES_PREFIX :: string
  OWNER_EMAIL :: string

text \<open>The defaults of \<open>CONFIG\<close> when the environment sets nothing but the owner.\<close>

definition default_config :: config where
  "default_config =
     \<lparr>EXCEL_FILE_KEY = ''master.xlsx'', USER_FILES_PREFIX = ''users'',
      OWNER_EMAIL = ''owner@example.com''\<rparr>"

text \<open>\<open>req.user\<close> as set by \<open>requireAuth\<close>: the id and the (optional) email.\<close>

record auth_user =
  uid :: string
  uemail :: "string option"

text \<open>
  A row of the \<open>profiles\<close> table as the resolvers select it; a column that is
  \<open>null\<close> is \<open>None\<close>.
\<close>

record profile_row =
  row_plan :: "string option"
  row_role :: "string option"
  row_user_file_key :: "string option"
  row_email :: "string option"
  row_status :: "string option"

text \<open>
  The outcome of \<open>await req.supabase.from('profiles')...single()\<close>: the call throws, or
  it returns \<open>{ data, error }\<close>.
\<close>

datatype 'r query_result = Thrown | Returned bool "'r option"

text \<open>JavaScript's \<open>v || d\<close> on a nullable string: \<open>null\<close> and \<open>''\<close> are falsy.\<close>

definition js_or :: "string option \<Rightarrow> string \<Rightarrow> string" where
  "js_or v d = (case v of None \<Rightarrow> d | Some s \<Rightarrow> if s = [] then d else s)"

text \<open>What the resolvers attach to the request.\<close>

record ctx =
  userPlan :: string
  userRole :: string
  fileKey :: string

record full_ctx = ctx +
  userEmail :: string
  userStatus :: "string option"

text \<open>The template \<open>`${CONFIG.USER_FILES_PREFIX}/${req.user.id}/uploaded.xlsx`\<close>.\<close>

definition user_file_path :: "config \<Rightarrow> string \<Rightarrow> string" where
  "user_file_path cfg user_id = USER_FILES_PREFIX cfg @ ''/'' @ user_id @ ''/uploaded.xlsx''"

section \<open>Identity and plan resolver\<close>

text \<open>
  \<open>attachUserContext\<close> of server/policies.js. The first argument of the lookup is
  absent when \<open>req.user\<close> or \<open>req.supabase\<close> is missing.
\<close>

definition attachUserContext :: "config \<Rightarrow> auth_user option \<Rightarrow> profile_row query_result \<Rightarrow> ctx" where
  "attachUserContext cfg user lookup =
     (case user of
        None \<Rightarrow> \<lparr>userPlan = ''anon'', userRole = ''anon'', fileKey = EXCEL_FILE_KEY cfg\<rparr>
      | Some u \<Rightarrow>
          (case lookup of
             Thrown \<Rightarrow> \<lparr>userPlan = ''free'', userRole = ''user'', fileKey = EXCEL_FILE_KEY cfg\<rparr>
           | Returned err dat \<Rightarrow>
               (case dat of
                  None \<Rightarrow> \<lparr>userPlan = ''free'', userRole = ''user'', fileKey = EXCEL_FILE_KEY cfg\<rparr>
                | Some d \<Rightarrow>
                    if err
                    then \<lparr>userPlan = ''free'', userRole = ''user'', fileKey = EXCEL_FILE_KEY cfg\<rparr>
                    else \<lparr>userPlan = js_or (row_plan d) ''free'',
                          userRole = js_or (row_role d) ''user'',
                          fileKey = js_or (row_user_file_key d) (user_file_path cfg (uid u))\<rparr>)))"

text \<open>
  \<open>attachUserPlanAndFile\<close> of server/app.js. It tests only \<open>error\<close>; a result with
  neither error nor data goes through the \<open>data?.field || default\<close> lines.
\<close>

definition attachUserPlanAndFile ::
  "config \<Rightarrow> auth_user option \<Rightarrow> profile_row query_result \<Rightarrow> full_ctx" where
  "attachUserPlanAndFile cfg user lookup =
     (case user of
        None \<Rightarrow>
          \<lparr>userPlan = ''anon'', userRole = ''guest'', fileKey = EXCEL_FILE_KEY cfg,
           userEmail = '''', userStatus = None\<rparr>
      | Some u \<Rightarrow>
          (case lookup of
             Thrown \<Rightarrow>
               \<lparr>userPlan = ''free'', userRole = ''user'', fileKey = EXCEL_FILE_KEY cfg,
                userEmail = js_or (uemail u) '''', userStatus = None\<rparr>
           | Returned err dat \<Rightarrow>
               if err
               then \<lparr>userPlan = ''free'', userRole = ''user'', fileKey = EXCEL_FILE_KEY cfg,
                     userEmail = js_or (uemail u) '''', userStatus = None\<rparr>
               else \<lparr>userPlan = js_or (Option.bind dat row_plan) ''free'',
                     userRole = js_or (Option.bind dat row_role) ''user'',
                     fileKey = js_or (Option.bind dat row_user_file_key)
                                 (user_file_path cfg (uid u)),
                     userEmail = js_or (Option.bind dat row_email) (js_or (uemail u) ''''),
                     userStatus = Some (js_or (Option.bind dat row_status) ''active'')\<rparr>))"

text \<open>
  The lookups the claim speaks of: the call failed (it threw or returned an error) or it
  returned no row.
\<close>

definition lookup_failed :: "'r query_result \<Rightarrow> bool" where
  "lookup_failed lookup =
     (case lookup of Thrown \<Rightarrow> True | Returned err dat \<Rightarrow> err \<or> dat = None)"

definition no_row_no_error :: "'r query_result \<Rightarrow> bool" where
  "no_row_no_error lookup = (case lookup of Thrown \<Rightarrow> False | Returned err dat \<Rightarrow> \<not> err \<and> dat = None)"

section \<open>Plan gates\<close>

text \<open>
  A refused request: the HTTP status and the \<open>error\<close> string of the JSON body.
\<close>

type_synonym refusal = "nat \<times> string"

text \<open>The first statement of \<open>GET /excel/download\<close>.\<close>

definition download_gate :: "config \<Rightarrow> full_ctx \<Rightarrow> refusal option" where
  "download_gate cfg req =
     (if userPlan req = ''free'' \<and> userRole req \<noteq> ''superadmin'' \<and> userEmail req \<noteq> OWNER_EMAIL cfg
      then Some (403, ''Downloads are available only on premium plans'')
      else None)"

text \<open>\<open>GET /excel/export/csv\<close>: "Block free plan entirely".\<close>

definition export_csv_gate :: "config \<Rightarrow> full_ctx \<Rightarrow> refusal option" where
  "export_csv_gate cfg req =
     (if userPlan req = ''free''
      then Some (403, ''CSV export is available only on premium plans'')
      else None)"

text \<open>\<open>GET /excel/export/pdf\<close>: "Block free plan entirely".\<close>

definition export_pdf_gate :: "config \<Rightarrow> full_ctx \<Rightarrow> refusal option" where
  "export_pdf_gate cfg req =
     (if userPlan req = ''free''
      then Some (403, ''PDF export is available only on premium plans'')
      else None)"

text \<open>\<open>GET /audit/list\<close>: "Free plan restriction".\<close>

definition audit_list_gate :: "config \<Rightarrow> full_ctx \<Rightarrow> refusal option" where
  "audit_list_gate cfg req =
     (if userPlan req = ''free''
      then Some (403, ''Audit logs are not available on the free plan'')
      else None)"

section \<open>Cell values and CSV escaping\<close>

text \<open>
  The scalars a cell holds. Numbers are kept to the integers; \<open>String(v)\<close> of the other
  JavaScript numbers is floating-point printing and is left out.
\<close>

datatype cell = Null | Str string | Num int | Bool bool

definition DQUOTE :: char where "DQUOTE = CHR 0x22"
definition COMMA :: char where "COMMA = CHR 0x2C"
definition LF :: char where "LF = CHR 0x0A"
definition CR :: char where "CR = CHR 0x0D"

fun dec_digits :: "nat \<Rightarrow> string" where
  "dec_digits n =
     (if n < 10 then [char_of (48 + n)] else dec_digits (n div 10) @ [char_of (48 + n mod 10)])"

text \<open>\<open>String(v)\<close> for a value that is neither \<open>null\<close> nor \<open>undefined\<close>.\<close>

fun js_String :: "cell \<Rightarrow> string" where
  "js_String Null = ''null''"
| "js_String (Str s) = s"
| "js_String (Num i) = (if i < 0 then CHR ''-'' # dec_digits (nat (- i)) else dec_digits (nat i))"
| "js_String (Bool b) = (if b then ''true'' else ''false'')"

text \<open>\<open>s.replace(/"/g, '""')\<close>.\<close>

definition double_quotes :: "string \<Rightarrow> string" where
  "double_quotes s = concat (map (\<lambda>c. if c = DQUOTE then [DQUOTE, DQUOTE] else [c]) s)"

text \<open>The test of \<open>escapeCSV\<close>: the four \<open>includes\<close> calls, in the source's order.\<close>

definition needs_quotes :: "string \<Rightarrow> bool" where
  "needs_quotes s = (DQUOTE \<in> set s \<or> COMMA \<in> set s \<or> LF \<in> set s \<or> CR \<in> set s)"

definition escapeCSV :: "cell \<Rightarrow> string" where
  "escapeCSV v =
     (if v = Null then []
      else let s = js_String v in
        if needs_quotes s then [DQUOTE] @ double_quotes s @ [DQUOTE] else s)"

text \<open>
  The reader's side, after RFC 4180: a field that opens with a double quote runs to the
  first double quote that is not doubled, and a doubled one stands for one; any other
  field runs to the next comma or line break. The result is the field and the input left.
\<close>

fun rfc4180_quoted :: "string \<Rightarrow> (string \<times> string) option" where
  "rfc4180_quoted [] = None"
| "rfc4180_quoted (c # cs) =
     (if c = DQUOTE then
        (case cs of
           [] \<Rightarrow> Some ([], [])
         | d # ds \<Rightarrow>
             if d = DQUOTE
             then map_option (\<lambda>(f, r). (DQUOTE # f, r)) (rfc4180_quoted ds)
             else Some ([], cs))
      else map_option (\<lambda>(f, r). (c # f, r)) (rfc4180_quoted cs))"

definition field_end :: "char \<Rightarrow> bool" where
  "field_end c = (c = COMMA \<or> c = LF \<or> c = CR)"

definition rfc4180_field :: "string \<Rightarrow> (string \<times> string) option" where
  "rfc4180_field inp =
     (case inp of
        [] \<Rightarrow> Some ([], [])
      | c # cs \<Rightarrow>
          if c = DQUOTE then rfc4180_quoted cs
          else Some (takeWhile (\<lambda>x. \<not> field_end x) inp, dropWhile (\<lambda>x. \<not> field_end x) inp))"

section \<open>Payment webhook\<close>

text \<open>The tables the webhook writes, and the events it broadcasts.\<close>

record profile =
  p_email :: string
  p_plan :: string
  p_premium_expires_at :: "nat option"

record payment =
  pay_email :: string
  pay_amount :: int
  pay_reference :: string
  pay_status :: string
  pay_mode :: string
  pay_created_at :: nat

record pay_state =
  profiles :: "profile list"
  payments :: "payment list"
  broadcasts :: "(string \<times> string) list"

text \<open>
  What the handler reads of a \<open>charge.success\<close> event: \<open>event.data.customer.email\<close>
  (\<open>None\<close> when it is not a string), \<open>event.data.amount\<close>, \<open>event.data.reference\<close>
  and \<open>event.data.plan?.plan_code\<close>.
\<close>

record charge =
  charge_email :: "string option"
  charge_amount :: int
  charge_reference :: string
  charge_plan_code :: "string option"

text \<open>
  \<open>JSON.parse(req.body.toString())\<close> as far as the handler looks at it. \<open>Malformed\<close>:
  the text is not JSON, or it is \<open>null\<close>, so that reading \<open>event.event\<close> throws.
  \<open>Event name data\<close>: \<open>event.event\<close> is \<open>name\<close> (the empty string stands for a
  missing or non-string name) and \<open>data\<close> is \<open>None\<close> when \<open>event.data.customer\<close>
  cannot be read.
\<close>

datatype webhook_body = Malformed | Event string "charge option"

text \<open>How a call to the database ends: done, an \<open>error\<close> in the result, or a throw.\<close>

datatype db_outcome = DbOk | DbError | DbThrows

text \<open>
  The surroundings of the handler: the gateway secret and monthly plan code of
  \<open>process.env\<close>, \<open>crypto.createHmac('sha512', secret).update(body).digest('hex')\<close>,
  \<open>JSON.parse\<close>, whether \<open>express.json()\<close> takes a text (it is strict: the text
  must be JSON for an object or an array), the clock (\<open>new Date()\<close>, and that date
  one month and one year later), and how the two database calls end.
\<close>

record pay_env =
  PAYSTACK_SECRET_KEY :: string
  PAYSTACK_MONTHLY_PLAN :: "string option"
  hmac_sha512_hex :: "string \<Rightarrow> string \<Rightarrow> string"
  json_parse :: "string \<Rightarrow> webhook_body"
  json_strict :: "string \<Rightarrow> bool"
  clock_now :: nat
  month_later :: nat
  year_later :: nat
  profile_update :: db_outcome
  payment_insert :: db_outcome

text \<open>\<open>String.prototype.toLowerCase\<close>, on the ASCII letters.\<close>

definition lower_char :: "char \<Rightarrow> char" where
  "lower_char c =
     (let n = (of_char c :: nat) in if 65 \<le> n \<and> n \<le> 90 then char_of (n + 32) else c)"

definition toLowerCase :: "string \<Rightarrow> string" where
  "toLowerCase s = map lower_char s"

text \<open>
  \<open>.update({ plan: 'paid', premium_expires_at }).eq('email', email.toLowerCase())\<close>.
\<close>

definition upgrade_profiles :: "string \<Rightarrow> nat \<Rightarrow> profile list \<Rightarrow> profile list" where
  "upgrade_profiles email expires ps =
     map (\<lambda>p. if p_email p = toLowerCase email
              then p\<lparr>p_plan := ''paid'', p_premium_expires_at := Some expires\<rparr>
              else p) ps"

definition expiresAt :: "pay_env \<Rightarrow> charge \<Rightarrow> nat" where
  "expiresAt env c =
     (if charge_plan_code c = PAYSTACK_MONTHLY_PLAN env then month_later env else year_later env)"

definition payment_row :: "pay_env \<Rightarrow> string \<Rightarrow> charge \<Rightarrow> payment" where
  "payment_row env email c =
     \<lparr>pay_email = email, pay_amount = charge_amount c, pay_reference = charge_reference c,
      pay_status = ''success'',
      pay_mode = (if charge_plan_code c = PAYSTACK_MONTHLY_PLAN env then ''monthly'' else ''one-time''),
      pay_created_at = clock_now env\<rparr>"

text \<open>
  The inner \<open>try\<close> block of the handler. A throw (of \<open>email.toLowerCase()\<close> on a
  missing email, or of a database call) ends the block; an \<open>error\<close> in a result is
  looked at and dropped. \<open>notify\<close>: whether the variant ends the block with
  \<open>broadcastSSE('payments:success', ...)\<close>.
\<close>

definition apply_charge :: "bool \<Rightarrow> pay_env \<Rightarrow> charge \<Rightarrow> pay_state \<Rightarrow> pay_state" where
  "apply_charge notify env c st =
     (case charge_email c of
        None \<Rightarrow> st
      | Some email \<Rightarrow>
          if profile_update env = DbThrows then st
          else
            let st1 = (if profile_update env = DbOk
                       then st\<lparr>profiles := upgrade_profiles email (expiresAt env c) (profiles st)\<rparr>
                       else st)
            in if payment_insert env = DbThrows then st1
               else
                 let st2 = (if payment_insert env = DbOk
                            then st1\<lparr>payments := payments st1 @ [payment_row env email c]\<rparr>
                            else st1)
                 in if notify
                    then st2\<lparr>broadcasts := broadcasts st2 @ [(''payments:success'', email)]\<rparr>
                    else st2)"

text \<open>
  The request as it reaches the server: the \<open>Content-Type\<close> header (absent,
  \<open>application/json\<close>, or another type), the \<open>x-paystack-signature\<close> header, and
  the bytes of the body.
\<close>

datatype media_type = NoContentType | ApplicationJson | OtherContentType

record webhook_request =
  content_type :: media_type
  x_paystack_signature :: "string option"
  sent_body :: string

text \<open>
  \<open>req.body\<close> as the handler finds it: the \<open>Buffer\<close> of the bytes sent, or an object
  (the value that \<open>express.json\<close> parsed, or the \<open>{}\<close> that is left where no parser
  read the body).
\<close>

datatype req_body = Buffer string | Object

text \<open>
  The body parsers in front of the handler, in the order in which they run. The
  \<open>app.use(express.json({ limit: '15mb' }))\<close> of server/app.js comes first, for every
  route: on a request of type \<open>application/json\<close> it reads the body and sets
  \<open>req.body\<close> to the parsed value (\<open>{}\<close> for an empty body), or ends the request
  with status 400 when it does not take the text; any other request it passes on with
  \<open>req.body = {}\<close>. The \<open>express.raw({ type: '*/*' })\<close> of the route comes second:
  it passes on a body that is parsed already, and reads a body of any other type into
  a \<open>Buffer\<close>; a request without \<open>Content-Type\<close> has no type to match.
  \<open>None\<close>: the request has ended with 400 and the handler does not run.
\<close>

definition body_parsers :: "pay_env \<Rightarrow> webhook_request \<Rightarrow> req_body option" where
  "body_parsers env rq =
     (case content_type rq of
        ApplicationJson \<Rightarrow>
          if sent_body rq = [] \<or> json_strict env (sent_body rq) then Some Object else None
      | OtherContentType \<Rightarrow> Some (Buffer (sent_body rq))
      | NoContentType \<Rightarrow> Some Object)"

text \<open>
  The handler of \<open>POST /payments/webhook\<close> in server/app.js: the status sent and the
  state left. \<open>createHmac(...).update(req.body)\<close> throws on a body that is not a
  \<open>Buffer\<close>; the outer \<open>catch\<close> answers 500.
\<close>

definition payments_webhook_handler ::
  "pay_env \<Rightarrow> string option \<Rightarrow> req_body \<Rightarrow> pay_state \<Rightarrow> nat \<times> pay_state" where
  "payments_webhook_handler env signature body st =
     (case body of
        Object \<Rightarrow> (500, st)
      | Buffer raw \<Rightarrow>
          if Some (hmac_sha512_hex env (PAYSTACK_SECRET_KEY env) raw) \<noteq> signature then (401, st)
          else
            (case json_parse env raw of
               Malformed \<Rightarrow> (500, st)
             | Event name dat \<Rightarrow>
                 if name = ''charge.success''
                 then (case dat of
                         None \<Rightarrow> (500, st)
                       | Some c \<Rightarrow> (200, apply_charge True env c st))
                 else (200, st)))"

text \<open>
  The handler of \<open>POST /webhook\<close> in server/routes/excel.js: the same steps without the
  outer \<open>try\<close> and without the broadcast. Where the handler throws, no status is sent.
\<close>

definition router_webhook_handler ::
  "pay_env \<Rightarrow> string option \<Rightarrow> req_body \<Rightarrow> pay_state \<Rightarrow> nat option \<times> pay_state" where
  "router_webhook_handler env signature body st =
     (case body of
        Object \<Rightarrow> (None, st)
      | Buffer raw \<Rightarrow>
          if Some (hmac_sha512_hex env (PAYSTACK_SECRET_KEY env) raw) \<noteq> signature
          then (Some 401, st)
          else
            (case json_parse env raw of
               Malformed \<Rightarrow> (None, st)
             | Event name dat \<Rightarrow>
                 if name = ''charge.success''
                 then (case dat of
                         None \<Rightarrow> (None, st)
                       | Some c \<Rightarrow> (Some 200, apply_charge False env c st))
                 else (Some 200, st)))"

text \<open>
  The two routes: the body parsers, then the handler with the signature header. The
  router is mounted on the same application, behind the same \<open>express.json\<close>.
\<close>

definition payments_webhook :: "pay_env \<Rightarrow> webhook_request \<Rightarrow> pay_state \<Rightarrow> nat \<times> pay_state" where
  "payments_webhook env rq st =
     (case body_parsers env rq of
        None \<Rightarrow> (400, st)
      | Some body \<Rightarrow> payments_webhook_handler env (x_paystack_signature rq) body st)"

definition router_webhook ::
  "pay_env \<Rightarrow> webhook_request \<Rightarrow> pay_state \<Rightarrow> nat option \<times> pay_state" where
  "router_webhook env rq st =
     (case body_parsers env rq of
        None \<Rightarrow> (Some 400, st)
      | Some body \<Rightarrow> router_webhook_handler env (x_paystack_signature rq) body st)"

text \<open>
  A stand-in environment for running the routes on examples: the digest is the secret
  followed by the body, and the parsers know two bodies, each the text of a JSON object.
\<close>

definition example_charge :: charge where
  "example_charge =
     \<lparr>charge_email = Some ''Ann@Example.com'', charge_amount = 5000,
      charge_reference = ''ref1'', charge_plan_code = Some ''PLN_m''\<rparr>"

definition example_env :: pay_env where
  "example_env =
     \<lparr>PAYSTACK_SECRET_KEY = ''sk'', PAYSTACK_MONTHLY_PLAN = Some ''PLN_m'',
      hmac_sha512_hex = (\<lambda>k b. k @ b),
      json_parse = (\<lambda>b. if b = ''charge'' then Event ''charge.success'' (Some example_charge)
                        else if b = ''transfer'' then Event ''transfer.success'' None
                        else Malformed),
      json_strict = (\<lambda>b. b = ''charge'' \<or> b = ''transfer''),
      clock_now = 1000, month_later = 2000, year_later = 3000,
      profile_update = DbOk, payment_insert = DbOk\<rparr>"

definition example_pay_state :: pay_state where
  "example_pay_state =
     \<lparr>profiles = [\<lparr>p_email = ''ann@example.com'', p_plan = ''free'', p_premium_expires_at = None\<rparr>,
                  \<lparr>p_email = ''bob@example.com'', p_plan = ''free'', p_premium_expires_at = None\<rparr>],
      payments = [], broadcasts = []\<rparr>"

text \<open>
  A \<open>charge.success\<close> event and an event of another type, each signed with the
  secret and sent as the gateway sends it, with \<open>Content-Type: application/json\<close>.
\<close>

definition charge_request :: webhook_request where
  "charge_request =
     \<lparr>content_type = ApplicationJson, x_paystack_signature = Some ''skcharge'',
      sent_body = ''charge''\<rparr>"

definition transfer_request :: webhook_request where
  "transfer_request =
     \<lparr>content_type = ApplicationJson, x_paystack_signature = Some ''sktransfer'',
      sent_body = ''transfer''\<rparr>"

section \<open>Worksheets\<close>

text \<open>
  The in-memory worksheet of the spreadsheet library (ExcelJS), as far as the handlers
  use it. \<open>ws_rows\<close> mirrors the library's array of rows, each an array of cells: row
  \<open>r\<close> and column \<open>c\<close> (both counted from 1) are at positions \<open>r - 1\<close> and
  \<open>c - 1\<close>; a row or cell that was never created reads as empty. \<open>ws_columns\<close> is
  the length of \<open>ws.columns\<close> when the sheet defines columns.
\<close>

record worksheet =
  ws_name :: string
  ws_rows :: "cell list list"
  ws_columns :: "nat option"

definition pad :: "'a list \<Rightarrow> nat \<Rightarrow> 'a \<Rightarrow> 'a list" where
  "pad xs n d = xs @ replicate (n - length xs) d"

text \<open>\<open>ws.getRow(r).getCell(c).value ?? null\<close>, read without creating anything.\<close>

definition cell_value :: "worksheet \<Rightarrow> nat \<Rightarrow> nat \<Rightarrow> cell" where
  "cell_value ws r c =
     (if 1 \<le> r \<and> r \<le> length (ws_rows ws) \<and> 1 \<le> c \<and> c \<le> length (ws_rows ws ! (r - 1))
      then ws_rows ws ! (r - 1) ! (c - 1) else Null)"

text \<open>\<open>ws.getRow(r)\<close> creates the rows up to \<open>r\<close>; \<open>row.getCell(c)\<close> the cells up to \<open>c\<close>.\<close>

definition getRow :: "worksheet \<Rightarrow> nat \<Rightarrow> worksheet" where
  "getRow ws r = ws\<lparr>ws_rows := pad (ws_rows ws) r []\<rparr>"

definition getCell :: "worksheet \<Rightarrow> nat \<Rightarrow> nat \<Rightarrow> worksheet" where
  "getCell ws r c =
     (let rows = pad (ws_rows ws) r [] in
      ws\<lparr>ws_rows := rows[r - 1 := pad (rows ! (r - 1)) c Null]\<rparr>)"

text \<open>\<open>ws.getRow(r).getCell(c).value = v\<close>.\<close>

definition set_cell :: "worksheet \<Rightarrow> nat \<Rightarrow> nat \<Rightarrow> cell \<Rightarrow> worksheet" where
  "set_cell ws r c v =
     (let rows = pad (ws_rows ws) r [];
          row = pad (rows ! (r - 1)) c Null
      in ws\<lparr>ws_rows := rows[r - 1 := row[c - 1 := v]]\<rparr>)"

text \<open>
  The library's counters. \<open>rowCount\<close> is the length of the row array;
  \<open>actualRowCount\<close> counts the rows that hold a value, and \<open>actualColumnCount\<close> the
  columns in which some row holds a value. A row or column without a value in the
  middle of the sheet is not counted.
\<close>

definition has_values :: "cell list \<Rightarrow> bool" where
  "has_values row = list_ex (\<lambda>v. v \<noteq> Null) row"

definition rowCount :: "worksheet \<Rightarrow> nat" where
  "rowCount ws = length (ws_rows ws)"

definition actualRowCount :: "worksheet \<Rightarrow> nat" where
  "actualRowCount ws = length (filter has_values (ws_rows ws))"

definition row_width :: "cell list list \<Rightarrow> nat" where
  "row_width rows = foldr (\<lambda>row m. max (length row) m) rows 0"

definition column_has_value :: "cell list list \<Rightarrow> nat \<Rightarrow> bool" where
  "column_has_value rows c = list_ex (\<lambda>row. c < length row \<and> row ! c \<noteq> Null) rows"

definition actualColumnCount :: "worksheet \<Rightarrow> nat" where
  "actualColumnCount ws =
     length (filter (column_has_value (ws_rows ws)) [0..<row_width (ws_rows ws)])"

text \<open>JavaScript's \<open>a || b\<close> on numbers: \<open>0\<close> is falsy.\<close>

definition num_or :: "nat \<Rightarrow> nat \<Rightarrow> nat" where
  "num_or a b = (if a \<noteq> 0 then a else b)"

text \<open>\<open>ws.actualRowCount || ws.rowCount\<close>.\<close>

definition used_rows :: "worksheet \<Rightarrow> nat" where
  "used_rows ws = num_or (actualRowCount ws) (rowCount ws)"

text \<open>\<open>ws.actualColumnCount || (ws.columns ? ws.columns.length : 0)\<close>.\<close>

definition used_cols :: "worksheet \<Rightarrow> nat" where
  "used_cols ws =
     num_or (actualColumnCount ws) (case ws_columns ws of None \<Rightarrow> 0 | Some n \<Rightarrow> n)"

section \<open>Saving a grid\<close>

text \<open>
  The \<open>data\<close> of a save-all request. An element of \<open>data\<close> that is not an array is
  wrapped into a one-cell row; \<open>data\<close> that is not an array gives the grid \<open>[[]]\<close>.
\<close>

datatype row_in = RowArray "cell list" | RowScalar cell

datatype data_in = NoData | NotArray | DataArray "row_in list"

definition normalize_grid :: "data_in \<Rightarrow> cell list list" where
  "normalize_grid d =
     (case d of
        DataArray rs \<Rightarrow> map (\<lambda>r. case r of RowArray xs \<Rightarrow> xs | RowScalar v \<Rightarrow> [v]) rs
      | _ \<Rightarrow> [[]])"

text \<open>\<open>grid.reduce((m, r) => Math.max(m, r.length), 0)\<close>.\<close>

definition maxColIn :: "cell list list \<Rightarrow> nat" where
  "maxColIn grid = fold (\<lambda>r m. max m (length r)) grid 0"

text \<open>\<open>(grid[r] || [])[c] ?? null\<close>, with \<open>r\<close> and \<open>c\<close> counted from 0.\<close>

definition grid_value :: "cell list list \<Rightarrow> nat \<Rightarrow> nat \<Rightarrow> cell" where
  "grid_value grid r c =
     (if r < length grid \<and> c < length (grid ! r) then grid ! r ! c else Null)"

text \<open>
  A loop over rows with a loop over columns inside: the body of the row loop fetches
  the row, the body of the column loop fetches the cell and then acts on it.
\<close>

definition for_cells ::
  "nat list \<Rightarrow> nat list \<Rightarrow> (worksheet \<Rightarrow> nat \<Rightarrow> nat \<Rightarrow> worksheet) \<Rightarrow> worksheet \<Rightarrow> worksheet" where
  "for_cells rs cs f ws = fold (\<lambda>r w. fold (\<lambda>c w'. f (getCell w' r c) r c) cs (getRow w r)) rs ws"

text \<open>\<open>if (oldVal !== newVal) cell.value = newVal\<close>.\<close>

definition write_cell :: "cell list list \<Rightarrow> worksheet \<Rightarrow> nat \<Rightarrow> nat \<Rightarrow> worksheet" where
  "write_cell grid ws r c =
     (let newVal = grid_value grid (r - 1) (c - 1); oldVal = cell_value ws r c
      in if oldVal \<noteq> newVal then set_cell ws r c newVal else ws)"

text \<open>\<open>if (cell.value != null) cell.value = null\<close>.\<close>

definition clear_cell :: "worksheet \<Rightarrow> nat \<Rightarrow> nat \<Rightarrow> worksheet" where
  "clear_cell ws r c = (if cell_value ws r c \<noteq> Null then set_cell ws r c Null else ws)"

text \<open>
  The three loops of save-all on the worksheet: write the cells of the grid, then null
  the rows below it and the columns to its right. The bounds of the two clearing loops
  are read from the worksheet once, after the writes.
\<close>

definition apply_grid :: "cell list list \<Rightarrow> worksheet \<Rightarrow> worksheet" where
  "apply_grid grid ws =
     (let maxRowIn = length grid;
          maxColIn = maxColIn grid;
          ws1 = for_cells [1..<maxRowIn + 1] [1..<maxColIn + 1] (write_cell grid) ws;
          existingMaxRow = used_rows ws1;
          existingMaxCol = used_cols ws1;
          ws2 = for_cells [maxRowIn + 1..<existingMaxRow + 1] [1..<existingMaxCol + 1] clear_cell ws1
      in for_cells [1..<max existingMaxRow maxRowIn + 1] [maxColIn + 1..<existingMaxCol + 1]
           clear_cell ws2)"

text \<open>
  The grid of the preview: \<open>max(maxRow, 1)\<close> rows of \<open>max(maxCol, 1)\<close> cells, and the
  \<open>rows\<close> and \<open>cols\<close> of the response.
\<close>

record preview =
  pv_sheet :: string
  pv_grid :: "cell list list"
  pv_rows :: nat
  pv_cols :: nat

definition preview_of :: "string \<Rightarrow> worksheet \<Rightarrow> preview" where
  "preview_of sheet ws =
     (let maxRow = num_or (actualRowCount ws) (num_or (rowCount ws) 0);
          maxCol = used_cols ws;
          safeRowCount = max maxRow 1;
          safeColCount = max maxCol 1
      in \<lparr>pv_sheet = sheet,
          pv_grid = map (\<lambda>r. map (\<lambda>c. cell_value ws r c) [1..<safeColCount + 1])
                      [1..<safeRowCount + 1],
          pv_rows = maxRow, pv_cols = maxCol\<rparr>)"

definition empty_sheet :: "string \<Rightarrow> worksheet" where
  "empty_sheet name = \<lparr>ws_name = name, ws_rows = [], ws_columns = None\<rparr>"

text \<open>
  Sheets whose counters reach the last used row and column: no row without a value lies
  above a row with one, and no column without a value lies left of a column with one.
\<close>

definition no_row_gap :: "worksheet \<Rightarrow> bool" where
  "no_row_gap ws =
     (\<forall>i \<in> set [0..<length (ws_rows ws)]. has_values (ws_rows ws ! i) \<longrightarrow> i < actualRowCount ws)"

definition no_column_gap :: "worksheet \<Rightarrow> bool" where
  "no_column_gap ws =
     (\<forall>j \<in> set [0..<row_width (ws_rows ws)].
        column_has_value (ws_rows ws) j \<longrightarrow> j < actualColumnCount ws)"

text \<open>Grids with at least one row, and a value in every row and in every column.\<close>

definition full_grid :: "cell list list \<Rightarrow> bool" where
  "full_grid grid =
     (grid \<noteq> [] \<and> list_all has_values grid \<and>
      (\<forall>j \<in> set [0..<maxColIn grid]. column_has_value grid j))"

text \<open>The grid made rectangular: every row filled with \<open>null\<close> up to the longest row.\<close>

definition padded_grid :: "cell list list \<Rightarrow> cell list list" where
  "padded_grid grid = map (\<lambda>row. pad row (maxColIn grid) Null) grid"

section \<open>Workbooks, storage and the audit table\<close>

text \<open>A workbook is the list of its worksheets, in the library's order.\<close>

type_synonym workbook = "worksheet list"

text \<open>\<open>workbook.getWorksheet(name)\<close>: the first sheet of that name.\<close>

definition getWorksheet :: "workbook \<Rightarrow> string \<Rightarrow> worksheet option" where
  "getWorksheet wb name = find (\<lambda>w. ws_name w = name) wb"

text \<open>\<open>workbook.removeWorksheet(ws.id)\<close> for a sheet \<open>ws\<close> found by \<open>getWorksheet\<close>.\<close>

definition removeWorksheet :: "workbook \<Rightarrow> worksheet \<Rightarrow> workbook" where
  "removeWorksheet wb ws = remove1 ws wb"

text \<open>
  The library's check of the name of a sheet that is added. It throws on the empty
  name, on the name "History", on a name that holds one of the characters
  \<open>* ? : \ / [ ]\<close>, on a name that begins or ends with a single quotation mark, and on
  a name that a sheet of the workbook carries already, in whatever letter case. A name
  of more than 31 characters is cut to its first 31 before that last comparison.
  \<open>None\<close>: the library throws; otherwise the name the new sheet gets.
\<close>

definition illegal_name_chars :: string where
  "illegal_name_chars = [CHR ''*'', CHR ''?'', CHR '':'', CHR 0x5C, CHR ''/'', CHR ''['', CHR '']'']"

definition worksheet_name :: "workbook \<Rightarrow> string \<Rightarrow> string option" where
  "worksheet_name wb name =
     (if name = [] \<or> name = ''History'' \<or> list_ex (\<lambda>c. c \<in> set illegal_name_chars) name \<or>
         hd name = CHR 0x27 \<or> last name = CHR 0x27
      then None
      else
        let n = take 31 name in
        if list_ex (\<lambda>w. toLowerCase (ws_name w) = toLowerCase n) wb then None else Some n)"

text \<open>
  \<open>workbook.addWorksheet(name)\<close>: the new, empty sheet, which the library puts behind
  the sheets of the workbook; \<open>None\<close> when the library throws on the name. The
  handlers go on to change the new sheet in place, so they put it behind the other
  sheets once it is changed.
\<close>

definition addWorksheet :: "workbook \<Rightarrow> string \<Rightarrow> worksheet option" where
  "addWorksheet wb name = map_option empty_sheet (worksheet_name wb name)"

text \<open>\<open>workbook.worksheets.map(ws => ws.name)\<close>.\<close>

definition sheet_names :: "workbook \<Rightarrow> string list" where
  "sheet_names wb = map ws_name wb"

text \<open>
  The handlers change a worksheet in place; the workbook then holds the changed sheet
  where the sheet of that name was.
\<close>

fun replace_sheet :: "workbook \<Rightarrow> string \<Rightarrow> worksheet \<Rightarrow> workbook" where
  "replace_sheet [] name ws' = []"
| "replace_sheet (w # wb) name ws' =
     (if ws_name w = name then ws' # wb else w # replace_sheet wb name ws')"

text \<open>
  A stored object: bytes that \<open>workbook.xlsx.load\<close> rejects, or the bytes of a workbook.
  Writing a workbook and loading the bytes again gives the workbook back.
\<close>

datatype blob = Corrupt | Book workbook

record audit_entry =
  a_user_id :: string
  a_email :: string
  a_action :: string
  a_sheet_name :: "string option"
  a_created_at :: nat

text \<open>
  What the handlers read and write: the objects of the bucket by key, the rows of
  \<open>excel_audit\<close> in insertion order (\<open>a_created_at\<close> in seconds since the epoch), and
  the events sent to the dashboard stream.
\<close>

record excel_state =
  storage :: "(string \<times> blob) list"
  audit :: "audit_entry list"
  sse :: "(string \<times> string) list"

text \<open>
  The surroundings of a request: the clock; whether reading \<open>excel_audit\<close> returns an
  error; the error, if any, of the storage \<open>update\<close> call; and, for each \<open>i\<close>, the
  value of \<open>Math.floor(Math.random() * (i + 1))\<close> drawn in the shuffle.
\<close>

record excel_env =
  now :: nat
  audit_read_error :: bool
  upload_error :: "string option"
  pick :: "nat \<Rightarrow> nat"

text \<open>The request after \<open>requireAuth\<close> and \<open>attachUserPlanAndFile\<close>.\<close>

record request = full_ctx +
  user_id :: string

datatype 'a response = Failure nat string | Success 'a

text \<open>\<open>getBufferFromStorage\<close>: \<open>None\<close> stands for \<open>error || !buffer\<close>.\<close>

definition getBufferFromStorage :: "excel_state \<Rightarrow> string \<Rightarrow> blob option" where
  "getBufferFromStorage st key = map_of (storage st) key"

fun store_put :: "string \<Rightarrow> blob \<Rightarrow> (string \<times> blob) list \<Rightarrow> (string \<times> blob) list" where
  "store_put key b [] = [(key, b)]"
| "store_put key b ((k, b') # rest) =
     (if k = key then (key, b) # rest else (k, b') # store_put key b rest)"

text \<open>\<open>updateBufferToStorage\<close> when the storage service reports no error.\<close>

definition updateBufferToStorage :: "excel_state \<Rightarrow> string \<Rightarrow> blob \<Rightarrow> excel_state" where
  "updateBufferToStorage st key b = st\<lparr>storage := store_put key b (storage st)\<rparr>"

text \<open>\<open>req.supabase.from('excel_audit').insert({...})\<close>; \<open>created_at\<close> is the clock.\<close>

definition audit_insert ::
  "excel_env \<Rightarrow> request \<Rightarrow> string \<Rightarrow> string option \<Rightarrow> excel_state \<Rightarrow> excel_state" where
  "audit_insert env req action sheet st =
     st\<lparr>audit := audit st @
        [\<lparr>a_user_id = user_id req, a_email = userEmail req, a_action = action,
          a_sheet_name = sheet, a_created_at = now env\<rparr>]\<rparr>"

definition broadcastSSE :: "string \<Rightarrow> string \<Rightarrow> excel_state \<Rightarrow> excel_state" where
  "broadcastSSE event sheet st = st\<lparr>sse := sse st @ [(event, sheet)]\<rparr>"

section \<open>Daily quota of the free plan\<close>

text \<open>
  \<open>new Date().toISOString().split('T')[0]\<close> compared with \<open>created_at\<close>: the first
  second of the current UTC day.
\<close>

definition day_start :: "nat \<Rightarrow> nat" where
  "day_start t = (t div 86400) * 86400"

text \<open>
  The count query: rows of the user whose action is one of \<open>actions\<close> and whose
  \<open>created_at\<close> is not before the start of the day.
\<close>

definition count_today :: "audit_entry list \<Rightarrow> string \<Rightarrow> string list \<Rightarrow> nat \<Rightarrow> nat" where
  "count_today rows user actions t =
     length (filter (\<lambda>e. a_user_id e = user \<and> a_action e \<in> set actions \<and>
                         day_start t \<le> a_created_at e) rows)"

text \<open>The \<open>count\<close> of the result; \<open>null\<close> when the query returns an error.\<close>

definition audit_count :: "excel_env \<Rightarrow> excel_state \<Rightarrow> request \<Rightarrow> string list \<Rightarrow> nat option" where
  "audit_count env st req actions =
     (if audit_read_error env then None
      else Some (count_today (audit st) (user_id req) actions (now env)))"

text \<open>\<open>count >= 3\<close>, which is false for \<open>null\<close>.\<close>

definition over_limit :: "nat option \<Rightarrow> bool" where
  "over_limit cnt = (case cnt of None \<Rightarrow> False | Some n \<Rightarrow> 3 \<le> n)"

text \<open>The quota checks of the four handlers, each with its own action list and message.\<close>

definition add_sheet_quota :: "excel_env \<Rightarrow> request \<Rightarrow> excel_state \<Rightarrow> refusal option" where
  "add_sheet_quota env req st =
     (if userPlan req = ''free'' \<and> over_limit (audit_count env st req [''add_sheet''])
      then Some (403, ''Free plan limit: max 3 new sheets per day'') else None)"

definition delete_sheet_quota :: "excel_env \<Rightarrow> request \<Rightarrow> excel_state \<Rightarrow> refusal option" where
  "delete_sheet_quota env req st =
     (if userPlan req = ''free'' \<and>
         over_limit (audit_count env st req
           [''save_all'', ''delete_sheet'', ''edit_sheet'', ''add_sheet''])
      then Some (403, ''Free plan limit: max 3 edits/saves per day'') else None)"

definition get_cell_quota :: "excel_env \<Rightarrow> request \<Rightarrow> excel_state \<Rightarrow> refusal option" where
  "get_cell_quota env req st =
     (if userPlan req = ''free'' \<and>
         over_limit (audit_count env st req
           [''get_cell'', ''save_all'', ''delete_sheet'', ''add_sheet''])
      then Some (403, ''Free plan limit: max 3 queries/saves per day'') else None)"

definition save_all_quota :: "excel_env \<Rightarrow> request \<Rightarrow> excel_state \<Rightarrow> refusal option" where
  "save_all_quota env req st =
     (if userPlan req = ''free'' \<and> over_limit (audit_count env st req [''save_all''])
      then Some (403, ''Free plan limit: max 3 saves per day'') else None)"

text \<open>\<open>CONFIG.FREE_LIMITS.maxRowsSaveAll\<close>.\<close>

definition maxRowsSaveAll :: nat where
  "maxRowsSaveAll = 5000"

section \<open>Sheet list order\<close>

text \<open>\<open>[...new Set(xs)]\<close>: the elements in the order of their first occurrence.\<close>

fun uniq_from :: "string list \<Rightarrow> string list \<Rightarrow> string list" where
  "uniq_from seen [] = []"
| "uniq_from seen (x # xs) =
     (if x \<in> set seen then uniq_from seen xs else x # uniq_from (x # seen) xs)"

definition set_union :: "string list \<Rightarrow> string list \<Rightarrow> string list" where
  "set_union xs ys = uniq_from [] (xs @ ys)"

text \<open>
  The row with the greatest \<open>created_at\<close> (\<open>order('created_at', { ascending: false
  }).limit(1)\<close>); of rows with the same time the one inserted last is taken.
\<close>

fun newest :: "audit_entry list \<Rightarrow> audit_entry option" where
  "newest [] = None"
| "newest (e # es) =
     (case newest es of
        None \<Rightarrow> Some e
      | Some f \<Rightarrow> if a_created_at e \<le> a_created_at f then Some f else Some e)"

text \<open>
  The latest sheet of the user by the audit table: \<open>auditRows[0].sheet_name || null\<close>,
  and \<open>null\<close> when the query fails or finds nothing.
\<close>

definition latest_sheet :: "excel_env \<Rightarrow> excel_state \<Rightarrow> request \<Rightarrow> string option" where
  "latest_sheet env st req =
     (if audit_read_error env then None
      else
        (case newest (filter (\<lambda>e. a_user_id e = user_id req \<and>
                                   a_action e \<in> set [''save_all'', ''add_sheet'', ''delete_sheet''])
                        (audit st)) of
           None \<Rightarrow> None
         | Some e \<Rightarrow>
             (case a_sheet_name e of
                None \<Rightarrow> None
              | Some s \<Rightarrow> if s = [] then None else Some s)))"

text \<open>
  "Pin latest at top, preserve original order for the rest": \<open>indexOf\<close>, \<open>splice\<close> of
  that one position, \<open>unshift\<close>.
\<close>

definition pin_latest :: "string list \<Rightarrow> string option \<Rightarrow> string list" where
  "pin_latest sheets latestSheet =
     (case latestSheet of
        None \<Rightarrow> sheets
      | Some l \<Rightarrow>
          if sheets \<noteq> [] \<and> l \<noteq> [] \<and> l \<in> set sheets then l # remove1 l sheets else sheets)"

text \<open>\<open>[rest[i], rest[j]] = [rest[j], rest[i]]\<close>.\<close>

definition swap :: "nat \<Rightarrow> nat \<Rightarrow> 'a list \<Rightarrow> 'a list" where
  "swap i j xs = xs[i := xs ! j, j := xs ! i]"

text \<open>
  "New sheet at top, rest shuffled": the loop \<open>for (i = rest.length - 1; i > 0; i--)\<close>
  that swaps position \<open>i\<close> with the position drawn for \<open>i\<close>.
\<close>

fun shuffle_from :: "(nat \<Rightarrow> nat) \<Rightarrow> nat \<Rightarrow> 'a list \<Rightarrow> 'a list" where
  "shuffle_from draw 0 xs = xs"
| "shuffle_from draw (Suc i) xs = shuffle_from draw i (swap (Suc i) (draw (Suc i)) xs)"

definition shuffle :: "(nat \<Rightarrow> nat) \<Rightarrow> 'a list \<Rightarrow> 'a list" where
  "shuffle draw xs = shuffle_from draw (length xs - 1) xs"

section \<open>Route handlers\<close>

text \<open>
  Each handler maps the request and the state to the response and the state left. A
  throw inside the handler's \<open>try\<close> (the library rejecting the stored bytes, or the
  name of a sheet to add) is the response 500.
\<close>

abbreviation server_error :: "'a response" where
  "server_error \<equiv> Failure 500 ''Unexpected server error''"

text \<open>The message \<open>`Sheet "${sheet}" not found`\<close>.\<close>

definition sheet_not_found :: "string \<Rightarrow> string" where
  "sheet_not_found sheet = ''Sheet '' @ [DQUOTE] @ sheet @ [DQUOTE] @ '' not found''"

text \<open>\<open>req.userRole === 'superadmin' ? CONFIG.EXCEL_FILE_KEY : req.fileKey\<close>.\<close>

definition target_key :: "config \<Rightarrow> request \<Rightarrow> string" where
  "target_key cfg req = (if userRole req = ''superadmin'' then EXCEL_FILE_KEY cfg else fileKey req)"

text \<open>
  The second half of \<open>POST /excel/add-sheet\<close>, from \<open>workbook.addWorksheet(name)\<close> on.
\<close>

definition add_sheet_store ::
  "excel_env \<Rightarrow> request \<Rightarrow> string \<Rightarrow> string \<Rightarrow> workbook \<Rightarrow> excel_state \<Rightarrow>
   (string \<times> string list) response \<times> excel_state" where
  "add_sheet_store env req key name wb st =
     (case addWorksheet wb name of
        None \<Rightarrow> (server_error, st)
      | Some ws \<Rightarrow>
          let out = wb @ [set_cell ws 1 1 (Str ''New sheet created'')] in
          case upload_error env of
            Some msg \<Rightarrow> (Failure 500 msg, st)
          | None \<Rightarrow>
              let st1 = updateBufferToStorage st key (Book out);
                  sheetNames = sheet_names out;
                  st2 = audit_insert env req ''add_sheet'' (Some name) st1;
                  st3 = broadcastSSE ''excel:add_sheet'' name st2;
                  rest = filter (\<lambda>s. s \<noteq> name) sheetNames
              in (Success (name, name # shuffle (pick env) rest), st3))"

text \<open>\<open>POST /excel/add-sheet\<close>. An absent or empty \<open>name\<close> is the empty string.\<close>

definition excel_add_sheet ::
  "config \<Rightarrow> excel_env \<Rightarrow> request \<Rightarrow> string \<Rightarrow> bool \<Rightarrow> excel_state \<Rightarrow>
   (string \<times> string list) response \<times> excel_state" where
  "excel_add_sheet cfg env req name overwrite st =
     (if name = [] then (Failure 400 ''Sheet name is required'', st)
      else
        case add_sheet_quota env req st of
          Some (code, msg) \<Rightarrow> (Failure code msg, st)
        | None \<Rightarrow>
            let key = target_key cfg req in
            if key = [] then (Failure 404 ''Workbook key not found'', st)
            else
              (case getBufferFromStorage st key of
                 None \<Rightarrow>
                   (case addWorksheet [] ''Sheet1'' of
                      None \<Rightarrow> (server_error, st)
                    | Some sheet1 \<Rightarrow>
                        (let workbook = [sheet1] in
                         case getWorksheet workbook name of
                           None \<Rightarrow> add_sheet_store env req key name workbook st
                         | Some existing \<Rightarrow>
                             if \<not> overwrite then (Failure 400 ''Sheet already exists'', st)
                             else add_sheet_store env req key name
                                    (removeWorksheet workbook existing) st))
               | Some Corrupt \<Rightarrow> (server_error, st)
               | Some (Book workbook) \<Rightarrow>
                   (case getWorksheet workbook name of
                      None \<Rightarrow> add_sheet_store env req key name workbook st
                    | Some existing \<Rightarrow>
                        if \<not> overwrite then (Failure 400 ''Sheet already exists'', st)
                        else add_sheet_store env req key name
                               (removeWorksheet workbook existing) st)))"

text \<open>\<open>POST /excel/delete-sheet\<close>.\<close>

definition excel_delete_sheet ::
  "config \<Rightarrow> excel_env \<Rightarrow> request \<Rightarrow> string \<Rightarrow> excel_state \<Rightarrow>
   (string \<times> string list) response \<times> excel_state" where
  "excel_delete_sheet cfg env req name st =
     (if name = [] then (Failure 400 ''Sheet name required'', st)
      else
        case delete_sheet_quota env req st of
          Some (code, msg) \<Rightarrow> (Failure code msg, st)
        | None \<Rightarrow>
            let key = target_key cfg req in
            if key = [] then (Failure 404 ''Workbook key not found'', st)
            else
              (case getBufferFromStorage st key of
                 None \<Rightarrow> (Failure 404 ''Workbook not found'', st)
               | Some Corrupt \<Rightarrow> (server_error, st)
               | Some (Book workbook) \<Rightarrow>
                   (case getWorksheet workbook name of
                      None \<Rightarrow> (Failure 400 ''Sheet not found'', st)
                    | Some ws \<Rightarrow>
                        (let out = removeWorksheet workbook ws in
                         case upload_error env of
                           Some msg \<Rightarrow> (Failure 500 msg, st)
                         | None \<Rightarrow>
                             let st1 = updateBufferToStorage st key (Book out);
                                 remainingSheets = sheet_names out;
                                 st2 = audit_insert env req ''delete_sheet'' (Some name) st1;
                                 st3 = broadcastSSE ''excel:delete_sheet'' name st2
                             in (Success (name, remainingSheets), st3)))))"

text \<open>
  The \<open>cell\<close> parameter of \<open>GET /excel/get\<close>: absent, an address the library rejects,
  or the row and column of a valid address.
\<close>

datatype address = NoAddress | BadAddress | At nat nat

text \<open>\<open>GET /excel/get\<close>; \<open>scope\<close> is the query parameter of that name.\<close>

definition excel_get ::
  "config \<Rightarrow> excel_env \<Rightarrow> request \<Rightarrow> string \<Rightarrow> address \<Rightarrow> string \<Rightarrow> excel_state \<Rightarrow>
   cell response \<times> excel_state" where
  "excel_get cfg env req sheet cell scope st =
     (if sheet = [] \<or> cell = NoAddress then (Failure 400 ''Sheet and cell are required'', st)
      else
        case get_cell_quota env req st of
          Some (code, msg) \<Rightarrow> (Failure code msg, st)
        | None \<Rightarrow>
            let key = (if userRole req = ''superadmin'' \<and> scope = ''master''
                       then EXCEL_FILE_KEY cfg else fileKey req) in
            if key = [] then (Failure 404 ''Workbook key not found'', st)
            else
              (case getBufferFromStorage st key of
                 None \<Rightarrow> (Failure 404 ''Workbook not found'', st)
               | Some Corrupt \<Rightarrow> (server_error, st)
               | Some (Book workbook) \<Rightarrow>
                   (case getWorksheet workbook sheet of
                      None \<Rightarrow> (Failure 400 (sheet_not_found sheet), st)
                    | Some ws \<Rightarrow>
                        (case cell of
                           At r c \<Rightarrow>
                             (Success (cell_value ws r c),
                              audit_insert env req ''get_cell'' (Some sheet) st)
                         | _ \<Rightarrow> (server_error, st)))))"

text \<open>\<open>GET /excel/preview\<close>, behind \<open>requireAuth\<close>: the key is \<open>req.fileKey\<close>.\<close>

definition excel_preview ::
  "config \<Rightarrow> excel_env \<Rightarrow> request \<Rightarrow> string \<Rightarrow> excel_state \<Rightarrow> preview response \<times> excel_state" where
  "excel_preview cfg env req sheet st =
     (if sheet = [] then (Failure 400 ''Sheet is required'', st)
      else
        let key = fileKey req in
        if key = [] then (Failure 404 ''Workbook key not found'', st)
        else
          (case getBufferFromStorage st key of
             None \<Rightarrow> (Failure 404 ''Workbook not found'', st)
           | Some Corrupt \<Rightarrow> (server_error, st)
           | Some (Book workbook) \<Rightarrow>
               (case getWorksheet workbook sheet of
                  None \<Rightarrow> (Failure 400 (sheet_not_found sheet), st)
                | Some ws \<Rightarrow> (Success (preview_of sheet ws), st))))"

text \<open>\<open>Array.isArray(data) ? data.length : 0\<close>.\<close>

definition rowsCount :: "data_in \<Rightarrow> nat" where
  "rowsCount d = (case d of DataArray rs \<Rightarrow> length rs | _ \<Rightarrow> 0)"

text \<open>
  The second half of \<open>POST /excel/save-all\<close>: the worksheet \<open>ws\<close> is changed, the
  workbook \<open>wb\<close> (which holds \<open>ws\<close>) is written and uploaded.
\<close>

definition save_all_store ::
  "excel_env \<Rightarrow> request \<Rightarrow> string \<Rightarrow> string \<Rightarrow> data_in \<Rightarrow> workbook \<Rightarrow> worksheet \<Rightarrow>
   excel_state \<Rightarrow> unit response \<times> excel_state" where
  "save_all_store env req key sheet d wb ws st =
     (let grid = normalize_grid d;
          out = replace_sheet wb (ws_name ws) (apply_grid grid ws) in
      case upload_error env of
        Some msg \<Rightarrow> (Failure 500 msg, st)
      | None \<Rightarrow>
          let st1 = updateBufferToStorage st key (Book out);
              st2 = audit_insert env req ''save_all'' (Some sheet) st1;
              st3 = broadcastSSE ''excel:save_all'' sheet st2
          in (Success (), st3))"

text \<open>\<open>POST /excel/save-all\<close>.\<close>

definition excel_save_all ::
  "config \<Rightarrow> excel_env \<Rightarrow> request \<Rightarrow> string \<Rightarrow> data_in \<Rightarrow> excel_state \<Rightarrow>
   unit response \<times> excel_state" where
  "excel_save_all cfg env req sheet d st =
     (if sheet = [] \<or> d = NoData then (Failure 400 ''Sheet and data are required'', st)
      else
        case save_all_quota env req st of
          Some (code, msg) \<Rightarrow> (Failure code msg, st)
        | None \<Rightarrow>
            if userPlan req = ''free'' \<and> maxRowsSaveAll < rowsCount d
            then (Failure 403 ''Free plan limit: max 5000 rows per save'', st)
            else
              let key = fileKey req in
              if key = [] then (Failure 404 ''Workbook key not found'', st)
              else
                (case getBufferFromStorage st key of
                   None \<Rightarrow>
                     (case addWorksheet [] sheet of
                        None \<Rightarrow> (server_error, st)
                      | Some ws \<Rightarrow> save_all_store env req key sheet d [ws] ws st)
                 | Some Corrupt \<Rightarrow> (server_error, st)
                 | Some (Book workbook) \<Rightarrow>
                     (case getWorksheet workbook sheet of
                        Some ws \<Rightarrow> save_all_store env req key sheet d workbook ws st
                      | None \<Rightarrow>
                          (case addWorksheet workbook sheet of
                             None \<Rightarrow> (server_error, st)
                           | Some ws \<Rightarrow>
                               save_all_store env req key sheet d (workbook @ [ws]) ws st))))"

text \<open>
  The sheet names \<open>GET /excel/sheets\<close> starts from: those of the user's workbook and,
  for a superadmin, those of the master workbook after them. \<open>None\<close>: a stored object
  cannot be loaded.
\<close>

definition listed_sheets :: "config \<Rightarrow> request \<Rightarrow> excel_state \<Rightarrow> workbook \<Rightarrow> string list option" where
  "listed_sheets cfg req st workbook =
     (let sheets = sheet_names workbook in
      if userRole req = ''superadmin'' \<and> EXCEL_FILE_KEY cfg \<noteq> []
      then (case getBufferFromStorage st (EXCEL_FILE_KEY cfg) of
              None \<Rightarrow> Some sheets
            | Some Corrupt \<Rightarrow> None
            | Some (Book masterWorkbook) \<Rightarrow> Some (set_union sheets (sheet_names masterWorkbook)))
      else Some sheets)"

text \<open>\<open>GET /excel/sheets\<close>.\<close>

definition excel_sheets ::
  "config \<Rightarrow> excel_env \<Rightarrow> request \<Rightarrow> excel_state \<Rightarrow> string list response \<times> excel_state" where
  "excel_sheets cfg env req st =
     (let key = fileKey req in
      if key = [] then (Failure 404 ''Workbook not found'', st)
      else
        (case getBufferFromStorage st key of
           None \<Rightarrow> (Failure 404 ''Workbook not found'', st)
         | Some Corrupt \<Rightarrow> (server_error, st)
         | Some (Book workbook) \<Rightarrow>
             (case listed_sheets cfg req st workbook of
                None \<Rightarrow> (server_error, st)
              | Some sheets \<Rightarrow> (Success (pin_latest sheets (latest_sheet env st req)), st))))"

section \<open>Example requests and states\<close>

definition example_request :: request where
  "example_request =
     \<lparr>userPlan = ''free'', userRole = ''user'', fileKey = ''users/u1/uploaded.xlsx'',
      userEmail = ''ann@example.com'', userStatus = Some ''active'', user_id = ''u1''\<rparr>"

definition example_excel_env :: excel_env where
  "example_excel_env =
     \<lparr>now = 100000, audit_read_error = False, upload_error = None, pick = (\<lambda>i. 0)\<rparr>"

definition example_entry :: "string \<Rightarrow> string \<Rightarrow> nat \<Rightarrow> audit_entry" where
  "example_entry action sheet t =
     \<lparr>a_user_id = ''u1'', a_email = ''ann@example.com'', a_action = action,
      a_sheet_name = Some sheet, a_created_at = t\<rparr>"

definition sheet_of :: "string \<Rightarrow> cell list list \<Rightarrow> worksheet" where
  "sheet_of name rows = \<lparr>ws_name = name, ws_rows = rows, ws_columns = None\<rparr>"

text \<open>A workbook with the sheets A (2 by 2, all cells filled), B and C.\<close>

definition example_workbook :: workbook where
  "example_workbook =
     [sheet_of ''A'' [[Str ''a1'', Str ''b1''], [Str ''a2'', Str ''b2'']],
      sheet_of ''B'' [[Num 1]],
      sheet_of ''C'' [[Num 2]]]"

definition example_state :: "audit_entry list \<Rightarrow> excel_state" where
  "example_state rows =
     \<lparr>storage = [(''users/u1/uploaded.xlsx'', Book example_workbook)], audit = rows, sse = []\<rparr>"

definition empty_state :: excel_state where
  "empty_state = \<lparr>storage = [], audit = [], sse = []\<rparr>"

text \<open>A workbook whose sheet S holds a single value, in row 3, below two empty rows.\<close>

definition sparse_state :: excel_state where
  "sparse_state =
     \<lparr>storage = [(''users/u1/uploaded.xlsx'', Book [sheet_of ''S'' [[], [], [Str ''old'']]])],
      audit = [], sse = []\<rparr>"

section \<open>Properties\<close>

subsection \<open>Identity resolver\<close>

lemma js_or_None: "js_or None d = d"
  by (simp add: js_or_def)

text \<open>
  C1, as stated, fails: when the profile lookup returns an error, the resolver of
  server/app.js attaches the key of the shared master workbook, not the per-user path.
\<close>

theorem resolver_error_key_counterexample:
  "lookup_failed (Returned True (None :: profile_row option)) \<and>
   fileKey (attachUserPlanAndFile default_config
              (Some \<lparr>uid = ''u1'', uemail = Some ''a@b.c''\<rparr>) (Returned True None))
     = ''master.xlsx'' \<and>
   EXCEL_FILE_KEY default_config = ''master.xlsx'' \<and>
   user_file_path default_config ''u1'' = ''users/u1/uploaded.xlsx''"
  by (simp add: lookup_failed_def attachUserPlanAndFile_def default_config_def
      user_file_path_def)

text \<open>
  C1, amended. For an authenticated request whose profile lookup throws, returns an
  error, or returns no row, both resolvers attach role \<open>user\<close> and plan \<open>free\<close>. The
  workbook key is the configured default key \<open>EXCEL_FILE_KEY\<close> (the shared master
  workbook), except that \<open>attachUserPlanAndFile\<close> synthesizes
  \<open>{users-prefix}/{user_id}/uploaded.xlsx\<close> when the lookup returns neither an error nor
  a row.
\<close>

theorem resolver_lookup_failure:
  assumes "lookup_failed lookup"
  shows "userRole (attachUserPlanAndFile cfg (Some u) lookup) = ''user'' \<and>
         userPlan (attachUserPlanAndFile cfg (Some u) lookup) = ''free'' \<and>
         fileKey (attachUserPlanAndFile cfg (Some u) lookup) =
           (if no_row_no_error lookup then user_file_path cfg (uid u) else EXCEL_FILE_KEY cfg) \<and>
         userRole (attachUserContext cfg (Some u) lookup) = ''user'' \<and>
         userPlan (attachUserContext cfg (Some u) lookup) = ''free'' \<and>
         fileKey (attachUserContext cfg (Some u) lookup) = EXCEL_FILE_KEY cfg"
proof (cases lookup)
  case Thrown
  then show ?thesis
    by (simp add: attachUserPlanAndFile_def attachUserContext_def no_row_no_error_def)
next
  case (Returned err dat)
  show ?thesis
  proof (cases err)
    case True
    with Returned show ?thesis
      by (simp add: attachUserPlanAndFile_def attachUserContext_def no_row_no_error_def
          split: option.split)
  next
    case False
    with Returned assms have "dat = None"
      by (simp add: lookup_failed_def)
    with Returned False show ?thesis
      by (simp add: attachUserPlanAndFile_def attachUserContext_def no_row_no_error_def
          js_or_None)
  qed
qed

theorem resolver_lookup_failure_witness:
  "lookup_failed (Returned False (None :: profile_row option)) \<and>
   userRole (attachUserPlanAndFile default_config
               (Some \<lparr>uid = ''u1'', uemail = None\<rparr>) (Returned False None)) = ''user'' \<and>
   userPlan (attachUserPlanAndFile default_config
               (Some \<lparr>uid = ''u1'', uemail = None\<rparr>) (Returned False None)) = ''free'' \<and>
   fileKey (attachUserPlanAndFile default_config
               (Some \<lparr>uid = ''u1'', uemail = None\<rparr>) (Returned False None))
     = ''users/u1/uploaded.xlsx'' \<and>
   fileKey (attachUserContext default_config
               (Some \<lparr>uid = ''u1'', uemail = None\<rparr>) (Returned False None))
     = ''master.xlsx''"
proof -
  have h: "lookup_failed (Returned False (None :: profile_row option))"
    by (simp add: lookup_failed_def)
  show ?thesis
    using h resolver_lookup_failure [OF h, of default_config "\<lparr>uid = ''u1'', uemail = None\<rparr>"]
    by (simp add: no_row_no_error_def user_file_path_def default_config_def)
qed

subsection \<open>Plan gates\<close>

text \<open>
  C6, as stated, fails: the CSV export refuses a free-plan caller who is superadmin and
  whose email is the owner's.
\<close>

theorem export_csv_gate_counterexample:
  "export_csv_gate default_config
     \<lparr>userPlan = ''free'', userRole = ''superadmin'', fileKey = ''master.xlsx'',
      userEmail = ''owner@example.com'', userStatus = Some ''active''\<rparr>
     = Some (403, ''CSV export is available only on premium plans'') \<and>
   OWNER_EMAIL default_config = ''owner@example.com''"
  by (simp add: export_csv_gate_def default_config_def)

text \<open>
  C6, amended. The download gate refuses (with status 403) exactly the free-plan
  callers who are neither superadmin nor the owner. The gates of the CSV export, the
  PDF export and the audit view refuse (with status 403) exactly the free-plan callers,
  whatever their role or email.
\<close>

theorem plan_gates:
  "map_option fst (download_gate cfg req) =
     (if userPlan req = ''free'' \<and> userRole req \<noteq> ''superadmin'' \<and> userEmail req \<noteq> OWNER_EMAIL cfg
      then Some 403 else None) \<and>
   map_option fst (export_csv_gate cfg req) = (if userPlan req = ''free'' then Some 403 else None) \<and>
   map_option fst (export_pdf_gate cfg req) = (if userPlan req = ''free'' then Some 403 else None) \<and>
   map_option fst (audit_list_gate cfg req) = (if userPlan req = ''free'' then Some 403 else None)"
  by (simp add: download_gate_def export_csv_gate_def export_pdf_gate_def audit_list_gate_def)

theorem plan_gates_witness:
  "map_option fst (download_gate default_config
     \<lparr>userPlan = ''free'', userRole = ''superadmin'', fileKey = ''k'',
      userEmail = ''x@y.z'', userStatus = None\<rparr>) = None \<and>
   map_option fst (audit_list_gate default_config
     \<lparr>userPlan = ''free'', userRole = ''superadmin'', fileKey = ''k'',
      userEmail = ''x@y.z'', userStatus = None\<rparr>) = Some 403"
  using plan_gates [of default_config
     "\<lparr>userPlan = ''free'', userRole = ''superadmin'', fileKey = ''k'',
       userEmail = ''x@y.z'', userStatus = None\<rparr>"]
  by simp

subsection \<open>CSV escaping\<close>

lemma needs_quotes_iff:
  "needs_quotes s = (\<exists>c \<in> set s. c = COMMA \<or> c = DQUOTE \<or> c = LF \<or> c = CR)"
  by (auto simp: needs_quotes_def)

lemma rfc4180_quoted_double_quotes:
  "rest = [] \<or> hd rest \<noteq> DQUOTE \<Longrightarrow>
   rfc4180_quoted (double_quotes s @ DQUOTE # rest) = Some (s, rest)"
proof (induction s)
  case Nil
  then show ?case by (cases rest) (auto simp: double_quotes_def)
next
  case (Cons c s)
  then show ?case by (auto simp: double_quotes_def)
qed

lemma rfc4180_field_plain:
  assumes "\<not> needs_quotes s" and "rest = [] \<or> field_end (hd rest)"
  shows "rfc4180_field (s @ rest) = Some (s, rest)"
proof -
  have a: "\<forall>x \<in> set s. \<not> field_end x"
    using assms(1) by (auto simp: needs_quotes_def field_end_def)
  have t: "takeWhile (\<lambda>x. \<not> field_end x) (s @ rest) = s"
    using a assms(2) by (cases rest) (auto simp: takeWhile_eq_all_conv)
  have d: "dropWhile (\<lambda>x. \<not> field_end x) (s @ rest) = rest"
    using a assms(2) by (cases rest) auto
  show ?thesis
  proof (cases "s @ rest")
    case Nil
    then show ?thesis by (simp add: rfc4180_field_def)
  next
    case (Cons c cs)
    have "c \<noteq> DQUOTE"
      using Cons assms
      by (cases s) (auto simp: needs_quotes_def field_end_def DQUOTE_def COMMA_def LF_def CR_def)
    then show ?thesis using t d Cons by (simp add: rfc4180_field_def)
  qed
qed

lemma field_end_not_DQUOTE: "field_end c \<Longrightarrow> c \<noteq> DQUOTE"
  by (auto simp: field_end_def DQUOTE_def COMMA_def LF_def CR_def)

text \<open>
  C9. \<open>escapeCSV\<close> maps \<open>null\<close> to the empty string; for any other value it wraps the
  string form in double quotes, with the inner double quotes doubled, exactly when the
  string form contains a comma, a double quote or a line-break character (line feed
  or carriage return), and returns it as it is otherwise. Reading the exported field
  back as RFC 4180 prescribes, up to the separator that follows it, gives the string
  form again.
\<close>

theorem escapeCSV_roundtrip:
  assumes "v \<noteq> Null" and "rest = [] \<or> field_end (hd rest)"
  shows "escapeCSV Null = [] \<and>
         escapeCSV v =
           (if \<exists>c \<in> set (js_String v). c = COMMA \<or> c = DQUOTE \<or> c = LF \<or> c = CR
            then [DQUOTE] @ double_quotes (js_String v) @ [DQUOTE]
            else js_String v) \<and>
         rfc4180_field (escapeCSV v @ rest) = Some (js_String v, rest)"
proof (cases "needs_quotes (js_String v)")
  case True
  have r: "rest = [] \<or> hd rest \<noteq> DQUOTE"
    using assms(2) field_end_not_DQUOTE by blast
  have "rfc4180_field (escapeCSV v @ rest) =
        rfc4180_quoted (double_quotes (js_String v) @ DQUOTE # rest)"
    using True assms(1) by (simp add: escapeCSV_def rfc4180_field_def)
  also have "\<dots> = Some (js_String v, rest)"
    by (rule rfc4180_quoted_double_quotes [OF r])
  finally show ?thesis
    using True assms(1) by (simp add: escapeCSV_def needs_quotes_iff)
next
  case False
  have "rfc4180_field (escapeCSV v @ rest) = Some (js_String v, rest)"
    using False assms by (simp add: escapeCSV_def rfc4180_field_plain)
  then show ?thesis
    using False assms(1) by (simp add: escapeCSV_def needs_quotes_iff)
qed

theorem escapeCSV_roundtrip_witness:
  "Str [CHR ''a'', COMMA, DQUOTE, LF, CHR ''b''] \<noteq> Null \<and>
   field_end (hd [COMMA, CHR ''x'']) \<and>
   escapeCSV (Str [CHR ''a'', COMMA, DQUOTE, LF, CHR ''b''])
     = [DQUOTE, CHR ''a'', COMMA, DQUOTE, DQUOTE, LF, CHR ''b'', DQUOTE] \<and>
   rfc4180_field (escapeCSV (Str [CHR ''a'', COMMA, DQUOTE, LF, CHR ''b'']) @ [COMMA, CHR ''x''])
     = Some ([CHR ''a'', COMMA, DQUOTE, LF, CHR ''b''], [COMMA, CHR ''x''])"
proof -
  have h1: "Str [CHR ''a'', COMMA, DQUOTE, LF, CHR ''b''] \<noteq> Null" by simp
  have h2: "[COMMA, CHR ''x''] = [] \<or> field_end (hd [COMMA, CHR ''x''])"
    by (simp add: field_end_def)
  note t = escapeCSV_roundtrip [OF h1 h2]
  have e: "escapeCSV (Str [CHR ''a'', COMMA, DQUOTE, LF, CHR ''b''])
             = [DQUOTE, CHR ''a'', COMMA, DQUOTE, DQUOTE, LF, CHR ''b'', DQUOTE]"
    using t by (simp add: double_quotes_def DQUOTE_def COMMA_def LF_def CR_def)
  have f: "field_end (hd [COMMA, CHR ''x''])"
    by (simp add: field_end_def)
  from t have r: "rfc4180_field
       (escapeCSV (Str [CHR ''a'', COMMA, DQUOTE, LF, CHR ''b'']) @ [COMMA, CHR ''x''])
     = Some (js_String (Str [CHR ''a'', COMMA, DQUOTE, LF, CHR ''b'']), [COMMA, CHR ''x''])"
    by blast
  show ?thesis
    using h1 e f r by simp
qed

subsection \<open>Payment webhook\<close>

lemma upgrade_profiles_emails: "map p_email (upgrade_profiles email e ps) = map p_email ps"
  by (induction ps) (simp_all add: upgrade_profiles_def)

lemma upgrade_profiles_paid:
  "p \<in> set (upgrade_profiles email e ps) \<Longrightarrow> p_email p = toLowerCase email \<Longrightarrow>
   p_plan p = ''paid''"
  by (induction ps) (auto simp: upgrade_profiles_def)

lemma apply_charge_profiles:
  "charge_email c = Some email \<Longrightarrow> profile_update env = DbOk \<Longrightarrow>
   profiles (apply_charge notify env c st) = upgrade_profiles email (expiresAt env c) (profiles st)"
  by (simp add: apply_charge_def Let_def)

text \<open>
  The handlers on a body that arrives as a \<open>Buffer\<close>. A signature header that
  differs from the HMAC-SHA512 hex digest of the body under the gateway secret is
  answered 401 and the state (profiles, payments, broadcasts) is left as it was. With
  the header equal to the digest, a \<open>charge.success\<close> event with a customer is
  answered 200; when the customer email is a string and the profile update goes
  through, every profile whose email is the lower-cased customer email has plan
  \<open>paid\<close> afterwards, and no profile is added or removed.
\<close>

lemma buffer_signature_gate:
  fixes env :: pay_env
  defines "digest body \<equiv> hmac_sha512_hex env (PAYSTACK_SECRET_KEY env) body"
  shows "(signature \<noteq> Some (digest body) \<longrightarrow>
            payments_webhook_handler env signature (Buffer body) st = (401, st) \<and>
            router_webhook_handler env signature (Buffer body) st = (Some 401, st)) \<and>
         (signature = Some (digest body) \<and>
          json_parse env body = Event ''charge.success'' (Some c) \<longrightarrow>
            fst (payments_webhook_handler env signature (Buffer body) st) = 200 \<and>
            fst (router_webhook_handler env signature (Buffer body) st) = Some 200 \<and>
            (charge_email c = Some email \<and> profile_update env = DbOk \<longrightarrow>
               (\<forall>p \<in> set (profiles (snd (payments_webhook_handler env signature (Buffer body) st))).
                   p_email p = toLowerCase email \<longrightarrow> p_plan p = ''paid'') \<and>
               map p_email (profiles (snd (payments_webhook_handler env signature (Buffer body) st)))
                 = map p_email (profiles st) \<and>
               (\<forall>p \<in> set (profiles (snd (router_webhook_handler env signature (Buffer body) st))).
                   p_email p = toLowerCase email \<longrightarrow> p_plan p = ''paid'') \<and>
               map p_email (profiles (snd (router_webhook_handler env signature (Buffer body) st)))
                 = map p_email (profiles st)))"
proof (intro conjI impI)
  assume "signature \<noteq> Some (digest body)"
  then show "payments_webhook_handler env signature (Buffer body) st = (401, st)"
    and "router_webhook_handler env signature (Buffer body) st = (Some 401, st)"
    by (auto simp: payments_webhook_handler_def router_webhook_handler_def digest_def)
next
  assume a: "signature = Some (digest body) \<and>
             json_parse env body = Event ''charge.success'' (Some c)"
  then have pw: "payments_webhook_handler env signature (Buffer body) st
                   = (200, apply_charge True env c st)"
    and rw: "router_webhook_handler env signature (Buffer body) st
               = (Some 200, apply_charge False env c st)"
    by (simp_all add: payments_webhook_handler_def router_webhook_handler_def digest_def)
  show "fst (payments_webhook_handler env signature (Buffer body) st) = 200"
    and "fst (router_webhook_handler env signature (Buffer body) st) = Some 200"
    by (simp_all add: pw rw)
  assume b: "charge_email c = Some email \<and> profile_update env = DbOk"
  then have pr: "profiles (apply_charge notify env c st)
                   = upgrade_profiles email (expiresAt env c) (profiles st)" for notify
    by (simp add: apply_charge_profiles)
  show "\<forall>p \<in> set (profiles (snd (payments_webhook_handler env signature (Buffer body) st))).
          p_email p = toLowerCase email \<longrightarrow> p_plan p = ''paid''"
    and "\<forall>p \<in> set (profiles (snd (router_webhook_handler env signature (Buffer body) st))).
          p_email p = toLowerCase email \<longrightarrow> p_plan p = ''paid''"
    using upgrade_profiles_paid by (auto simp: pw rw pr)
  show "map p_email (profiles (snd (payments_webhook_handler env signature (Buffer body) st)))
          = map p_email (profiles st)"
    and "map p_email (profiles (snd (router_webhook_handler env signature (Buffer body) st)))
          = map p_email (profiles st)"
    by (simp_all add: pw rw pr upgrade_profiles_emails)
qed

text \<open>
  With the header equal to the digest, a \<open>Buffer\<close> that parses to an event of any
  type other than \<open>charge.success\<close> is answered 200 and the state is left as it was.
\<close>

lemma buffer_other_event:
  assumes "signature = Some (hmac_sha512_hex env (PAYSTACK_SECRET_KEY env) body)"
    and "json_parse env body = Event name dat"
    and "name \<noteq> ''charge.success''"
  shows "payments_webhook_handler env signature (Buffer body) st = (200, st) \<and>
         router_webhook_handler env signature (Buffer body) st = (Some 200, st)"
  using assms by (simp add: payments_webhook_handler_def router_webhook_handler_def)

text \<open>
  A request of type \<open>application/json\<close> never gets as far as the signature: either
  \<open>express.json\<close> refuses the text (400), or the handler finds an object where it
  expects the \<open>Buffer\<close> and throws (500 in server/app.js, no answer from the router).
  The state is left as it was. A request of another type reaches the handler with its
  bytes.
\<close>

lemma json_request:
  "payments_webhook env (rq\<lparr>content_type := ApplicationJson\<rparr>) st =
     (if sent_body rq = [] \<or> json_strict env (sent_body rq) then 500 else 400, st)"
  "router_webhook env (rq\<lparr>content_type := ApplicationJson\<rparr>) st =
     (if sent_body rq = [] \<or> json_strict env (sent_body rq) then None else Some 400, st)"
  by (simp_all add: payments_webhook_def router_webhook_def body_parsers_def
      payments_webhook_handler_def router_webhook_handler_def)

lemma other_type_request:
  "payments_webhook env (rq\<lparr>content_type := OtherContentType\<rparr>) st =
     payments_webhook_handler env (x_paystack_signature rq) (Buffer (sent_body rq)) st"
  "router_webhook env (rq\<lparr>content_type := OtherContentType\<rparr>) st =
     router_webhook_handler env (x_paystack_signature rq) (Buffer (sent_body rq)) st"
  by (simp_all add: payments_webhook_def router_webhook_def body_parsers_def)

text \<open>
  C4. The gateway's \<open>charge.success\<close> event for the customer Ann@Example.com, sent
  with \<open>Content-Type: application/json\<close> and with the signature header equal to the
  digest of the body: the route of server/app.js answers 500 and the router sends no
  answer, and the profile of ann@example.com keeps plan \<open>free\<close>. The same request with
  a wrong signature header is answered likewise, not with 401. Sent with another
  content type, so that the body arrives as a \<open>Buffer\<close>, the signed event is answered
  200 and the profile gets plan \<open>paid\<close>, and the wrong signature is answered 401.
\<close>

theorem webhook_json_charge:
  "content_type charge_request = ApplicationJson \<and>
   x_paystack_signature charge_request =
     Some (hmac_sha512_hex example_env (PAYSTACK_SECRET_KEY example_env)
             (sent_body charge_request)) \<and>
   json_parse example_env (sent_body charge_request)
     = Event ''charge.success'' (Some example_charge) \<and>
   charge_email example_charge = Some ''Ann@Example.com'' \<and>
   map p_plan (profiles example_pay_state) = [''free'', ''free''] \<and>
   payments_webhook example_env charge_request example_pay_state = (500, example_pay_state) \<and>
   router_webhook example_env charge_request example_pay_state = (None, example_pay_state) \<and>
   payments_webhook example_env (charge_request\<lparr>x_paystack_signature := Some ''bad''\<rparr>)
       example_pay_state = (500, example_pay_state) \<and>
   router_webhook example_env (charge_request\<lparr>x_paystack_signature := Some ''bad''\<rparr>)
       example_pay_state = (None, example_pay_state) \<and>
   fst (payments_webhook example_env (charge_request\<lparr>content_type := OtherContentType\<rparr>)
          example_pay_state) = 200 \<and>
   map p_plan (profiles (snd (payments_webhook example_env
          (charge_request\<lparr>content_type := OtherContentType\<rparr>) example_pay_state)))
     = [''paid'', ''free''] \<and>
   fst (payments_webhook example_env
          (charge_request\<lparr>content_type := OtherContentType, x_paystack_signature := Some ''bad''\<rparr>)
          example_pay_state) = 401"
proof -
  have c: "content_type charge_request = ApplicationJson"
    "x_paystack_signature charge_request =
       Some (hmac_sha512_hex example_env (PAYSTACK_SECRET_KEY example_env)
               (sent_body charge_request))"
    "json_parse example_env (sent_body charge_request)
       = Event ''charge.success'' (Some example_charge)"
    "charge_email example_charge = Some ''Ann@Example.com''"
    "map p_plan (profiles example_pay_state) = [''free'', ''free'']"
    by (simp_all add: charge_request_def example_env_def example_charge_def
        example_pay_state_def)
  have j: "payments_webhook example_env charge_request example_pay_state
             = (500, example_pay_state)"
    "router_webhook example_env charge_request example_pay_state = (None, example_pay_state)"
    "payments_webhook example_env (charge_request\<lparr>x_paystack_signature := Some ''bad''\<rparr>)
       example_pay_state = (500, example_pay_state)"
    "router_webhook example_env (charge_request\<lparr>x_paystack_signature := Some ''bad''\<rparr>)
       example_pay_state = (None, example_pay_state)"
    by (simp_all add: payments_webhook_def router_webhook_def body_parsers_def
        payments_webhook_handler_def router_webhook_handler_def charge_request_def
        example_env_def)
  have r1: "fst (payments_webhook example_env (charge_request\<lparr>content_type := OtherContentType\<rparr>)
          example_pay_state) = 200"
    by (simp add: payments_webhook_def body_parsers_def payments_webhook_handler_def
        charge_request_def example_env_def)
  have r2: "map p_plan (profiles (snd (payments_webhook example_env
          (charge_request\<lparr>content_type := OtherContentType\<rparr>) example_pay_state)))
     = [''paid'', ''free'']"
    by code_simp
  have r3: "fst (payments_webhook example_env
          (charge_request\<lparr>content_type := OtherContentType, x_paystack_signature := Some ''bad''\<rparr>)
          example_pay_state) = 401"
    by (simp add: payments_webhook_def body_parsers_def payments_webhook_handler_def
        charge_request_def example_env_def)
  show ?thesis
    using c j r1 r2 r3 by (intro conjI)
qed

text \<open>
  C10. An event of another type, \<open>transfer.success\<close>, sent with \<open>Content-Type:
  application/json\<close> and with the signature header equal to the digest of the body:
  the route of server/app.js answers 500 and the router sends no answer; the state is
  left as it was. Sent with another content type, so that the body arrives as a
  \<open>Buffer\<close>, the event is answered 200 by both, with the state left as it was.
\<close>

theorem webhook_json_other_event:
  "content_type transfer_request = ApplicationJson \<and>
   x_paystack_signature transfer_request =
     Some (hmac_sha512_hex example_env (PAYSTACK_SECRET_KEY example_env)
             (sent_body transfer_request)) \<and>
   json_parse example_env (sent_body transfer_request) = Event ''transfer.success'' None \<and>
   payments_webhook example_env transfer_request example_pay_state = (500, example_pay_state) \<and>
   router_webhook example_env transfer_request example_pay_state = (None, example_pay_state) \<and>
   payments_webhook example_env (transfer_request\<lparr>content_type := OtherContentType\<rparr>)
       example_pay_state = (200, example_pay_state) \<and>
   router_webhook example_env (transfer_request\<lparr>content_type := OtherContentType\<rparr>)
       example_pay_state = (Some 200, example_pay_state)"
proof -
  have c: "content_type transfer_request = ApplicationJson"
    "x_paystack_signature transfer_request =
       Some (hmac_sha512_hex example_env (PAYSTACK_SECRET_KEY example_env)
               (sent_body transfer_request))"
    "json_parse example_env (sent_body transfer_request) = Event ''transfer.success'' None"
    by (simp_all add: transfer_request_def example_env_def)
  have j: "payments_webhook example_env transfer_request example_pay_state
             = (500, example_pay_state)"
    "router_webhook example_env transfer_request example_pay_state = (None, example_pay_state)"
    by (simp_all add: payments_webhook_def router_webhook_def body_parsers_def
        payments_webhook_handler_def router_webhook_handler_def transfer_request_def
        example_env_def)
  have r: "payments_webhook example_env (transfer_request\<lparr>content_type := OtherContentType\<rparr>)
       example_pay_state = (200, example_pay_state)"
    "router_webhook example_env (transfer_request\<lparr>content_type := OtherContentType\<rparr>)
       example_pay_state = (Some 200, example_pay_state)"
    by (simp_all add: payments_webhook_def router_webhook_def body_parsers_def
        payments_webhook_handler_def router_webhook_handler_def transfer_request_def
        example_env_def)
  show ?thesis
    using c j r by (intro conjI)
qed

subsection \<open>Worksheet cells and counters\<close>

lemma length_pad: "length (pad xs n d) = max (length xs) n"
  by (auto simp: pad_def)

lemma nth_pad_old: "i < length xs \<Longrightarrow> pad xs n d ! i = xs ! i"
  by (simp add: pad_def nth_append)

lemma nth_pad_new: "length xs \<le> i \<Longrightarrow> i < n \<Longrightarrow> pad xs n d ! i = d"
  by (simp add: pad_def nth_append)

lemma cell_value_pad_rows:
  "cell_value (ws\<lparr>ws_rows := pad (ws_rows ws) n []\<rparr>) r c = cell_value ws r c"
proof (cases "1 \<le> r \<and> r \<le> length (ws_rows ws)")
  case True
  then have "r - 1 < length (ws_rows ws)" by auto
  then have "pad (ws_rows ws) n [] ! (r - 1) = ws_rows ws ! (r - 1)"
    by (rule nth_pad_old)
  with True show ?thesis
    by (auto simp: cell_value_def length_pad)
next
  case False
  show ?thesis
  proof (cases "1 \<le> r \<and> r \<le> n")
    case True
    with False have "length (ws_rows ws) \<le> r - 1" "r - 1 < n" by auto
    then have "pad (ws_rows ws) n [] ! (r - 1) = []" by (rule nth_pad_new)
    with False show ?thesis by (auto simp: cell_value_def length_pad)
  next
    case F2: False
    with False show ?thesis by (auto simp: cell_value_def length_pad)
  qed
qed

lemma cell_value_pad_cells:
  assumes "i < length (ws_rows ws)"
  shows "cell_value (ws\<lparr>ws_rows := (ws_rows ws)[i := pad (ws_rows ws ! i) m Null]\<rparr>) r c
           = cell_value ws r c"
proof (cases "r = Suc i")
  case True
  with assms show ?thesis
    by (auto simp: cell_value_def pad_def nth_append)
next
  case False
  then have "1 \<le> r \<Longrightarrow> r - 1 \<noteq> i" by auto
  then show ?thesis
    by (auto simp: cell_value_def nth_list_update)
qed

lemma cell_value_update:
  assumes "i < length (ws_rows ws)" and "j < length (ws_rows ws ! i)"
  shows "cell_value (ws\<lparr>ws_rows := (ws_rows ws)[i := (ws_rows ws ! i)[j := v]]\<rparr>) r c
           = (if r = Suc i \<and> c = Suc j then v else cell_value ws r c)"
proof (cases "r = Suc i")
  case True
  with assms show ?thesis
    by (auto simp: cell_value_def nth_list_update)
next
  case False
  then have "1 \<le> r \<Longrightarrow> r - 1 \<noteq> i" by auto
  then show ?thesis using False
    by (auto simp: cell_value_def nth_list_update)
qed

lemma cell_value_getRow: "cell_value (getRow ws r) r' c' = cell_value ws r' c'"
  by (simp add: getRow_def cell_value_pad_rows)

lemma getCell_split:
  "getCell ws r c =
     (ws\<lparr>ws_rows := pad (ws_rows ws) r []\<rparr>)
       \<lparr>ws_rows := (ws_rows (ws\<lparr>ws_rows := pad (ws_rows ws) r []\<rparr>))
          [r - 1 := pad (ws_rows (ws\<lparr>ws_rows := pad (ws_rows ws) r []\<rparr>) ! (r - 1)) c Null]\<rparr>"
  by (simp add: getCell_def Let_def)

lemma cell_value_getCell:
  assumes "1 \<le> r"
  shows "cell_value (getCell ws r c) r' c' = cell_value ws r' c'"
proof -
  let ?a = "ws\<lparr>ws_rows := pad (ws_rows ws) r []\<rparr>"
  have "r - 1 < length (ws_rows ?a)" using assms by (simp add: length_pad)
  then have "cell_value (getCell ws r c) r' c' = cell_value ?a r' c'"
    unfolding getCell_split by (rule cell_value_pad_cells)
  then show ?thesis by (simp add: cell_value_pad_rows)
qed

lemma set_cell_split:
  "set_cell ws r c v =
     (getCell ws r c)\<lparr>ws_rows := (ws_rows (getCell ws r c))
        [r - 1 := (ws_rows (getCell ws r c) ! (r - 1))[c - 1 := v]]\<rparr>"
  if "1 \<le> r"
proof -
  have "r - 1 < length (pad (ws_rows ws) r [])" using that by (simp add: length_pad)
  then show ?thesis
    by (simp add: set_cell_def getCell_def Let_def)
qed

lemma cell_value_set_cell:
  assumes "1 \<le> r" "1 \<le> c"
  shows "cell_value (set_cell ws r c v) r' c' = (if r' = r \<and> c' = c then v else cell_value ws r' c')"
proof -
  let ?g = "getCell ws r c"
  have l1: "r - 1 < length (ws_rows ?g)"
    using assms by (simp add: getCell_def Let_def length_pad)
  have l2: "c - 1 < length (ws_rows ?g ! (r - 1))"
    using assms by (simp add: getCell_def Let_def length_pad)
  have "cell_value (set_cell ws r c v) r' c' =
        (if r' = Suc (r - 1) \<and> c' = Suc (c - 1) then v else cell_value ?g r' c')"
    unfolding set_cell_split [OF assms(1)] by (rule cell_value_update [OF l1 l2])
  then show ?thesis using assms by (simp add: cell_value_getCell)
qed

lemma cell_value_write_cell:
  assumes "1 \<le> r" "1 \<le> c"
  shows "cell_value (write_cell grid ws r c) r' c' =
           (if r' = r \<and> c' = c then grid_value grid (r - 1) (c - 1) else cell_value ws r' c')"
  using assms by (auto simp: write_cell_def Let_def cell_value_set_cell)

lemma cell_value_clear_cell:
  assumes "1 \<le> r" "1 \<le> c"
  shows "cell_value (clear_cell ws r c) r' c' =
           (if r' = r \<and> c' = c then Null else cell_value ws r' c')"
  using assms by (auto simp: clear_cell_def cell_value_set_cell)

lemma cell_value_fold_cols:
  assumes "\<And>w c r' c'. c \<in> set cs \<Longrightarrow>
             cell_value (f w r c) r' c' = (if r' = r \<and> c' = c then g r c else cell_value w r' c')"
    and "1 \<le> r"
  shows "cell_value (fold (\<lambda>c w'. f (getCell w' r c) r c) cs w) r' c' =
           (if r' = r \<and> c' \<in> set cs then g r c' else cell_value w r' c')"
  using assms
proof (induction cs arbitrary: w)
  case Nil
  then show ?case by simp
next
  case (Cons c cs)
  have step: "cell_value (f (getCell w r c) r c) r' c' =
              (if r' = r \<and> c' = c then g r c else cell_value w r' c')"
    using Cons.prems by (simp add: cell_value_getCell)
  have "cell_value (fold (\<lambda>c w'. f (getCell w' r c) r c) cs (f (getCell w r c) r c)) r' c' =
        (if r' = r \<and> c' \<in> set cs then g r c'
         else cell_value (f (getCell w r c) r c) r' c')"
    by (rule Cons.IH) (use Cons.prems in auto)
  then show ?case using step by auto
qed

lemma cell_value_for_cells:
  assumes "\<And>w r c r' c'. r \<in> set rs \<Longrightarrow> c \<in> set cs \<Longrightarrow>
             cell_value (f w r c) r' c' = (if r' = r \<and> c' = c then g r c else cell_value w r' c')"
    and "\<And>r. r \<in> set rs \<Longrightarrow> 1 \<le> r"
  shows "cell_value (for_cells rs cs f w) r' c' =
           (if r' \<in> set rs \<and> c' \<in> set cs then g r' c' else cell_value w r' c')"
  using assms
proof (induction rs arbitrary: w)
  case Nil
  then show ?case by (simp add: for_cells_def)
next
  case (Cons r rs)
  let ?w1 = "fold (\<lambda>c w'. f (getCell w' r c) r c) cs (getRow w r)"
  have one: "cell_value ?w1 r' c' =
             (if r' = r \<and> c' \<in> set cs then g r c' else cell_value w r' c')"
    using cell_value_fold_cols [where f = f and g = g and r = r and cs = cs and w = "getRow w r"]
      Cons.prems by (simp add: cell_value_getRow)
  have "cell_value (for_cells rs cs f ?w1) r' c' =
        (if r' \<in> set rs \<and> c' \<in> set cs then g r' c' else cell_value ?w1 r' c')"
    by (rule Cons.IH) (use Cons.prems in auto)
  moreover have "for_cells (r # rs) cs f w = for_cells rs cs f ?w1"
    by (simp add: for_cells_def)
  ultimately show ?case using one by auto
qed

lemma has_values_nth: "has_values row = (\<exists>j < length row. row ! j \<noteq> Null)"
  unfolding has_values_def list_ex_iff by (metis in_set_conv_nth)

lemma column_has_value_nth:
  "column_has_value rows c = (\<exists>i < length rows. c < length (rows ! i) \<and> rows ! i ! c \<noteq> Null)"
  unfolding column_has_value_def list_ex_iff by (metis in_set_conv_nth)

lemma row_width_ge: "row \<in> set rows \<Longrightarrow> length row \<le> row_width rows"
  by (induction rows) (auto simp: row_width_def)

lemma rows_with_value_image:
  "{r. \<exists>c. cell_value ws r c \<noteq> Null} =
     Suc ` {i. i < length (ws_rows ws) \<and> has_values (ws_rows ws ! i)}"
proof (intro set_eqI iffI)
  fix r assume "r \<in> {r. \<exists>c. cell_value ws r c \<noteq> Null}"
  then obtain c where c: "cell_value ws r c \<noteq> Null" by blast
  then have b: "1 \<le> r" "r \<le> length (ws_rows ws)" "1 \<le> c" "c \<le> length (ws_rows ws ! (r - 1))"
    and v: "ws_rows ws ! (r - 1) ! (c - 1) \<noteq> Null"
    by (auto simp: cell_value_def split: if_splits)
  then have "c - 1 < length (ws_rows ws ! (r - 1))" by auto
  with v have "has_values (ws_rows ws ! (r - 1))" unfolding has_values_nth by blast
  moreover have "r - 1 < length (ws_rows ws)" "r = Suc (r - 1)" using b by auto
  ultimately show "r \<in> Suc ` {i. i < length (ws_rows ws) \<and> has_values (ws_rows ws ! i)}"
    by blast
next
  fix r assume "r \<in> Suc ` {i. i < length (ws_rows ws) \<and> has_values (ws_rows ws ! i)}"
  then obtain i where i: "r = Suc i" "i < length (ws_rows ws)" "has_values (ws_rows ws ! i)"
    by blast
  then obtain j where j: "j < length (ws_rows ws ! i)" "ws_rows ws ! i ! j \<noteq> Null"
    unfolding has_values_nth by blast
  with i have "cell_value ws r (Suc j) \<noteq> Null"
    by (simp add: cell_value_def)
  then show "r \<in> {r. \<exists>c. cell_value ws r c \<noteq> Null}" by blast
qed

lemma actualRowCount_card: "actualRowCount ws = card {r. \<exists>c. cell_value ws r c \<noteq> Null}"
proof -
  have "actualRowCount ws = card {i. i < length (ws_rows ws) \<and> has_values (ws_rows ws ! i)}"
    by (simp add: actualRowCount_def length_filter_conv_card)
  also have "\<dots> = card (Suc ` {i. i < length (ws_rows ws) \<and> has_values (ws_rows ws ! i)})"
    by (simp add: card_image)
  finally show ?thesis by (simp add: rows_with_value_image)
qed

lemma cols_with_value_image:
  "{c. \<exists>r. cell_value ws r c \<noteq> Null} =
     Suc ` {j. j < row_width (ws_rows ws) \<and> column_has_value (ws_rows ws) j}"
proof (intro set_eqI iffI)
  fix c assume "c \<in> {c. \<exists>r. cell_value ws r c \<noteq> Null}"
  then obtain r where "cell_value ws r c \<noteq> Null" by blast
  then have b: "1 \<le> r" "r \<le> length (ws_rows ws)" "1 \<le> c" "c \<le> length (ws_rows ws ! (r - 1))"
    and v: "ws_rows ws ! (r - 1) ! (c - 1) \<noteq> Null"
    by (auto simp: cell_value_def split: if_splits)
  have i: "r - 1 < length (ws_rows ws)" and j: "c - 1 < length (ws_rows ws ! (r - 1))"
    using b by auto
  from i have "ws_rows ws ! (r - 1) \<in> set (ws_rows ws)" by simp
  then have "length (ws_rows ws ! (r - 1)) \<le> row_width (ws_rows ws)" by (rule row_width_ge)
  with j have "c - 1 < row_width (ws_rows ws)" by simp
  moreover have "column_has_value (ws_rows ws) (c - 1)"
    unfolding column_has_value_nth using i j v by blast
  moreover have "c = Suc (c - 1)" using b by simp
  ultimately show "c \<in> Suc ` {j. j < row_width (ws_rows ws) \<and> column_has_value (ws_rows ws) j}"
    by blast
next
  fix c assume "c \<in> Suc ` {j. j < row_width (ws_rows ws) \<and> column_has_value (ws_rows ws) j}"
  then obtain j where j: "c = Suc j" "column_has_value (ws_rows ws) j" by blast
  then obtain i where i: "i < length (ws_rows ws)" "j < length (ws_rows ws ! i)"
      "ws_rows ws ! i ! j \<noteq> Null"
    unfolding column_has_value_nth by blast
  with j have "cell_value ws (Suc i) c \<noteq> Null"
    by (simp add: cell_value_def)
  then show "c \<in> {c. \<exists>r. cell_value ws r c \<noteq> Null}" by blast
qed

lemma actualColumnCount_card: "actualColumnCount ws = card {c. \<exists>r. cell_value ws r c \<noteq> Null}"
proof -
  have "{i. i < row_width (ws_rows ws) \<and>
            column_has_value (ws_rows ws) ([0..<row_width (ws_rows ws)] ! i)}
        = {j. j < row_width (ws_rows ws) \<and> column_has_value (ws_rows ws) j}"
    by auto
  then have "actualColumnCount ws =
        card {j. j < row_width (ws_rows ws) \<and> column_has_value (ws_rows ws) j}"
    by (simp add: actualColumnCount_def length_filter_conv_card)
  also have "\<dots> = card (Suc ` {j. j < row_width (ws_rows ws) \<and> column_has_value (ws_rows ws) j})"
    by (simp add: card_image)
  finally show ?thesis by (simp add: cols_with_value_image)
qed

lemma card_initial_segment:
  assumes "A \<subseteq> {1..n}" and "card A = n"
  shows "A = {1..n::nat}"
  using assms by (simp add: card_subset_eq)

lemma fold_max_length_ge: "m \<le> fold (\<lambda>r m. max m (length r)) grid m"
proof (induction grid arbitrary: m)
  case Nil
  then show ?case by simp
next
  case (Cons a grid)
  have "max m (length a) \<le> fold (\<lambda>r m. max m (length r)) grid (max m (length a))"
    by (rule Cons.IH)
  then show ?case by simp
qed

lemma fold_max_length_row:
  "row \<in> set grid \<Longrightarrow> length row \<le> fold (\<lambda>r m. max m (length r)) grid m"
proof (induction grid arbitrary: m)
  case Nil
  then show ?case by simp
next
  case (Cons a grid)
  show ?case
  proof (cases "row = a")
    case True
    have "max m (length a) \<le> fold (\<lambda>r m. max m (length r)) grid (max m (length a))"
      by (rule fold_max_length_ge)
    with True show ?thesis by simp
  next
    case False
    with Cons.prems have "row \<in> set grid" by simp
    then show ?thesis using Cons.IH by simp
  qed
qed

lemma maxColIn_ge: "row \<in> set grid \<Longrightarrow> length row \<le> maxColIn grid"
  unfolding maxColIn_def by (rule fold_max_length_row)

lemma rows_segment:
  assumes "no_row_gap ws"
  shows "{r. \<exists>c. cell_value ws r c \<noteq> Null} = {1..actualRowCount ws}"
proof (rule card_initial_segment)
  show "{r. \<exists>c. cell_value ws r c \<noteq> Null} \<subseteq> {1..actualRowCount ws}"
    unfolding rows_with_value_image using assms by (auto simp: no_row_gap_def)
  show "card {r. \<exists>c. cell_value ws r c \<noteq> Null} = actualRowCount ws"
    by (simp add: actualRowCount_card)
qed

lemma cols_segment:
  assumes "no_column_gap ws"
  shows "{c. \<exists>r. cell_value ws r c \<noteq> Null} = {1..actualColumnCount ws}"
proof (rule card_initial_segment)
  show "{c. \<exists>r. cell_value ws r c \<noteq> Null} \<subseteq> {1..actualColumnCount ws}"
    unfolding cols_with_value_image using assms by (auto simp: no_column_gap_def)
  show "card {c. \<exists>r. cell_value ws r c \<noteq> Null} = actualColumnCount ws"
    by (simp add: actualColumnCount_card)
qed

lemma cell_value_zero: "cell_value ws 0 c = Null" "cell_value ws r 0 = Null"
  by (simp_all add: cell_value_def)

lemma full_grid_row:
  assumes "full_grid grid" "1 \<le> r" "r \<le> length grid"
  shows "\<exists>c. 1 \<le> c \<and> c \<le> maxColIn grid \<and> grid_value grid (r - 1) (c - 1) \<noteq> Null"
proof -
  have i: "r - 1 < length grid" using assms by auto
  then have m: "grid ! (r - 1) \<in> set grid" by simp
  with assms(1) have "has_values (grid ! (r - 1))"
    by (simp add: full_grid_def list_all_iff)
  then obtain j where j: "j < length (grid ! (r - 1))" "grid ! (r - 1) ! j \<noteq> Null"
    unfolding has_values_nth by blast
  have "length (grid ! (r - 1)) \<le> maxColIn grid" using m by (rule maxColIn_ge)
  with j i have "1 \<le> Suc j \<and> Suc j \<le> maxColIn grid \<and> grid_value grid (r - 1) (Suc j - 1) \<noteq> Null"
    by (simp add: grid_value_def)
  then show ?thesis by blast
qed

lemma full_grid_col:
  assumes "full_grid grid" "1 \<le> c" "c \<le> maxColIn grid"
  shows "\<exists>r. 1 \<le> r \<and> r \<le> length grid \<and> grid_value grid (r - 1) (c - 1) \<noteq> Null"
proof -
  have "c - 1 < maxColIn grid" using assms by auto
  with assms(1) have "column_has_value grid (c - 1)"
    by (simp add: full_grid_def)
  then obtain i where i: "i < length grid" "c - 1 < length (grid ! i)" "grid ! i ! (c - 1) \<noteq> Null"
    unfolding column_has_value_nth by blast
  then have "1 \<le> Suc i \<and> Suc i \<le> length grid \<and> grid_value grid (Suc i - 1) (c - 1) \<noteq> Null"
    by (simp add: grid_value_def)
  then show ?thesis by blast
qed

lemma full_grid_positive:
  assumes "full_grid grid"
  shows "1 \<le> length grid" "1 \<le> maxColIn grid"
proof -
  show r: "1 \<le> length grid" using assms by (cases grid) (simp_all add: full_grid_def)
  from full_grid_row [OF assms r] show "1 \<le> maxColIn grid" by auto
qed

lemma cell_value_written:
  "cell_value (for_cells [1..<R + 1] [1..<C + 1] (write_cell grid) ws) r c =
     (if 1 \<le> r \<and> r \<le> R \<and> 1 \<le> c \<and> c \<le> C then grid_value grid (r - 1) (c - 1)
      else cell_value ws r c)"
proof -
  have "cell_value (for_cells [1..<R + 1] [1..<C + 1] (write_cell grid) ws) r c =
        (if r \<in> set [1..<R + 1] \<and> c \<in> set [1..<C + 1] then grid_value grid (r - 1) (c - 1)
         else cell_value ws r c)"
  proof (rule cell_value_for_cells [where g = "\<lambda>r c. grid_value grid (r - 1) (c - 1)"])
    fix w r c r' c'
    assume "r \<in> set [1..<R + 1]" and "c \<in> set [1..<C + 1]"
    then have "1 \<le> r" and "1 \<le> c" by auto
    then show "cell_value (write_cell grid w r c) r' c' =
               (if r' = r \<and> c' = c then grid_value grid (r - 1) (c - 1) else cell_value w r' c')"
      by (rule cell_value_write_cell)
  next
    fix r assume "r \<in> set [1..<R + 1]"
    then show "1 \<le> r" by auto
  qed
  then show ?thesis by auto
qed

lemma cell_value_cleared:
  assumes "1 \<le> r0" "1 \<le> c0"
  shows "cell_value (for_cells [r0..<r1 + 1] [c0..<c1 + 1] clear_cell ws) r c =
     (if r0 \<le> r \<and> r \<le> r1 \<and> c0 \<le> c \<and> c \<le> c1 then Null else cell_value ws r c)"
proof -
  have "cell_value (for_cells [r0..<r1 + 1] [c0..<c1 + 1] clear_cell ws) r c =
        (if r \<in> set [r0..<r1 + 1] \<and> c \<in> set [c0..<c1 + 1] then Null else cell_value ws r c)"
  proof (rule cell_value_for_cells [where g = "\<lambda>r c. Null"])
    fix w r c r' c'
    assume "r \<in> set [r0..<r1 + 1]" and "c \<in> set [c0..<c1 + 1]"
    then have "1 \<le> r" and "1 \<le> c" using assms by auto
    then show "cell_value (clear_cell w r c) r' c' =
               (if r' = r \<and> c' = c then Null else cell_value w r' c')"
      by (rule cell_value_clear_cell)
  next
    fix r assume "r \<in> set [r0..<r1 + 1]"
    then show "1 \<le> r" using assms by auto
  qed
  then show ?thesis by auto
qed

lemma card_segment: "card {1..n::nat} = n"
  by simp

lemma apply_grid_cells:
  assumes fg: "full_grid grid" and rg: "no_row_gap ws" and cg: "no_column_gap ws"
  shows "cell_value (apply_grid grid ws) r c =
           (if 1 \<le> r \<and> r \<le> length grid \<and> 1 \<le> c \<and> c \<le> maxColIn grid
            then grid_value grid (r - 1) (c - 1) else Null)"
proof -
  define R where "R = length grid"
  define C where "C = maxColIn grid"
  define R' where "R' = actualRowCount ws"
  define C' where "C' = actualColumnCount ws"
  define ws1 where "ws1 = for_cells [1..<R + 1] [1..<C + 1] (write_cell grid) ws"
  have Rpos: "1 \<le> R" and Cpos: "1 \<le> C"
    using full_grid_positive [OF fg] by (simp_all add: R_def C_def)
  have cv1: "cell_value ws1 r c =
      (if 1 \<le> r \<and> r \<le> R \<and> 1 \<le> c \<and> c \<le> C then grid_value grid (r - 1) (c - 1)
       else cell_value ws r c)" for r c
    unfolding ws1_def by (rule cell_value_written)
  have rows_old: "{r. \<exists>c. cell_value ws r c \<noteq> Null} = {1..R'}"
    unfolding R'_def by (rule rows_segment [OF rg])
  have cols_old: "{c. \<exists>r. cell_value ws r c \<noteq> Null} = {1..C'}"
    unfolding C'_def by (rule cols_segment [OF cg])
  have old_row: "1 \<le> r \<and> r \<le> R'" if "cell_value ws r c \<noteq> Null" for r c
  proof -
    from that have "r \<in> {r. \<exists>c. cell_value ws r c \<noteq> Null}" by blast
    then show ?thesis unfolding rows_old by simp
  qed
  have old_col: "1 \<le> c \<and> c \<le> C'" if "cell_value ws r c \<noteq> Null" for r c
  proof -
    from that have "c \<in> {c. \<exists>r. cell_value ws r c \<noteq> Null}" by blast
    then show ?thesis unfolding cols_old by simp
  qed
  have rows1: "{r. \<exists>c. cell_value ws1 r c \<noteq> Null} = {1..max R R'}"
  proof (intro set_eqI iffI)
    fix r assume "r \<in> {r. \<exists>c. cell_value ws1 r c \<noteq> Null}"
    then obtain c where c: "cell_value ws1 r c \<noteq> Null" by blast
    show "r \<in> {1..max R R'}"
    proof (cases "1 \<le> r \<and> r \<le> R \<and> 1 \<le> c \<and> c \<le> C")
      case True
      then show ?thesis by auto
    next
      case False
      with c have "cell_value ws r c \<noteq> Null" by (auto simp: cv1 split: if_splits)
      from old_row [OF this] show ?thesis by auto
    qed
  next
    fix r assume r: "r \<in> {1..max R R'}"
    show "r \<in> {r. \<exists>c. cell_value ws1 r c \<noteq> Null}"
    proof (cases "r \<le> R")
      case True
      with r have "1 \<le> r" "r \<le> length grid" by (simp_all add: R_def)
      from full_grid_row [OF fg this] obtain c where
        "1 \<le> c" "c \<le> C" "grid_value grid (r - 1) (c - 1) \<noteq> Null"
        by (auto simp: C_def)
      with True r have "cell_value ws1 r c \<noteq> Null" by (auto simp: cv1 split: if_splits)
      then show ?thesis by blast
    next
      case False
      with r have "r \<in> {1..R'}" by simp
      then have "r \<in> {r. \<exists>c. cell_value ws r c \<noteq> Null}" unfolding rows_old .
      then obtain c where "cell_value ws r c \<noteq> Null" by blast
      with False have "cell_value ws1 r c \<noteq> Null" by (auto simp: cv1 split: if_splits)
      then show ?thesis by blast
    qed
  qed
  have cols1: "{c. \<exists>r. cell_value ws1 r c \<noteq> Null} = {1..max C C'}"
  proof (intro set_eqI iffI)
    fix c assume "c \<in> {c. \<exists>r. cell_value ws1 r c \<noteq> Null}"
    then obtain r where r: "cell_value ws1 r c \<noteq> Null" by blast
    show "c \<in> {1..max C C'}"
    proof (cases "1 \<le> r \<and> r \<le> R \<and> 1 \<le> c \<and> c \<le> C")
      case True
      then show ?thesis by auto
    next
      case False
      with r have "cell_value ws r c \<noteq> Null" by (auto simp: cv1 split: if_splits)
      from old_col [OF this] show ?thesis by auto
    qed
  next
    fix c assume c: "c \<in> {1..max C C'}"
    show "c \<in> {c. \<exists>r. cell_value ws1 r c \<noteq> Null}"
    proof (cases "c \<le> C")
      case True
      with c have "1 \<le> c" "c \<le> maxColIn grid" by (simp_all add: C_def)
      from full_grid_col [OF fg this] obtain r where
        "1 \<le> r" "r \<le> R" "grid_value grid (r - 1) (c - 1) \<noteq> Null"
        by (auto simp: R_def)
      with True c have "cell_value ws1 r c \<noteq> Null" by (auto simp: cv1 split: if_splits)
      then show ?thesis by blast
    next
      case False
      with c have "c \<in> {1..C'}" by simp
      then have "c \<in> {c. \<exists>r. cell_value ws r c \<noteq> Null}" unfolding cols_old .
      then obtain r where "cell_value ws r c \<noteq> Null" by blast
      with False have "cell_value ws1 r c \<noteq> Null" by (auto simp: cv1 split: if_splits)
      then show ?thesis by blast
    qed
  qed
  have Er: "used_rows ws1 = max R R'"
    using Rpos by (simp add: used_rows_def num_or_def actualRowCount_card rows1)
  have Ec: "used_cols ws1 = max C C'"
    using Cpos by (simp add: used_cols_def num_or_def actualColumnCount_card cols1)
  define ws2 where "ws2 = for_cells [R + 1..<max R R' + 1] [1..<max C C' + 1] clear_cell ws1"
  define ws3 where
    "ws3 = for_cells [1..<max (max R R') R + 1] [C + 1..<max C C' + 1] clear_cell ws2"
  have ag: "apply_grid grid ws = ws3"
    unfolding apply_grid_def Let_def
    unfolding R_def [symmetric] C_def [symmetric]
    unfolding ws1_def [symmetric]
    unfolding Er Ec
    unfolding ws2_def [symmetric]
    unfolding ws3_def [symmetric]
    by (rule refl)
  have cv2: "cell_value ws2 r c =
      (if R + 1 \<le> r \<and> r \<le> max R R' \<and> 1 \<le> c \<and> c \<le> max C C' then Null
       else cell_value ws1 r c)" for r c
    unfolding ws2_def by (rule cell_value_cleared) simp_all
  have cv3: "cell_value ws3 r c =
      (if 1 \<le> r \<and> r \<le> max (max R R') R \<and> C + 1 \<le> c \<and> c \<le> max C C' then Null
       else cell_value ws2 r c)" for r c
    unfolding ws3_def by (rule cell_value_cleared) simp_all
  show ?thesis
  proof (cases "1 \<le> r \<and> r \<le> R \<and> 1 \<le> c \<and> c \<le> C")
    case True
    then show ?thesis
      by (simp add: ag cv3 cv2 cv1 R_def [symmetric] C_def [symmetric])
  next
    case False
    from False have c1: "cell_value ws1 r c = cell_value ws r c"
      unfolding cv1 by (rule if_not_P)
    have "cell_value ws3 r c = Null"
    proof (cases "cell_value ws r c = Null")
      case True
      then show ?thesis by (simp add: cv3 cv2 c1)
    next
      case old: False
      have b: "1 \<le> r" "r \<le> R'" "1 \<le> c" "c \<le> C'"
        using old_row [OF old] old_col [OF old] by simp_all
      show ?thesis
      proof (cases "C < c")
        case True
        with b have "1 \<le> r \<and> r \<le> max (max R R') R \<and> C + 1 \<le> c \<and> c \<le> max C C'"
          by auto
        then show ?thesis unfolding cv3 by (rule if_P)
      next
        case cin: False
        with False b have "R < r" by auto
        with b have "R + 1 \<le> r \<and> r \<le> max R R' \<and> 1 \<le> c \<and> c \<le> max C C'"
          by auto
        then have "cell_value ws2 r c = Null" unfolding cv2 by (rule if_P)
        then show ?thesis by (simp add: cv3)
      qed
    qed
    moreover from False have
      "(if 1 \<le> r \<and> r \<le> length grid \<and> 1 \<le> c \<and> c \<le> maxColIn grid
        then grid_value grid (r - 1) (c - 1) else Null) = Null"
      unfolding R_def [symmetric] C_def [symmetric] by (rule if_not_P)
    ultimately show ?thesis by (simp only: ag)
  qed
qed

lemma padded_grid_nth:
  assumes "i < length grid" "j < maxColIn grid"
  shows "padded_grid grid ! i ! j = grid_value grid i j"
  using assms by (auto simp: padded_grid_def grid_value_def pad_def nth_append)

lemma length_padded_row:
  assumes "i < length grid"
  shows "length (padded_grid grid ! i) = maxColIn grid"
proof -
  have "grid ! i \<in> set grid" using assms by simp
  then have "length (grid ! i) \<le> maxColIn grid" by (rule maxColIn_ge)
  then show ?thesis using assms by (simp add: padded_grid_def pad_def)
qed

lemma map_upt_from_one: "map f [1..<n + 1] = map (\<lambda>i. f (Suc i)) [0..<n]"
proof -
  have "[1..<n + 1] = map Suc [0..<n]"
    unfolding map_Suc_upt by simp
  then have "map f [1..<n + 1] = map f (map Suc [0..<n])"
    by (rule arg_cong)
  also have "\<dots> = map (\<lambda>i. f (Suc i)) [0..<n]"
    by (simp only: map_map comp_def)
  finally show ?thesis .
qed

lemma preview_of_grid:
  assumes fg: "full_grid grid"
    and cells: "\<And>r c. cell_value ws r c =
           (if 1 \<le> r \<and> r \<le> length grid \<and> 1 \<le> c \<and> c \<le> maxColIn grid
            then grid_value grid (r - 1) (c - 1) else Null)"
  shows "preview_of sheet ws =
           \<lparr>pv_sheet = sheet, pv_grid = padded_grid grid,
            pv_rows = length grid, pv_cols = maxColIn grid\<rparr>"
proof -
  define R where "R = length grid"
  define C where "C = maxColIn grid"
  have Rpos: "1 \<le> R" and Cpos: "1 \<le> C"
    using full_grid_positive [OF fg] by (simp_all add: R_def C_def)
  have rows: "{r. \<exists>c. cell_value ws r c \<noteq> Null} = {1..R}"
  proof (intro set_eqI iffI)
    fix r assume "r \<in> {r. \<exists>c. cell_value ws r c \<noteq> Null}"
    then show "r \<in> {1..R}" by (auto simp: cells R_def split: if_splits)
  next
    fix r assume "r \<in> {1..R}"
    then have r: "1 \<le> r" "r \<le> length grid" by (simp_all add: R_def)
    from full_grid_row [OF fg this] obtain c where
      "1 \<le> c" "c \<le> maxColIn grid" "grid_value grid (r - 1) (c - 1) \<noteq> Null" by blast
    with r have "cell_value ws r c \<noteq> Null" by (simp add: cells)
    then show "r \<in> {r. \<exists>c. cell_value ws r c \<noteq> Null}" by blast
  qed
  have cols: "{c. \<exists>r. cell_value ws r c \<noteq> Null} = {1..C}"
  proof (intro set_eqI iffI)
    fix c assume "c \<in> {c. \<exists>r. cell_value ws r c \<noteq> Null}"
    then show "c \<in> {1..C}" by (auto simp: cells C_def split: if_splits)
  next
    fix c assume "c \<in> {1..C}"
    then have c: "1 \<le> c" "c \<le> maxColIn grid" by (simp_all add: C_def)
    from full_grid_col [OF fg this] obtain r where
      "1 \<le> r" "r \<le> length grid" "grid_value grid (r - 1) (c - 1) \<noteq> Null" by blast
    with c have "cell_value ws r c \<noteq> Null" by (simp add: cells)
    then show "c \<in> {c. \<exists>r. cell_value ws r c \<noteq> Null}" by blast
  qed
  have ar: "actualRowCount ws = R" by (simp add: actualRowCount_card rows)
  have ac: "actualColumnCount ws = C" by (simp add: actualColumnCount_card cols)
  have uc: "used_cols ws = C" using Cpos by (simp add: used_cols_def num_or_def ac)
  have cellg: "cell_value ws (Suc i) (Suc j) = padded_grid grid ! i ! j" if "i < R" "j < C" for i j
  proof -
    have "cell_value ws (Suc i) (Suc j) = grid_value grid i j"
      using that by (simp add: cells R_def C_def)
    moreover have "padded_grid grid ! i ! j = grid_value grid i j"
      using that by (simp add: padded_grid_nth R_def C_def)
    ultimately show ?thesis by simp
  qed
  have rowg: "map (\<lambda>j. cell_value ws (Suc i) (Suc j)) [0..<C] = padded_grid grid ! i" if "i < R" for i
  proof (rule nth_equalityI)
    show "length (map (\<lambda>j. cell_value ws (Suc i) (Suc j)) [0..<C]) = length (padded_grid grid ! i)"
      using that length_padded_row [of i grid] by (simp add: C_def R_def)
  next
    fix j assume "j < length (map (\<lambda>j. cell_value ws (Suc i) (Suc j)) [0..<C])"
    then have "j < C" by simp
    then show "map (\<lambda>j. cell_value ws (Suc i) (Suc j)) [0..<C] ! j = padded_grid grid ! i ! j"
      using that by (simp add: cellg)
  qed
  have "map (\<lambda>i. map (\<lambda>j. cell_value ws (Suc i) (Suc j)) [0..<C]) [0..<R] = padded_grid grid"
  proof (rule nth_equalityI)
    show "length (map (\<lambda>i. map (\<lambda>j. cell_value ws (Suc i) (Suc j)) [0..<C]) [0..<R])
            = length (padded_grid grid)"
      by (simp add: padded_grid_def R_def)
  next
    fix i assume "i < length (map (\<lambda>i. map (\<lambda>j. cell_value ws (Suc i) (Suc j)) [0..<C]) [0..<R])"
    then have "i < R" by simp
    then show "map (\<lambda>i. map (\<lambda>j. cell_value ws (Suc i) (Suc j)) [0..<C]) [0..<R] ! i
                 = padded_grid grid ! i"
      by (simp add: rowg)
  qed
  then have g: "map (\<lambda>r. map (\<lambda>c. cell_value ws r c) [1..<C + 1]) [1..<R + 1] = padded_grid grid"
    by (simp only: map_upt_from_one)
  show ?thesis
    using Rpos Cpos g
    by (simp add: preview_of_def Let_def ar uc num_or_def R_def [symmetric] C_def [symmetric]
        max_def)
qed

subsection \<open>Daily quota\<close>

text \<open>
  C5, as stated, fails: after three cell queries on the current day the shared set
  counts three entries, and the quota checks of add-sheet and save-all still let a
  free-plan user through.
\<close>

theorem quota_not_shared_counterexample:
  "userPlan example_request = ''free'' \<and>
   count_today
     (audit (example_state [example_entry ''get_cell'' ''A'' 90000,
        example_entry ''get_cell'' ''A'' 90001, example_entry ''get_cell'' ''A'' 90002]))
     (user_id example_request) [''add_sheet'', ''delete_sheet'', ''save_all'', ''get_cell'']
     (now example_excel_env) = 3 \<and>
   add_sheet_quota example_excel_env example_request
     (example_state [example_entry ''get_cell'' ''A'' 90000,
        example_entry ''get_cell'' ''A'' 90001, example_entry ''get_cell'' ''A'' 90002]) = None \<and>
   save_all_quota example_excel_env example_request
     (example_state [example_entry ''get_cell'' ''A'' 90000,
        example_entry ''get_cell'' ''A'' 90001, example_entry ''get_cell'' ''A'' 90002]) = None"
  by (simp add: count_today_def example_state_def example_entry_def example_request_def
      example_excel_env_def day_start_def add_sheet_quota_def save_all_quota_def
      audit_count_def over_limit_def)

text \<open>
  C5, amended. Each of the four checks counts the user's audit entries of the current
  UTC day (created at or after its first second) over its own action list and refuses
  with 403 exactly when the caller is on the free plan, the count was read, and it has
  reached 3. The lists are: add-sheet counts \<open>add_sheet\<close>; save-all counts
  \<open>save_all\<close>; delete-sheet counts \<open>save_all\<close>, \<open>delete_sheet\<close>, \<open>edit_sheet\<close> and
  \<open>add_sheet\<close>; the cell query counts \<open>get_cell\<close>, \<open>save_all\<close>, \<open>delete_sheet\<close> and
  \<open>add_sheet\<close>.
\<close>

theorem quota_checks:
  fixes env :: excel_env and req :: request and st :: excel_state
  defines "n actions \<equiv> count_today (audit st) (user_id req) actions (now env)"
  shows "map_option fst (add_sheet_quota env req st) =
           (if userPlan req = ''free'' \<and> \<not> audit_read_error env \<and> 3 \<le> n [''add_sheet'']
            then Some 403 else None) \<and>
         map_option fst (save_all_quota env req st) =
           (if userPlan req = ''free'' \<and> \<not> audit_read_error env \<and> 3 \<le> n [''save_all'']
            then Some 403 else None) \<and>
         map_option fst (delete_sheet_quota env req st) =
           (if userPlan req = ''free'' \<and> \<not> audit_read_error env \<and>
               3 \<le> n [''save_all'', ''delete_sheet'', ''edit_sheet'', ''add_sheet'']
            then Some 403 else None) \<and>
         map_option fst (get_cell_quota env req st) =
           (if userPlan req = ''free'' \<and> \<not> audit_read_error env \<and>
               3 \<le> n [''get_cell'', ''save_all'', ''delete_sheet'', ''add_sheet'']
            then Some 403 else None)"
  by (simp add: add_sheet_quota_def save_all_quota_def delete_sheet_quota_def get_cell_quota_def
      audit_count_def over_limit_def n_def)

theorem quota_checks_witness:
  "map_option fst (get_cell_quota example_excel_env example_request
     (example_state [example_entry ''get_cell'' ''A'' 90000,
        example_entry ''save_all'' ''A'' 90001, example_entry ''add_sheet'' ''B'' 90002]))
     = Some 403 \<and>
   map_option fst (add_sheet_quota example_excel_env example_request
     (example_state [example_entry ''get_cell'' ''A'' 90000,
        example_entry ''save_all'' ''A'' 90001, example_entry ''add_sheet'' ''B'' 90002]))
     = None"
proof -
  let ?st = "example_state [example_entry ''get_cell'' ''A'' 90000,
        example_entry ''save_all'' ''A'' 90001, example_entry ''add_sheet'' ''B'' 90002]"
  have a: "userPlan example_request = ''free''" "\<not> audit_read_error example_excel_env"
    by (simp_all add: example_request_def example_excel_env_def)
  have c1: "count_today (audit ?st) (user_id example_request)
              [''get_cell'', ''save_all'', ''delete_sheet'', ''add_sheet''] (now example_excel_env) = 3"
    by (simp add: count_today_def example_state_def example_entry_def example_request_def
        example_excel_env_def day_start_def)
  have c2: "count_today (audit ?st) (user_id example_request)
              [''add_sheet''] (now example_excel_env) = 1"
    by (simp add: count_today_def example_state_def example_entry_def example_request_def
        example_excel_env_def day_start_def)
  show ?thesis
    using quota_checks [of example_excel_env example_request ?st] a c1 c2 by simp
qed

subsection \<open>Sheet list order\<close>

lemma map_of_store_put:
  "map_of (store_put key b xs) k = (if k = key then Some b else map_of xs k)"
  by (induction xs) auto

lemma mset_swap_list:
  assumes "i < length xs" "j < length xs"
  shows "mset (swap i j xs) = mset xs"
  unfolding swap_def using assms by (simp add: mset_swap)

lemma length_swap: "length (swap i j xs) = length xs"
  by (simp add: swap_def)

lemma mset_shuffle_from:
  assumes "\<forall>i. draw i \<le> i" and "k < length xs"
  shows "mset (shuffle_from draw k xs) = mset xs"
  using assms(2)
proof (induction k arbitrary: xs)
  case 0
  then show ?case by simp
next
  case (Suc k)
  have d: "draw (Suc k) < length xs"
    using assms(1) Suc.prems by (meson le_less_trans)
  have "mset (shuffle_from draw k (swap (Suc k) (draw (Suc k)) xs))
          = mset (swap (Suc k) (draw (Suc k)) xs)"
    by (rule Suc.IH) (use Suc.prems in \<open>simp add: length_swap\<close>)
  also have "\<dots> = mset xs"
    by (rule mset_swap_list [OF Suc.prems d])
  finally show ?case by simp
qed

lemma mset_shuffle:
  assumes "\<forall>i. draw i \<le> i"
  shows "mset (shuffle draw xs) = mset xs"
proof (cases xs)
  case Nil
  then show ?thesis by (simp add: shuffle_def)
next
  case (Cons a list)
  then have "length xs - 1 < length xs" by simp
  then show ?thesis unfolding shuffle_def by (rule mset_shuffle_from [OF assms])
qed

lemma add_sheet_store_result:
  assumes "add_sheet_store env req key name wb st = (Success (sheet, served), st')"
  shows "\<exists>ws. addWorksheet wb name = Some ws \<and> sheet = name \<and>
           served = name # shuffle (pick env)
                      (filter (\<lambda>s. s \<noteq> name)
                         (sheet_names (wb @ [set_cell ws 1 1 (Str ''New sheet created'')]))) \<and>
           map_of (storage st') key =
             Some (Book (wb @ [set_cell ws 1 1 (Str ''New sheet created'')])) \<and>
           audit st' = audit st @
             [\<lparr>a_user_id = user_id req, a_email = userEmail req, a_action = ''add_sheet'',
               a_sheet_name = Some name, a_created_at = now env\<rparr>]"
proof (cases "addWorksheet wb name")
  case None
  with assms show ?thesis by (simp add: add_sheet_store_def)
next
  case (Some ws)
  show ?thesis
  proof (cases "upload_error env")
    case None
    with assms Some show ?thesis
      by (auto simp: add_sheet_store_def Let_def updateBufferToStorage_def audit_insert_def
          broadcastSSE_def map_of_store_put)
  next
    case (Some msg)
    with assms \<open>addWorksheet wb name = Some ws\<close> show ?thesis
      by (simp add: add_sheet_store_def Let_def)
  qed
qed

lemma excel_add_sheet_success:
  assumes "excel_add_sheet cfg env req name overwrite st = (Success (sheet, served), st')"
  shows "\<exists>wb. add_sheet_store env req (target_key cfg req) name wb st
              = (Success (sheet, served), st')"
  using assms
  by (auto simp: excel_add_sheet_def Let_def
      split: if_splits option.splits blob.splits prod.splits)

lemma excel_sheets_cases:
  "excel_sheets cfg env req st =
     (if fileKey req = [] then (Failure 404 ''Workbook not found'', st)
      else case getBufferFromStorage st (fileKey req) of
             None \<Rightarrow> (Failure 404 ''Workbook not found'', st)
           | Some Corrupt \<Rightarrow> (server_error, st)
           | Some (Book workbook) \<Rightarrow>
               (case listed_sheets cfg req st workbook of
                  None \<Rightarrow> (server_error, st)
                | Some sheets \<Rightarrow> (Success (pin_latest sheets (latest_sheet env st req)), st)))"
  by (simp add: excel_sheets_def Let_def)

lemma excel_sheets_unpinned:
  assumes "excel_sheets cfg env req st = (Success served, st')"
  shows "st' = st \<and>
         (\<exists>base. excel_sheets cfg env req (st\<lparr>audit := []\<rparr>) = (Success base, st\<lparr>audit := []\<rparr>) \<and>
                 served = pin_latest base (latest_sheet env st req))"
proof -
  let ?s0 = "st\<lparr>audit := []\<rparr>"
  have l0: "latest_sheet env ?s0 req = None"
    by (simp add: latest_sheet_def)
  have g: "getBufferFromStorage ?s0 k = getBufferFromStorage st k" for k
    by (simp add: getBufferFromStorage_def)
  have ls: "listed_sheets cfg req ?s0 wb = listed_sheets cfg req st wb" for wb
    by (simp add: listed_sheets_def Let_def g)
  have p0: "pin_latest base None = base" for base
    by (simp add: pin_latest_def)
  from assms have k: "fileKey req \<noteq> []"
    unfolding excel_sheets_cases by (auto split: if_splits)
  from assms k obtain wb where wb: "getBufferFromStorage st (fileKey req) = Some (Book wb)"
    unfolding excel_sheets_cases by (auto split: option.splits blob.splits)
  from assms k wb obtain base where base: "listed_sheets cfg req st wb = Some base"
    unfolding excel_sheets_cases by (auto split: option.splits)
  from assms k wb base have r: "served = pin_latest base (latest_sheet env st req)" "st' = st"
    unfolding excel_sheets_cases by auto
  have "excel_sheets cfg env req ?s0 = (Success base, ?s0)"
    unfolding excel_sheets_cases using k wb base
    by (simp add: g ls l0 p0)
  with r show ?thesis by blast
qed

lemma example_storage:
  "getBufferFromStorage (example_state rows) ''users/u1/uploaded.xlsx''
     = Some (Book example_workbook)"
  by (simp add: getBufferFromStorage_def example_state_def)

lemma example_sheet_names: "sheet_names example_workbook = [''A'', ''B'', ''C'']"
  by (simp add: sheet_names_def example_workbook_def sheet_of_def)

lemma example_shuffle:
  "shuffle (pick example_excel_env) [''A'', ''B'', ''C''] = [''B'', ''C'', ''A'']"
  by (simp add: shuffle_def swap_def example_excel_env_def numeral_2_eq_2)

lemma example_new_sheet: "addWorksheet example_workbook ''D'' = Some (empty_sheet ''D'')"
  by code_simp

lemma example_add_sheet:
  "fst (excel_add_sheet default_config example_excel_env example_request ''D'' False
          (example_state []))
     = Success (''D'', [''D'', ''B'', ''C'', ''A''])"
proof -
  have q: "add_sheet_quota example_excel_env example_request (example_state []) = None"
    by (simp add: add_sheet_quota_def audit_count_def over_limit_def count_today_def
        example_state_def example_excel_env_def example_request_def)
  have k: "target_key default_config example_request = ''users/u1/uploaded.xlsx''"
    by (simp add: target_key_def example_request_def)
  have w: "getWorksheet example_workbook ''D'' = None"
    by (simp add: getWorksheet_def example_workbook_def sheet_of_def)
  have e: "upload_error example_excel_env = None"
    by (simp add: example_excel_env_def)
  have a: "fst (add_sheet_store example_excel_env example_request ''users/u1/uploaded.xlsx'' ''D''
                 example_workbook (example_state []))
             = Success (''D'', [''D'', ''B'', ''C'', ''A''])"
    by (simp add: add_sheet_store_def Let_def e sheet_names_def example_new_sheet
        example_sheet_names [unfolded sheet_names_def] example_shuffle set_cell_def
        empty_sheet_def)
  show ?thesis
    by (simp add: excel_add_sheet_def q k example_storage w a)
qed

lemma example_latest_deleted:
  "latest_sheet example_excel_env
     (example_state [example_entry ''add_sheet'' ''B'' 90000,
                     example_entry ''delete_sheet'' ''Z'' 90001]) example_request = Some ''Z''"
  by (simp add: latest_sheet_def example_excel_env_def example_state_def example_entry_def
      example_request_def)

lemma example_latest_saved:
  "latest_sheet example_excel_env
     (example_state [example_entry ''add_sheet'' ''B'' 90000,
                     example_entry ''save_all'' ''C'' 90001]) example_request = Some ''C''"
  by (simp add: latest_sheet_def example_excel_env_def example_state_def example_entry_def
      example_request_def)

lemma example_sheets:
  "excel_sheets default_config example_excel_env example_request (example_state rows)
     = (Success (pin_latest [''A'', ''B'', ''C'']
                   (latest_sheet example_excel_env (example_state rows) example_request)),
        example_state rows)"
proof -
  have ls: "listed_sheets default_config example_request (example_state rows) example_workbook
              = Some [''A'', ''B'', ''C'']"
    by (simp add: listed_sheets_def example_sheet_names example_request_def)
  have fk: "fileKey example_request = ''users/u1/uploaded.xlsx''"
    by (simp add: example_request_def)
  show ?thesis
    by (simp add: excel_sheets_cases fk example_storage ls)
qed

text \<open>
  C3, as stated, fails on both routes. The add-sheet response puts the new sheet first
  and shuffles the others: with the draws all 0, the sheets A, B, C come back as B, C,
  A. The sheet list is served in workbook order, with nothing pinned, when the latest
  audit entry names a sheet that is not in the list (here a deleted sheet Z).
\<close>

theorem sheet_order_counterexample:
  "fst (excel_add_sheet default_config example_excel_env example_request ''D'' False
          (example_state []))
     = Success (''D'', [''D'', ''B'', ''C'', ''A'']) \<and>
   sheet_names example_workbook = [''A'', ''B'', ''C''] \<and>
   latest_sheet example_excel_env
     (example_state [example_entry ''add_sheet'' ''B'' 90000,
                     example_entry ''delete_sheet'' ''Z'' 90001]) example_request = Some ''Z'' \<and>
   fst (excel_sheets default_config example_excel_env example_request
          (example_state [example_entry ''add_sheet'' ''B'' 90000,
                          example_entry ''delete_sheet'' ''Z'' 90001]))
     = Success [''A'', ''B'', ''C'']"
proof -
  have l: "latest_sheet example_excel_env
     (example_state [example_entry ''add_sheet'' ''B'' 90000,
                     example_entry ''delete_sheet'' ''Z'' 90001]) example_request = Some ''Z''"
    by (rule example_latest_deleted)
  have r2: "fst (excel_sheets default_config example_excel_env example_request
          (example_state [example_entry ''add_sheet'' ''B'' 90000,
                          example_entry ''delete_sheet'' ''Z'' 90001]))
     = Success [''A'', ''B'', ''C'']"
    by (simp add: example_sheets l pin_latest_def)
  show ?thesis using example_add_sheet example_sheet_names l r2 by simp
qed

text \<open>
  C3, amended. \<open>GET /excel/sheets\<close>: let \<open>base\<close> be the list the route serves when
  the audit table is empty. When the most recent sheet name among the user's
  \<open>add_sheet\<close>, \<open>delete_sheet\<close> and \<open>save_all\<close> entries is in \<open>base\<close>, the served list
  is that name followed by \<open>base\<close> without its first occurrence, so the name is at
  index 0 and the others keep their order; otherwise (no such entry, or a name that is
  not in the list) the served list is \<open>base\<close>. \<open>POST /excel/add-sheet\<close>: on success
  the new name is at index 0, and the rest of the list is a permutation (the shuffle)
  of the other sheet names of the stored workbook.
\<close>

theorem sheet_order:
  "(excel_sheets cfg env req st = (Success served, st') \<longrightarrow>
      (\<exists>base. excel_sheets cfg env req (st\<lparr>audit := []\<rparr>) = (Success base, st\<lparr>audit := []\<rparr>) \<and>
         (case latest_sheet env st req of
            None \<Rightarrow> served = base
          | Some l \<Rightarrow> if l \<in> set base then served = l # remove1 l base else served = base))) \<and>
   ((\<forall>i. pick env i \<le> i) \<and>
    excel_add_sheet cfg env req name overwrite st = (Success (sheet, listed), st2) \<longrightarrow>
      sheet = name \<and> hd listed = name \<and>
      (\<exists>wb. map_of (storage st2) (target_key cfg req) = Some (Book wb) \<and>
            mset (tl listed) = mset (filter (\<lambda>s. s \<noteq> name) (sheet_names wb))))"
proof (intro conjI impI)
  assume "excel_sheets cfg env req st = (Success served, st')"
  from excel_sheets_unpinned [OF this] obtain base where
    b: "excel_sheets cfg env req (st\<lparr>audit := []\<rparr>) = (Success base, st\<lparr>audit := []\<rparr>)"
    and s: "served = pin_latest base (latest_sheet env st req)"
    by blast
  have ne: "l \<noteq> []" if "latest_sheet env st req = Some l" for l
    using that by (auto simp: latest_sheet_def split: if_splits option.splits)
  have "case latest_sheet env st req of
          None \<Rightarrow> served = base
        | Some l \<Rightarrow> if l \<in> set base then served = l # remove1 l base else served = base"
    using s ne by (auto simp: pin_latest_def split: option.splits)
  with b show "\<exists>base. excel_sheets cfg env req (st\<lparr>audit := []\<rparr>)
                         = (Success base, st\<lparr>audit := []\<rparr>) \<and>
         (case latest_sheet env st req of
            None \<Rightarrow> served = base
          | Some l \<Rightarrow> if l \<in> set base then served = l # remove1 l base else served = base)"
    by blast
next
  assume a: "(\<forall>i. pick env i \<le> i) \<and>
    excel_add_sheet cfg env req name overwrite st = (Success (sheet, listed), st2)"
  then obtain wb where
    "add_sheet_store env req (target_key cfg req) name wb st = (Success (sheet, listed), st2)"
    using excel_add_sheet_success by blast
  from add_sheet_store_result [OF this] obtain ws where
    r1: "sheet = name"
    and r2: "listed = name # shuffle (pick env)
               (filter (\<lambda>s. s \<noteq> name)
                  (sheet_names (wb @ [set_cell ws 1 1 (Str ''New sheet created'')])))"
    and r3: "map_of (storage st2) (target_key cfg req) =
               Some (Book (wb @ [set_cell ws 1 1 (Str ''New sheet created'')]))"
    by blast
  let ?out = "wb @ [set_cell ws 1 1 (Str ''New sheet created'')]"
  show "sheet = name" by (rule r1)
  show "hd listed = name" using r2 by simp
  from a have draws: "\<forall>i. pick env i \<le> i" by blast
  from r2 have "tl listed = shuffle (pick env) (filter (\<lambda>s. s \<noteq> name) (sheet_names ?out))"
    by simp
  then have "mset (tl listed) = mset (filter (\<lambda>s. s \<noteq> name) (sheet_names ?out))"
    by (simp only: mset_shuffle [OF draws])
  with r3 show "\<exists>wb. map_of (storage st2) (target_key cfg req) = Some (Book wb) \<and>
            mset (tl listed) = mset (filter (\<lambda>s. s \<noteq> name) (sheet_names wb))"
    by blast
qed

theorem sheet_order_witness:
  "excel_sheets default_config example_excel_env example_request
     (example_state [example_entry ''add_sheet'' ''B'' 90000,
                     example_entry ''save_all'' ''C'' 90001])
   = (Success [''C'', ''A'', ''B''],
      example_state [example_entry ''add_sheet'' ''B'' 90000,
                     example_entry ''save_all'' ''C'' 90001]) \<and>
   (\<exists>base. excel_sheets default_config example_excel_env example_request
              (example_state [example_entry ''add_sheet'' ''B'' 90000,
                              example_entry ''save_all'' ''C'' 90001]\<lparr>audit := []\<rparr>)
            = (Success base,
               example_state [example_entry ''add_sheet'' ''B'' 90000,
                              example_entry ''save_all'' ''C'' 90001]\<lparr>audit := []\<rparr>) \<and>
          [''C'', ''A'', ''B''] = ''C'' # remove1 ''C'' base) \<and>
   (\<forall>i. pick example_excel_env i \<le> i) \<and>
   (\<exists>st2 wb. excel_add_sheet default_config example_excel_env example_request ''D'' False
                 (example_state []) = (Success (''D'', [''D'', ''B'', ''C'', ''A'']), st2) \<and>
             map_of (storage st2) (target_key default_config example_request) = Some (Book wb) \<and>
             mset [''B'', ''C'', ''A''] = mset (filter (\<lambda>s. s \<noteq> ''D'') (sheet_names wb)))"
proof -
  let ?st = "example_state [example_entry ''add_sheet'' ''B'' 90000,
                            example_entry ''save_all'' ''C'' 90001]"
  have l: "latest_sheet example_excel_env ?st example_request = Some ''C''"
    by (rule example_latest_saved)
  have s: "excel_sheets default_config example_excel_env example_request ?st
             = (Success [''C'', ''A'', ''B''], ?st)"
    by (simp add: example_sheets l pin_latest_def)
  have d: "\<forall>i. pick example_excel_env i \<le> i"
    by (simp add: example_excel_env_def)
  obtain st2 where a: "excel_add_sheet default_config example_excel_env example_request ''D''
      False (example_state []) = (Success (''D'', [''D'', ''B'', ''C'', ''A'']), st2)"
    using example_add_sheet by (metis prod.collapse)
  note t = sheet_order [where cfg = default_config and env = example_excel_env
      and req = example_request and st = ?st and served = "[''C'', ''A'', ''B'']" and st' = ?st,
      THEN conjunct1, THEN mp, OF s]
  then obtain base where
    b: "excel_sheets default_config example_excel_env example_request (?st\<lparr>audit := []\<rparr>)
          = (Success base, ?st\<lparr>audit := []\<rparr>)"
    and c: "if ''C'' \<in> set base then [''C'', ''A'', ''B''] = ''C'' # remove1 ''C'' base
            else [''C'', ''A'', ''B''] = base"
    unfolding l by auto
  from c have c': "[''C'', ''A'', ''B''] = ''C'' # remove1 ''C'' base"
    by (auto split: if_splits)
  note u = sheet_order [where env = example_excel_env and cfg = default_config
      and req = example_request and name = "''D''" and overwrite = False
      and st = "example_state []" and sheet = "''D''"
      and listed = "[''D'', ''B'', ''C'', ''A'']" and ?st2.0 = st2,
      THEN conjunct2, THEN mp, OF conjI [OF d a]]
  then obtain wb where
    "map_of (storage st2) (target_key default_config example_request) = Some (Book wb)"
    "mset (tl [''D'', ''B'', ''C'', ''A'']) = mset (filter (\<lambda>s. s \<noteq> ''D'') (sheet_names wb))"
    by blast
  with a have e: "\<exists>st2 wb. excel_add_sheet default_config example_excel_env example_request
                 ''D'' False (example_state [])
                   = (Success (''D'', [''D'', ''B'', ''C'', ''A'']), st2) \<and>
             map_of (storage st2) (target_key default_config example_request) = Some (Book wb) \<and>
             mset [''B'', ''C'', ''A''] = mset (filter (\<lambda>s. s \<noteq> ''D'') (sheet_names wb))"
    by auto
  from b c' have f: "\<exists>base. excel_sheets default_config example_excel_env example_request
              (?st\<lparr>audit := []\<rparr>) = (Success base, ?st\<lparr>audit := []\<rparr>) \<and>
          [''C'', ''A'', ''B''] = ''C'' # remove1 ''C'' base"
    by blast
  show ?thesis using s f d e by blast
qed

subsection \<open>Adding a sheet that exists\<close>

lemma add_sheet_store_ok:
  assumes "upload_error env = None" and "addWorksheet wb name = Some ws"
  shows "add_sheet_store env req key name wb st =
           (Success (name, name # shuffle (pick env)
                       (filter (\<lambda>s. s \<noteq> name)
                          (sheet_names (wb @ [set_cell ws 1 1 (Str ''New sheet created'')])))),
            broadcastSSE ''excel:add_sheet'' name
              (audit_insert env req ''add_sheet'' (Some name)
                 (updateBufferToStorage st key
                    (Book (wb @ [set_cell ws 1 1 (Str ''New sheet created'')])))))"
  using assms by (simp add: add_sheet_store_def Let_def)

lemma add_sheet_store_upload_error:
  assumes "upload_error env = Some msg" and "addWorksheet wb name = Some ws"
  shows "add_sheet_store env req key name wb st = (Failure 500 msg, st)"
  using assms by (simp add: add_sheet_store_def Let_def)

lemma storage_after_write:
  "map_of (storage (broadcastSSE ev x (audit_insert env req action sheet
             (updateBufferToStorage st key b)))) key = Some b"
  by (simp add: broadcastSSE_def audit_insert_def updateBufferToStorage_def map_of_store_put)

lemma audit_after_write:
  "audit (broadcastSSE ev x (audit_insert env req action sheet (updateBufferToStorage st key b)))
     = audit st @
         [\<lparr>a_user_id = user_id req, a_email = userEmail req, a_action = action,
           a_sheet_name = sheet, a_created_at = now env\<rparr>]"
  by (simp add: broadcastSSE_def audit_insert_def updateBufferToStorage_def)

lemma example_target_key:
  "target_key default_config example_request = ''users/u1/uploaded.xlsx''"
  by (simp add: target_key_def example_request_def)

lemma example_quota_free:
  "add_sheet_quota example_excel_env example_request (example_state []) = None"
  "delete_sheet_quota example_excel_env example_request (example_state []) = None"
  "get_cell_quota example_excel_env example_request (example_state []) = None"
  "save_all_quota example_excel_env example_request (example_state []) = None"
  by (simp_all add: add_sheet_quota_def delete_sheet_quota_def get_cell_quota_def
      save_all_quota_def audit_count_def over_limit_def count_today_def
      example_state_def example_excel_env_def example_request_def)

text \<open>A name that the library takes as it is: the new sheet, and what the workbook holds.\<close>

lemma worksheet_name_fresh:
  assumes "worksheet_name wb name = Some name"
  shows "addWorksheet wb name = Some (empty_sheet name)"
    and "\<forall>w \<in> set wb. ws_name w \<noteq> name"
proof -
  show "addWorksheet wb name = Some (empty_sheet name)"
    by (simp add: addWorksheet_def assms)
  from assms have t: "take 31 name = name"
    by (simp add: worksheet_name_def Let_def split: if_splits)
  from assms have "\<not> list_ex (\<lambda>w. toLowerCase (ws_name w) = toLowerCase (take 31 name)) wb"
    by (simp add: worksheet_name_def Let_def split: if_splits)
  then have "\<forall>w \<in> set wb. toLowerCase (ws_name w) \<noteq> toLowerCase name"
    unfolding t by (simp add: list_ex_iff)
  then show "\<forall>w \<in> set wb. ws_name w \<noteq> name"
    by auto
qed

lemma removeWorksheet_filter:
  assumes "getWorksheet wb name = Some existing"
    and "\<forall>w \<in> set (removeWorksheet wb existing). ws_name w \<noteq> name"
  shows "removeWorksheet wb existing = filter (\<lambda>w. ws_name w \<noteq> name) wb"
  using assms unfolding getWorksheet_def removeWorksheet_def
proof (induction wb)
  case Nil
  then show ?case by simp
next
  case (Cons w wb)
  show ?case
  proof (cases "ws_name w = name")
    case True
    with Cons.prems(1) have e: "existing = w" by simp
    from Cons.prems(2) have "\<forall>v \<in> set wb. ws_name v \<noteq> name"
      by (simp add: e)
    then have "filter (\<lambda>v. ws_name v \<noteq> name) wb = wb"
      by (simp add: filter_id_conv)
    then show ?thesis by (simp add: e True)
  next
    case False
    with Cons.prems(1) have f: "find (\<lambda>v. ws_name v = name) wb = Some existing" by simp
    then have "ws_name existing = name" by (auto simp: find_Some_iff)
    with False have ne: "existing \<noteq> w" by auto
    from Cons.prems(2) have "\<forall>v \<in> set (remove1 existing wb). ws_name v \<noteq> name"
      by (simp add: ne)
    from Cons.IH [OF f this] show ?thesis
      by (simp add: ne False)
  qed
qed

text \<open>
  C7, as stated, fails for a caller on the free plan who has added three sheets on the
  current day: the quota check comes before the workbook is read, so add-sheet with
  the name of a sheet that exists and \<open>overwrite\<close> false is refused with status 403 and
  the quota message, not with the conflict.
\<close>

theorem add_sheet_existing_counterexample:
  "userPlan example_request = ''free'' \<and>
   getBufferFromStorage
     (example_state [example_entry ''add_sheet'' ''A'' 90000,
        example_entry ''add_sheet'' ''B'' 90001, example_entry ''add_sheet'' ''C'' 90002])
     (target_key default_config example_request) = Some (Book example_workbook) \<and>
   getWorksheet example_workbook ''B'' = Some (sheet_of ''B'' [[Num 1]]) \<and>
   excel_add_sheet default_config example_excel_env example_request ''B'' False
     (example_state [example_entry ''add_sheet'' ''A'' 90000,
        example_entry ''add_sheet'' ''B'' 90001, example_entry ''add_sheet'' ''C'' 90002])
   = (Failure 403 ''Free plan limit: max 3 new sheets per day'',
      example_state [example_entry ''add_sheet'' ''A'' 90000,
        example_entry ''add_sheet'' ''B'' 90001, example_entry ''add_sheet'' ''C'' 90002])"
proof -
  let ?st = "example_state [example_entry ''add_sheet'' ''A'' 90000,
        example_entry ''add_sheet'' ''B'' 90001, example_entry ''add_sheet'' ''C'' 90002]"
  have p: "userPlan example_request = ''free''"
    by (simp add: example_request_def)
  have b: "getBufferFromStorage ?st (target_key default_config example_request)
             = Some (Book example_workbook)"
    by (simp add: example_target_key example_storage)
  have w: "getWorksheet example_workbook ''B'' = Some (sheet_of ''B'' [[Num 1]])"
    by (simp add: getWorksheet_def example_workbook_def sheet_of_def)
  have q: "add_sheet_quota example_excel_env example_request ?st
             = Some (403, ''Free plan limit: max 3 new sheets per day'')"
    by (simp add: add_sheet_quota_def audit_count_def over_limit_def count_today_def
        day_start_def example_state_def example_entry_def example_excel_env_def
        example_request_def)
  have r: "excel_add_sheet default_config example_excel_env example_request ''B'' False ?st
             = (Failure 403 ''Free plan limit: max 3 new sheets per day'', ?st)"
    by (simp add: excel_add_sheet_def q)
  show ?thesis
    using p b w r by (intro conjI)
qed

text \<open>
  C7, amended. Let the workbook under the request's key hold a sheet of the given name.
  With \<open>overwrite\<close> false, add-sheet leaves the state as it was (no upload, no audit
  entry, no broadcast), whatever it answers; a request that passes the checks made
  before the workbook is read (a name is given, the daily quota is not used up, the
  key is not empty) is refused with status 400 and the error "Sheet already exists".
  With \<open>overwrite\<close> true, let the request pass those checks, let the library take the
  name as it is once the old sheet is removed, and let the upload go through. Then the
  stored workbook holds the sheets of every other name as before, in their order, and
  behind them one new sheet of the given name, which holds only the marker in A1: the
  old sheet is gone.
\<close>

theorem add_sheet_existing:
  assumes "getBufferFromStorage st (target_key cfg req) = Some (Book wb)"
    and "getWorksheet wb name = Some existing"
  shows "snd (excel_add_sheet cfg env req name False st) = st \<and>
         (name \<noteq> [] \<and> add_sheet_quota env req st = None \<and> target_key cfg req \<noteq> [] \<longrightarrow>
            fst (excel_add_sheet cfg env req name False st)
              = Failure 400 ''Sheet already exists'') \<and>
         (name \<noteq> [] \<and> add_sheet_quota env req st = None \<and> target_key cfg req \<noteq> [] \<and>
          worksheet_name (removeWorksheet wb existing) name = Some name \<and>
          upload_error env = None \<longrightarrow>
            (\<exists>listed st'. excel_add_sheet cfg env req name True st
                              = (Success (name, listed), st') \<and>
               map_of (storage st') (target_key cfg req) =
                 Some (Book (filter (\<lambda>w. ws_name w \<noteq> name) wb @
                         [set_cell (empty_sheet name) 1 1 (Str ''New sheet created'')]))))"
proof (intro conjI impI)
  show "snd (excel_add_sheet cfg env req name False st) = st"
    using assms
    by (simp add: excel_add_sheet_def Let_def split: option.split prod.split)
next
  assume "name \<noteq> [] \<and> add_sheet_quota env req st = None \<and> target_key cfg req \<noteq> []"
  then show "fst (excel_add_sheet cfg env req name False st) = Failure 400 ''Sheet already exists''"
    using assms by (simp add: excel_add_sheet_def Let_def)
next
  assume a: "name \<noteq> [] \<and> add_sheet_quota env req st = None \<and> target_key cfg req \<noteq> [] \<and>
             worksheet_name (removeWorksheet wb existing) name = Some name \<and>
             upload_error env = None"
  then have acc: "worksheet_name (removeWorksheet wb existing) name = Some name"
    and up: "upload_error env = None"
    by simp_all
  have aw: "addWorksheet (removeWorksheet wb existing) name = Some (empty_sheet name)"
    by (rule worksheet_name_fresh(1) [OF acc])
  have rf: "removeWorksheet wb existing = filter (\<lambda>w. ws_name w \<noteq> name) wb"
    by (rule removeWorksheet_filter [OF assms(2) worksheet_name_fresh(2) [OF acc]])
  have "excel_add_sheet cfg env req name True st =
             add_sheet_store env req (target_key cfg req) name (removeWorksheet wb existing) st"
    using a assms by (simp add: excel_add_sheet_def Let_def)
  also have "\<dots> =
     (Success (name, name # shuffle (pick env)
                 (filter (\<lambda>s. s \<noteq> name)
                    (sheet_names (removeWorksheet wb existing @
                       [set_cell (empty_sheet name) 1 1 (Str ''New sheet created'')])))),
      broadcastSSE ''excel:add_sheet'' name
        (audit_insert env req ''add_sheet'' (Some name)
           (updateBufferToStorage st (target_key cfg req)
              (Book (removeWorksheet wb existing @
                 [set_cell (empty_sheet name) 1 1 (Str ''New sheet created'')])))))"
    by (rule add_sheet_store_ok [OF up aw])
  finally have e: "excel_add_sheet cfg env req name True st =
     (Success (name, name # shuffle (pick env)
                 (filter (\<lambda>s. s \<noteq> name)
                    (sheet_names (filter (\<lambda>w. ws_name w \<noteq> name) wb @
                       [set_cell (empty_sheet name) 1 1 (Str ''New sheet created'')])))),
      broadcastSSE ''excel:add_sheet'' name
        (audit_insert env req ''add_sheet'' (Some name)
           (updateBufferToStorage st (target_key cfg req)
              (Book (filter (\<lambda>w. ws_name w \<noteq> name) wb @
                 [set_cell (empty_sheet name) 1 1 (Str ''New sheet created'')])))))"
    unfolding rf .
  show "\<exists>listed st'. excel_add_sheet cfg env req name True st
                              = (Success (name, listed), st') \<and>
               map_of (storage st') (target_key cfg req) =
                 Some (Book (filter (\<lambda>w. ws_name w \<noteq> name) wb @
                         [set_cell (empty_sheet name) 1 1 (Str ''New sheet created'')]))"
    by (intro exI conjI) (rule e, rule storage_after_write)
qed

theorem add_sheet_existing_witness:
  "getBufferFromStorage (example_state []) (target_key default_config example_request)
     = Some (Book example_workbook) \<and>
   getWorksheet example_workbook ''B'' = Some (sheet_of ''B'' [[Num 1]]) \<and>
   worksheet_name (removeWorksheet example_workbook (sheet_of ''B'' [[Num 1]])) ''B''
     = Some ''B'' \<and>
   excel_add_sheet default_config example_excel_env example_request ''B'' False (example_state [])
     = (Failure 400 ''Sheet already exists'', example_state []) \<and>
   (\<exists>listed st'. excel_add_sheet default_config example_excel_env example_request ''B'' True
                    (example_state []) = (Success (''B'', listed), st') \<and>
       map_of (storage st') (target_key default_config example_request) =
         Some (Book [sheet_of ''A'' [[Str ''a1'', Str ''b1''], [Str ''a2'', Str ''b2'']],
                     sheet_of ''C'' [[Num 2]],
                     sheet_of ''B'' [[Str ''New sheet created'']]]))"
proof -
  have b: "getBufferFromStorage (example_state []) (target_key default_config example_request)
             = Some (Book example_workbook)"
    by (simp add: example_target_key example_storage)
  have w: "getWorksheet example_workbook ''B'' = Some (sheet_of ''B'' [[Num 1]])"
    by (simp add: getWorksheet_def example_workbook_def sheet_of_def)
  have acc: "worksheet_name (removeWorksheet example_workbook (sheet_of ''B'' [[Num 1]])) ''B''
               = Some ''B''"
    by code_simp
  have adm: "''B'' \<noteq> [] \<and>
        add_sheet_quota example_excel_env example_request (example_state []) = None \<and>
        target_key default_config example_request \<noteq> []"
    by (simp add: example_quota_free example_target_key)
  have up: "upload_error example_excel_env = None"
    by (simp add: example_excel_env_def)
  have ev: "filter (\<lambda>w. ws_name w \<noteq> ''B'') example_workbook @
              [set_cell (empty_sheet ''B'') 1 1 (Str ''New sheet created'')]
            = [sheet_of ''A'' [[Str ''a1'', Str ''b1''], [Str ''a2'', Str ''b2'']],
               sheet_of ''C'' [[Num 2]],
               sheet_of ''B'' [[Str ''New sheet created'']]]"
    by (simp add: example_workbook_def sheet_of_def set_cell_def empty_sheet_def pad_def Let_def)
  note t = add_sheet_existing [OF b w, where env = example_excel_env]
  from t have s: "snd (excel_add_sheet default_config example_excel_env example_request ''B''
                        False (example_state [])) = example_state []"
    by (rule conjunct1)
  from t adm have f: "fst (excel_add_sheet default_config example_excel_env example_request ''B''
                        False (example_state [])) = Failure 400 ''Sheet already exists''"
    by blast
  from s f have r1: "excel_add_sheet default_config example_excel_env example_request ''B'' False
                       (example_state []) = (Failure 400 ''Sheet already exists'', example_state [])"
    by (metis prod.collapse)
  from adm acc up have h: "''B'' \<noteq> [] \<and>
        add_sheet_quota example_excel_env example_request (example_state []) = None \<and>
        target_key default_config example_request \<noteq> [] \<and>
        worksheet_name (removeWorksheet example_workbook (sheet_of ''B'' [[Num 1]])) ''B''
          = Some ''B'' \<and>
        upload_error example_excel_env = None"
    by (intro conjI) simp_all
  note r2 = t [THEN conjunct2, THEN conjunct2, THEN mp, OF h, unfolded ev]
  show ?thesis
    using b w acc r1 r2 by (intro conjI)
qed

subsection \<open>Missing workbook\<close>

lemma save_all_store_ok:
  assumes "upload_error env = None" and "ws_name ws = sheet"
  shows "save_all_store env req key sheet d wb ws st =
           (Success (),
            broadcastSSE ''excel:save_all'' sheet
              (audit_insert env req ''save_all'' (Some sheet)
                 (updateBufferToStorage st key
                    (Book (replace_sheet wb sheet (apply_grid (normalize_grid d) ws))))))"
  using assms by (auto simp: save_all_store_def Let_def)

lemma save_all_store_upload_error:
  assumes "upload_error env = Some msg"
  shows "save_all_store env req key sheet d wb ws st = (Failure 500 msg, st)"
  using assms by (simp add: save_all_store_def Let_def)

lemma first_sheet: "addWorksheet [] ''Sheet1'' = Some (empty_sheet ''Sheet1'')"
  by code_simp

lemma add_sheet_missing:
  assumes "getBufferFromStorage st (target_key cfg req) = None"
    and "name \<noteq> []" and "name \<noteq> ''Sheet1''" and "add_sheet_quota env req st = None"
    and "target_key cfg req \<noteq> []"
  shows "excel_add_sheet cfg env req name overwrite st =
           add_sheet_store env req (target_key cfg req) name [empty_sheet ''Sheet1''] st"
proof -
  have w: "getWorksheet [empty_sheet ''Sheet1''] name = None"
    using assms(3) by (auto simp: getWorksheet_def empty_sheet_def)
  show ?thesis
    using assms(1,2,4,5) by (simp add: excel_add_sheet_def Let_def first_sheet w)
qed

lemma save_all_missing:
  assumes "getBufferFromStorage st (fileKey req) = None"
    and "sheet \<noteq> []" and "d \<noteq> NoData" and "save_all_quota env req st = None"
    and "\<not> (userPlan req = ''free'' \<and> maxRowsSaveAll < rowsCount d)"
    and "fileKey req \<noteq> []" and "worksheet_name [] sheet = Some sheet"
  shows "excel_save_all cfg env req sheet d st =
           save_all_store env req (fileKey req) sheet d [empty_sheet sheet] (empty_sheet sheet) st"
proof -
  have aw: "addWorksheet [] sheet = Some (empty_sheet sheet)"
    by (rule worksheet_name_fresh(1) [OF assms(7)])
  show ?thesis
    using assms(1-6) by (auto simp: excel_save_all_def Let_def aw)
qed

lemma new_sheet_name: "ws_name (empty_sheet name) = name"
  by (simp add: empty_sheet_def)

lemma replace_only_sheet: "replace_sheet [empty_sheet sheet] sheet x = [x]"
  by (simp add: empty_sheet_def)

text \<open>
  A name that the library does not take ends add-sheet and save-all with 500 and
  nothing stored: a name with a slash, and, next to the sheet "Sheet1" of the new
  workbook, the name "sheet1".
\<close>

lemma rejected_sheet_names:
  "excel_add_sheet default_config example_excel_env example_request ''a/b'' False empty_state
     = (server_error, empty_state) \<and>
   excel_add_sheet default_config example_excel_env example_request ''sheet1'' False empty_state
     = (server_error, empty_state) \<and>
   excel_save_all default_config example_excel_env example_request ''a/b''
       (DataArray [RowArray [Str ''x'']]) empty_state
     = (server_error, empty_state)"
proof -
  have g: "getBufferFromStorage empty_state key = None" for key
    by (simp add: getBufferFromStorage_def empty_state_def)
  have q: "add_sheet_quota example_excel_env example_request empty_state = None"
    "save_all_quota example_excel_env example_request empty_state = None"
    by (simp_all add: add_sheet_quota_def save_all_quota_def audit_count_def over_limit_def
        count_today_def empty_state_def example_excel_env_def example_request_def)
  have n: "addWorksheet [empty_sheet ''Sheet1''] ''a/b'' = None"
    "addWorksheet [empty_sheet ''Sheet1''] ''sheet1'' = None"
    "addWorksheet [] ''a/b'' = None"
    by code_simp+
  have fk: "fileKey example_request = ''users/u1/uploaded.xlsx''"
    by (simp add: example_request_def)
  have rc: "\<not> maxRowsSaveAll < rowsCount (DataArray [RowArray [Str ''x'']])"
    by (simp add: rowsCount_def maxRowsSaveAll_def)
  have a: "excel_add_sheet default_config example_excel_env example_request name False empty_state
           = add_sheet_store example_excel_env example_request ''users/u1/uploaded.xlsx'' name
               [empty_sheet ''Sheet1''] empty_state"
    if "name \<noteq> []" "name \<noteq> ''Sheet1''" for name
    using add_sheet_missing [OF g that q(1), where cfg = default_config and overwrite = False]
    by (simp add: example_target_key)
  have r1: "excel_add_sheet default_config example_excel_env example_request ''a/b'' False
              empty_state = (server_error, empty_state)"
    by (simp add: a add_sheet_store_def n)
  have r2: "excel_add_sheet default_config example_excel_env example_request ''sheet1'' False
              empty_state = (server_error, empty_state)"
    by (simp add: a add_sheet_store_def n)
  have r3: "excel_save_all default_config example_excel_env example_request ''a/b''
       (DataArray [RowArray [Str ''x'']]) empty_state = (server_error, empty_state)"
    by (simp add: excel_save_all_def q fk g rc n)
  show ?thesis
    using r1 r2 r3 by (intro conjI)
qed

text \<open>
  C8, as stated, fails: with no object under the key, add-sheet and save-all do not
  answer "not found". They build a new workbook (add-sheet with a sheet "Sheet1",
  save-all with the target sheet) and send it to the storage; when that goes through
  they write the audit entry and answer with success, and when the storage reports an
  error they answer 500 with its message.
\<close>

theorem missing_workbook_counterexample:
  "getBufferFromStorage empty_state (target_key default_config example_request) = None \<and>
   fst (excel_add_sheet default_config example_excel_env example_request ''D'' False empty_state)
     = Success (''D'', [''D'', ''Sheet1'']) \<and>
   map_of (storage (snd (excel_add_sheet default_config example_excel_env example_request ''D''
                            False empty_state))) ''users/u1/uploaded.xlsx''
     = Some (Book [empty_sheet ''Sheet1'', sheet_of ''D'' [[Str ''New sheet created'']]]) \<and>
   map a_action (audit (snd (excel_add_sheet default_config example_excel_env example_request
                               ''D'' False empty_state))) = [''add_sheet''] \<and>
   fst (excel_save_all default_config example_excel_env example_request ''S''
          (DataArray [RowArray [Str ''x'']]) empty_state) = Success () \<and>
   map_of (storage (snd (excel_save_all default_config example_excel_env example_request ''S''
                            (DataArray [RowArray [Str ''x'']]) empty_state)))
       ''users/u1/uploaded.xlsx''
     = Some (Book [sheet_of ''S'' [[Str ''x'']]]) \<and>
   excel_add_sheet default_config (example_excel_env\<lparr>upload_error := Some ''Object not found''\<rparr>)
       example_request ''D'' False empty_state
     = (Failure 500 ''Object not found'', empty_state) \<and>
   excel_save_all default_config (example_excel_env\<lparr>upload_error := Some ''Object not found''\<rparr>)
       example_request ''S'' (DataArray [RowArray [Str ''x'']]) empty_state
     = (Failure 500 ''Object not found'', empty_state)"
proof -
  let ?env2 = "example_excel_env\<lparr>upload_error := Some ''Object not found''\<rparr>"
  let ?d = "DataArray [RowArray [Str ''x'']]"
  have k: "target_key default_config example_request = ''users/u1/uploaded.xlsx''"
    by (rule example_target_key)
  have fk: "fileKey example_request = ''users/u1/uploaded.xlsx''"
    by (simp add: example_request_def)
  have g: "getBufferFromStorage empty_state key = None" for key
    by (simp add: getBufferFromStorage_def empty_state_def)
  have q: "add_sheet_quota example_excel_env example_request empty_state = None"
    "save_all_quota example_excel_env example_request empty_state = None"
    "add_sheet_quota ?env2 example_request empty_state = None"
    "save_all_quota ?env2 example_request empty_state = None"
    by (simp_all add: add_sheet_quota_def save_all_quota_def audit_count_def over_limit_def
        count_today_def empty_state_def example_excel_env_def example_request_def)
  have up: "upload_error example_excel_env = None"
    "upload_error ?env2 = Some ''Object not found''"
    by (simp_all add: example_excel_env_def)
  have n1: "worksheet_name [empty_sheet ''Sheet1''] ''D'' = Some ''D''"
    and n2: "worksheet_name [] ''S'' = Some ''S''"
    by code_simp+
  have aw: "addWorksheet [empty_sheet ''Sheet1''] ''D'' = Some (empty_sheet ''D'')"
    by (rule worksheet_name_fresh(1) [OF n1])
  have new: "set_cell (empty_sheet ''D'') 1 1 (Str ''New sheet created'')
               = sheet_of ''D'' [[Str ''New sheet created'']]"
    by (simp add: set_cell_def empty_sheet_def sheet_of_def pad_def Let_def)
  have sh: "shuffle (pick example_excel_env) [''Sheet1''] = [''Sheet1'']"
    by (simp add: shuffle_def)
  have a: "excel_add_sheet default_config env example_request ''D'' False empty_state
           = add_sheet_store env example_request ''users/u1/uploaded.xlsx'' ''D''
               [empty_sheet ''Sheet1''] empty_state"
    if "add_sheet_quota env example_request empty_state = None" for env
    using add_sheet_missing [OF g _ _ that, where cfg = default_config and name = "''D''"
        and overwrite = False]
    by (simp add: k)
  have a1: "fst (excel_add_sheet default_config example_excel_env example_request ''D'' False
                   empty_state) = Success (''D'', [''D'', ''Sheet1''])"
    unfolding a [OF q(1)] add_sheet_store_ok [OF up(1) aw] new
    by (simp add: sheet_names_def empty_sheet_def sheet_of_def sh)
  have a2: "map_of (storage (snd (excel_add_sheet default_config example_excel_env
                 example_request ''D'' False empty_state))) ''users/u1/uploaded.xlsx''
     = Some (Book [empty_sheet ''Sheet1'', sheet_of ''D'' [[Str ''New sheet created'']]])"
    unfolding a [OF q(1)] add_sheet_store_ok [OF up(1) aw] new
    by (simp add: storage_after_write)
  have a3: "map a_action (audit (snd (excel_add_sheet default_config example_excel_env
                 example_request ''D'' False empty_state))) = [''add_sheet'']"
    unfolding a [OF q(1)] add_sheet_store_ok [OF up(1) aw]
    by (simp add: audit_after_write empty_state_def)
  have a4: "excel_add_sheet default_config ?env2 example_request ''D'' False empty_state
     = (Failure 500 ''Object not found'', empty_state)"
    unfolding a [OF q(3)] by (rule add_sheet_store_upload_error [OF up(2) aw])
  have rc: "\<not> (userPlan example_request = ''free'' \<and> maxRowsSaveAll < rowsCount ?d)"
    by (simp add: rowsCount_def maxRowsSaveAll_def)
  have s: "excel_save_all default_config env example_request ''S'' ?d empty_state
           = save_all_store env example_request ''users/u1/uploaded.xlsx'' ''S'' ?d
               [empty_sheet ''S''] (empty_sheet ''S'') empty_state"
    if "save_all_quota env example_request empty_state = None" for env
    using save_all_missing [OF g _ _ that rc _ n2, where cfg = default_config]
    by (simp add: fk)
  have ag: "apply_grid (normalize_grid ?d) (empty_sheet ''S'') = sheet_of ''S'' [[Str ''x'']]"
    by code_simp
  have s1: "fst (excel_save_all default_config example_excel_env example_request ''S'' ?d
                   empty_state) = Success ()"
    unfolding s [OF q(2)] save_all_store_ok [OF up(1) new_sheet_name] by simp
  have s2: "map_of (storage (snd (excel_save_all default_config example_excel_env example_request
                ''S'' ?d empty_state)))
       ''users/u1/uploaded.xlsx'' = Some (Book [sheet_of ''S'' [[Str ''x'']]])"
    unfolding s [OF q(2)] save_all_store_ok [OF up(1) new_sheet_name] ag replace_only_sheet
    by (simp add: storage_after_write)
  have s3: "excel_save_all default_config ?env2 example_request ''S'' ?d empty_state
     = (Failure 500 ''Object not found'', empty_state)"
    unfolding s [OF q(4)] by (rule save_all_store_upload_error [OF up(2)])
  have g0: "getBufferFromStorage empty_state (target_key default_config example_request) = None"
    by (rule g)
  show ?thesis
    using g0 a1 a2 a3 s1 s2 a4 s3 by (intro conjI)
qed

lemma delete_sheet_missing:
  assumes m: "getBufferFromStorage st (target_key cfg req) = None"
  shows "snd (excel_delete_sheet cfg env req name st) = st"
    and "name \<noteq> [] \<Longrightarrow> delete_sheet_quota env req st = None \<Longrightarrow> target_key cfg req \<noteq> [] \<Longrightarrow>
         fst (excel_delete_sheet cfg env req name st) = Failure 404 ''Workbook not found''"
proof -
  show "snd (excel_delete_sheet cfg env req name st) = st"
    using m by (simp add: excel_delete_sheet_def Let_def split: option.split prod.split)
  show "name \<noteq> [] \<Longrightarrow> delete_sheet_quota env req st = None \<Longrightarrow> target_key cfg req \<noteq> [] \<Longrightarrow>
         fst (excel_delete_sheet cfg env req name st) = Failure 404 ''Workbook not found''"
    using m by (simp add: excel_delete_sheet_def Let_def)
qed

lemma excel_get_missing:
  assumes m: "getBufferFromStorage st
      (if userRole req = ''superadmin'' \<and> scope = ''master''
       then EXCEL_FILE_KEY cfg else fileKey req) = None"
  shows "excel_get cfg env req sheet cell scope st =
     (if sheet = [] \<or> cell = NoAddress then (Failure 400 ''Sheet and cell are required'', st)
      else case get_cell_quota env req st of
             Some (code, msg) \<Rightarrow> (Failure code msg, st)
           | None \<Rightarrow>
               if (if userRole req = ''superadmin'' \<and> scope = ''master''
                   then EXCEL_FILE_KEY cfg else fileKey req) = []
               then (Failure 404 ''Workbook key not found'', st)
               else (Failure 404 ''Workbook not found'', st))"
proof (cases "sheet = [] \<or> cell = NoAddress")
  case True
  then show ?thesis unfolding excel_get_def by (simp only: if_True)
next
  case False
  show ?thesis
  proof (cases "get_cell_quota env req st")
    case None
    show ?thesis
      unfolding excel_get_def Let_def m None using False
      by (simp only: if_False option.case)
  next
    case (Some r)
    show ?thesis
      unfolding excel_get_def Let_def Some using False
      by (simp only: if_False option.case)
  qed
qed

lemma excel_get_missing_state:
  assumes m: "getBufferFromStorage st
      (if userRole req = ''superadmin'' \<and> scope = ''master''
       then EXCEL_FILE_KEY cfg else fileKey req) = None"
  shows "snd (excel_get cfg env req sheet cell scope st) = st"
  unfolding excel_get_missing [OF m] by (simp split: option.split prod.split)

lemma preview_missing:
  assumes m: "getBufferFromStorage st (fileKey req) = None"
  shows "snd (excel_preview cfg env req sheet st) = st"
    and "sheet \<noteq> [] \<Longrightarrow> fileKey req \<noteq> [] \<Longrightarrow>
         fst (excel_preview cfg env req sheet st) = Failure 404 ''Workbook not found''"
    and "excel_sheets cfg env req st = (Failure 404 ''Workbook not found'', st)"
  using m by (simp_all add: excel_preview_def Let_def excel_sheets_cases)

text \<open>
  C8, amended. When the download of the workbook yields nothing, delete-sheet, the cell
  query, the preview and the sheet list leave the state as it was (no upload, no
  audit entry), and a request that passes the earlier checks of its route (parameters
  given, daily quota not used up, key not empty) is answered 404 "Workbook not found".
  Add-sheet and save-all do not answer 404 there. For a request that passes the
  earlier checks and names a sheet that the library takes as it is (for add-sheet: a
  name other than "Sheet1", taken next to the sheet "Sheet1"), they build a new
  workbook (add-sheet: "Sheet1" and the new sheet with its marker; save-all: the
  target sheet with the grid applied) and send it to the storage: when the storage
  reports no error, the workbook is stored, the audit entry is written and the answer
  is success; when it reports an error, the answer is 500 with the error's message and
  the state is left as it was.
\<close>

theorem missing_workbook:
  "(getBufferFromStorage st (target_key cfg req) = None \<longrightarrow>
      snd (excel_delete_sheet cfg env req name st) = st \<and>
      (name \<noteq> [] \<and> delete_sheet_quota env req st = None \<and> target_key cfg req \<noteq> [] \<longrightarrow>
         fst (excel_delete_sheet cfg env req name st) = Failure 404 ''Workbook not found'')) \<and>
   (getBufferFromStorage st
      (if userRole req = ''superadmin'' \<and> scope = ''master''
       then EXCEL_FILE_KEY cfg else fileKey req) = None \<longrightarrow>
      snd (excel_get cfg env req sheet cell scope st) = st \<and>
      (sheet \<noteq> [] \<and> cell \<noteq> NoAddress \<and> get_cell_quota env req st = None \<and>
       (if userRole req = ''superadmin'' \<and> scope = ''master''
        then EXCEL_FILE_KEY cfg else fileKey req) \<noteq> [] \<longrightarrow>
         fst (excel_get cfg env req sheet cell scope st) = Failure 404 ''Workbook not found'')) \<and>
   (getBufferFromStorage st (fileKey req) = None \<longrightarrow>
      snd (excel_preview cfg env req sheet st) = st \<and>
      (sheet \<noteq> [] \<and> fileKey req \<noteq> [] \<longrightarrow>
         fst (excel_preview cfg env req sheet st) = Failure 404 ''Workbook not found'') \<and>
      excel_sheets cfg env req st = (Failure 404 ''Workbook not found'', st)) \<and>
   (getBufferFromStorage st (target_key cfg req) = None \<and> name \<noteq> [] \<and> name \<noteq> ''Sheet1'' \<and>
    add_sheet_quota env req st = None \<and> target_key cfg req \<noteq> [] \<and>
    worksheet_name [empty_sheet ''Sheet1''] name = Some name \<longrightarrow>
      (upload_error env = None \<longrightarrow>
         (\<exists>listed st'. excel_add_sheet cfg env req name overwrite st
                          = (Success (name, listed), st') \<and>
            map_of (storage st') (target_key cfg req) =
              Some (Book [empty_sheet ''Sheet1'',
                          set_cell (empty_sheet name) 1 1 (Str ''New sheet created'')]) \<and>
            audit st' = audit st @
              [\<lparr>a_user_id = user_id req, a_email = userEmail req, a_action = ''add_sheet'',
                a_sheet_name = Some name, a_created_at = now env\<rparr>])) \<and>
      (upload_error env = Some msg \<longrightarrow>
         excel_add_sheet cfg env req name overwrite st = (Failure 500 msg, st))) \<and>
   (getBufferFromStorage st (fileKey req) = None \<and> sheet \<noteq> [] \<and> d \<noteq> NoData \<and>
    save_all_quota env req st = None \<and>
    \<not> (userPlan req = ''free'' \<and> maxRowsSaveAll < rowsCount d) \<and>
    fileKey req \<noteq> [] \<and> worksheet_name [] sheet = Some sheet \<longrightarrow>
      (upload_error env = None \<longrightarrow>
         (\<exists>st'. excel_save_all cfg env req sheet d st = (Success (), st') \<and>
            map_of (storage st') (fileKey req) =
              Some (Book [apply_grid (normalize_grid d) (empty_sheet sheet)]) \<and>
            audit st' = audit st @
              [\<lparr>a_user_id = user_id req, a_email = userEmail req, a_action = ''save_all'',
                a_sheet_name = Some sheet, a_created_at = now env\<rparr>])) \<and>
      (upload_error env = Some msg \<longrightarrow>
         excel_save_all cfg env req sheet d st = (Failure 500 msg, st)))"
proof (intro conjI impI)
  assume m: "getBufferFromStorage st (target_key cfg req) = None"
  show "snd (excel_delete_sheet cfg env req name st) = st"
    by (rule delete_sheet_missing(1) [OF m])
  assume "name \<noteq> [] \<and> delete_sheet_quota env req st = None \<and> target_key cfg req \<noteq> []"
  then show "fst (excel_delete_sheet cfg env req name st) = Failure 404 ''Workbook not found''"
    using delete_sheet_missing(2) [OF m] by blast
next
  let ?key = "if userRole req = ''superadmin'' \<and> scope = ''master''
              then EXCEL_FILE_KEY cfg else fileKey req"
  assume m: "getBufferFromStorage st ?key = None"
  show "snd (excel_get cfg env req sheet cell scope st) = st"
    by (rule excel_get_missing_state [OF m])
  assume "sheet \<noteq> [] \<and> cell \<noteq> NoAddress \<and> get_cell_quota env req st = None \<and> ?key \<noteq> []"
  then show "fst (excel_get cfg env req sheet cell scope st) = Failure 404 ''Workbook not found''"
    unfolding excel_get_missing [OF m] by simp
next
  assume m: "getBufferFromStorage st (fileKey req) = None"
  show "snd (excel_preview cfg env req sheet st) = st"
    by (rule preview_missing(1) [OF m])
  show "excel_sheets cfg env req st = (Failure 404 ''Workbook not found'', st)"
    by (rule preview_missing(3) [OF m])
  assume "sheet \<noteq> [] \<and> fileKey req \<noteq> []"
  then show "fst (excel_preview cfg env req sheet st) = Failure 404 ''Workbook not found''"
    using preview_missing(2) [OF m] by blast
next
  assume a: "getBufferFromStorage st (target_key cfg req) = None \<and> name \<noteq> [] \<and>
    name \<noteq> ''Sheet1'' \<and> add_sheet_quota env req st = None \<and> target_key cfg req \<noteq> [] \<and>
    worksheet_name [empty_sheet ''Sheet1''] name = Some name"
  then have aw: "addWorksheet [empty_sheet ''Sheet1''] name = Some (empty_sheet name)"
    by (intro worksheet_name_fresh(1)) simp
  from a have r: "excel_add_sheet cfg env req name overwrite st =
      add_sheet_store env req (target_key cfg req) name [empty_sheet ''Sheet1''] st"
    by (intro add_sheet_missing) simp_all
  {
    assume up: "upload_error env = None"
    let ?out = "[empty_sheet ''Sheet1'', set_cell (empty_sheet name) 1 1 (Str ''New sheet created'')]"
    let ?st' = "broadcastSSE ''excel:add_sheet'' name
          (audit_insert env req ''add_sheet'' (Some name)
             (updateBufferToStorage st (target_key cfg req) (Book ?out)))"
    have e: "excel_add_sheet cfg env req name overwrite st =
       (Success (name, name # shuffle (pick env) (filter (\<lambda>s. s \<noteq> name) (sheet_names ?out))), ?st')"
      unfolding r add_sheet_store_ok [OF up aw] by simp
    have s: "map_of (storage ?st') (target_key cfg req) = Some (Book ?out)"
      by (rule storage_after_write)
    have u: "audit ?st' = audit st @
             [\<lparr>a_user_id = user_id req, a_email = userEmail req, a_action = ''add_sheet'',
               a_sheet_name = Some name, a_created_at = now env\<rparr>]"
      by (rule audit_after_write)
    show "\<exists>listed st'. excel_add_sheet cfg env req name overwrite st = (Success (name, listed), st') \<and>
           map_of (storage st') (target_key cfg req) = Some (Book ?out) \<and>
           audit st' = audit st @
             [\<lparr>a_user_id = user_id req, a_email = userEmail req, a_action = ''add_sheet'',
               a_sheet_name = Some name, a_created_at = now env\<rparr>]"
      by (intro exI conjI) (rule e, rule s, rule u)
  }
  {
    assume up: "upload_error env = Some msg"
    show "excel_add_sheet cfg env req name overwrite st = (Failure 500 msg, st)"
      unfolding r by (rule add_sheet_store_upload_error [OF up aw])
  }
next
  assume a: "getBufferFromStorage st (fileKey req) = None \<and> sheet \<noteq> [] \<and> d \<noteq> NoData \<and>
    save_all_quota env req st = None \<and>
    \<not> (userPlan req = ''free'' \<and> maxRowsSaveAll < rowsCount d) \<and>
    fileKey req \<noteq> [] \<and> worksheet_name [] sheet = Some sheet"
  then have r: "excel_save_all cfg env req sheet d st =
      save_all_store env req (fileKey req) sheet d [empty_sheet sheet] (empty_sheet sheet) st"
    by (intro save_all_missing) simp_all
  {
    assume up: "upload_error env = None"
    let ?out = "[apply_grid (normalize_grid d) (empty_sheet sheet)]"
    let ?st' = "broadcastSSE ''excel:save_all'' sheet
          (audit_insert env req ''save_all'' (Some sheet)
             (updateBufferToStorage st (fileKey req) (Book ?out)))"
    have e: "excel_save_all cfg env req sheet d st = (Success (), ?st')"
      unfolding r save_all_store_ok [OF up new_sheet_name] replace_only_sheet by (rule refl)
    have s: "map_of (storage ?st') (fileKey req) = Some (Book ?out)"
      by (rule storage_after_write)
    have u: "audit ?st' = audit st @
             [\<lparr>a_user_id = user_id req, a_email = userEmail req, a_action = ''save_all'',
               a_sheet_name = Some sheet, a_created_at = now env\<rparr>]"
      by (rule audit_after_write)
    show "\<exists>st'. excel_save_all cfg env req sheet d st = (Success (), st') \<and>
           map_of (storage st') (fileKey req) = Some (Book ?out) \<and>
           audit st' = audit st @
             [\<lparr>a_user_id = user_id req, a_email = userEmail req, a_action = ''save_all'',
               a_sheet_name = Some sheet, a_created_at = now env\<rparr>]"
      by (intro exI conjI) (rule e, rule s, rule u)
  }
  {
    assume up: "upload_error env = Some msg"
    show "excel_save_all cfg env req sheet d st = (Failure 500 msg, st)"
      unfolding r by (rule save_all_store_upload_error [OF up])
  }
qed

theorem missing_workbook_witness:
  "getBufferFromStorage empty_state (target_key default_config example_request) = None \<and>
   worksheet_name [empty_sheet ''Sheet1''] ''D'' = Some ''D'' \<and>
   worksheet_name [] ''S'' = Some ''S'' \<and>
   excel_delete_sheet default_config example_excel_env example_request ''A'' empty_state
     = (Failure 404 ''Workbook not found'', empty_state) \<and>
   excel_get default_config example_excel_env example_request ''A'' (At 1 1) '''' empty_state
     = (Failure 404 ''Workbook not found'', empty_state) \<and>
   excel_preview default_config example_excel_env example_request ''A'' empty_state
     = (Failure 404 ''Workbook not found'', empty_state) \<and>
   excel_sheets default_config example_excel_env example_request empty_state
     = (Failure 404 ''Workbook not found'', empty_state) \<and>
   (\<exists>listed st'. excel_add_sheet default_config example_excel_env example_request ''D'' False
                    empty_state = (Success (''D'', listed), st') \<and>
       map_of (storage st') (target_key default_config example_request) =
         Some (Book [empty_sheet ''Sheet1'', sheet_of ''D'' [[Str ''New sheet created'']]])) \<and>
   (\<exists>st'. excel_save_all default_config example_excel_env example_request ''S''
             (DataArray [RowArray [Str ''x'']]) empty_state = (Success (), st') \<and>
       map_of (storage st') (fileKey example_request) =
         Some (Book [sheet_of ''S'' [[Str ''x'']]])) \<and>
   excel_add_sheet default_config (example_excel_env\<lparr>upload_error := Some ''Object not found''\<rparr>)
       example_request ''D'' False empty_state
     = (Failure 500 ''Object not found'', empty_state) \<and>
   excel_save_all default_config (example_excel_env\<lparr>upload_error := Some ''Object not found''\<rparr>)
       example_request ''S'' (DataArray [RowArray [Str ''x'']]) empty_state
     = (Failure 500 ''Object not found'', empty_state)"
proof -
  let ?env2 = "example_excel_env\<lparr>upload_error := Some ''Object not found''\<rparr>"
  let ?d = "DataArray [RowArray [Str ''x'']]"
  have g: "getBufferFromStorage empty_state key = None" for key
    by (simp add: getBufferFromStorage_def empty_state_def)
  have q: "add_sheet_quota example_excel_env example_request empty_state = None"
    "save_all_quota example_excel_env example_request empty_state = None"
    "delete_sheet_quota example_excel_env example_request empty_state = None"
    "get_cell_quota example_excel_env example_request empty_state = None"
    "add_sheet_quota ?env2 example_request empty_state = None"
    "save_all_quota ?env2 example_request empty_state = None"
    by (simp_all add: add_sheet_quota_def save_all_quota_def delete_sheet_quota_def
        get_cell_quota_def audit_count_def over_limit_def
        count_today_def empty_state_def example_excel_env_def example_request_def)
  have up: "upload_error example_excel_env = None"
    "upload_error ?env2 = Some ''Object not found''"
    by (simp_all add: example_excel_env_def)
  have fk: "fileKey example_request = ''users/u1/uploaded.xlsx''"
    "userRole example_request = ''user''"
    by (simp_all add: example_request_def)
  have rc: "\<not> (userPlan example_request = ''free'' \<and> maxRowsSaveAll < rowsCount ?d)"
    by (simp add: rowsCount_def maxRowsSaveAll_def)
  have n1: "worksheet_name [empty_sheet ''Sheet1''] ''D'' = Some ''D''"
    and n2: "worksheet_name [] ''S'' = Some ''S''"
    by code_simp+
  have new: "set_cell (empty_sheet ''D'') 1 1 (Str ''New sheet created'')
               = sheet_of ''D'' [[Str ''New sheet created'']]"
    by (simp add: set_cell_def empty_sheet_def sheet_of_def pad_def Let_def)
  have ag: "apply_grid (normalize_grid ?d) (empty_sheet ''S'') = sheet_of ''S'' [[Str ''x'']]"
    by code_simp
  have g0: "getBufferFromStorage empty_state (target_key default_config example_request) = None"
    by (rule g)
  have ha: "getBufferFromStorage empty_state (target_key default_config example_request) = None \<and>
      ''D'' \<noteq> [] \<and> ''D'' \<noteq> ''Sheet1'' \<and>
      add_sheet_quota env example_request empty_state = None \<and>
      target_key default_config example_request \<noteq> [] \<and>
      worksheet_name [empty_sheet ''Sheet1''] ''D'' = Some ''D''"
    if "add_sheet_quota env example_request empty_state = None" for env
    using that g0 n1 by (simp add: example_target_key)
  have hs: "getBufferFromStorage empty_state (fileKey example_request) = None \<and>
      ''S'' \<noteq> [] \<and> ?d \<noteq> NoData \<and> save_all_quota env example_request empty_state = None \<and>
      \<not> (userPlan example_request = ''free'' \<and> maxRowsSaveAll < rowsCount ?d) \<and>
      fileKey example_request \<noteq> [] \<and> worksheet_name [] ''S'' = Some ''S''"
    if "save_all_quota env example_request empty_state = None" for env
    using that g rc n2 by (simp add: fk)
  note t = missing_workbook [where st = empty_state and cfg = default_config
      and req = example_request]
  have r1: "excel_delete_sheet default_config example_excel_env example_request ''A'' empty_state
     = (Failure 404 ''Workbook not found'', empty_state)"
    using t [where env = example_excel_env and name = "''A''", THEN conjunct1] g q
      example_target_key
    by (simp add: prod_eq_iff)
  have r2: "excel_get default_config example_excel_env example_request ''A'' (At 1 1) ''''
              empty_state = (Failure 404 ''Workbook not found'', empty_state)"
    using t [where env = example_excel_env and sheet = "''A''" and cell = "At 1 1"
        and scope = "''''", THEN conjunct2, THEN conjunct1] g q fk
    by (simp add: prod_eq_iff)
  have r3: "excel_preview default_config example_excel_env example_request ''A'' empty_state
     = (Failure 404 ''Workbook not found'', empty_state)"
    and r4: "excel_sheets default_config example_excel_env example_request empty_state
     = (Failure 404 ''Workbook not found'', empty_state)"
    using t [where env = example_excel_env and sheet = "''A''",
        THEN conjunct2, THEN conjunct2, THEN conjunct1] g fk
    by (simp_all add: prod_eq_iff)
  note r5 = t [where env = example_excel_env and name = "''D''" and overwrite = False,
      THEN conjunct2, THEN conjunct2, THEN conjunct2, THEN conjunct1, THEN mp, OF ha [OF q(1)],
      THEN conjunct1, THEN mp, OF up(1), unfolded new]
  have r5': "\<exists>listed st'. excel_add_sheet default_config example_excel_env example_request ''D''
                    False empty_state = (Success (''D'', listed), st') \<and>
       map_of (storage st') (target_key default_config example_request) =
         Some (Book [empty_sheet ''Sheet1'', sheet_of ''D'' [[Str ''New sheet created'']]])"
    using r5 by blast
  note r6 = t [where env = example_excel_env and sheet = "''S''" and d = ?d,
      THEN conjunct2, THEN conjunct2, THEN conjunct2, THEN conjunct2, THEN mp, OF hs [OF q(2)],
      THEN conjunct1, THEN mp, OF up(1), unfolded ag]
  have r6': "\<exists>st'. excel_save_all default_config example_excel_env example_request ''S''
             ?d empty_state = (Success (), st') \<and>
       map_of (storage st') (fileKey example_request) =
         Some (Book [sheet_of ''S'' [[Str ''x'']]])"
    using r6 by blast
  note r7 = t [where env = ?env2 and name = "''D''" and overwrite = False
      and msg = "''Object not found''",
      THEN conjunct2, THEN conjunct2, THEN conjunct2, THEN conjunct1, THEN mp, OF ha [OF q(5)],
      THEN conjunct2, THEN mp, OF up(2)]
  note r8 = t [where env = ?env2 and sheet = "''S''" and d = ?d
      and msg = "''Object not found''",
      THEN conjunct2, THEN conjunct2, THEN conjunct2, THEN conjunct2, THEN mp, OF hs [OF q(6)],
      THEN conjunct2, THEN mp, OF up(2)]
  show ?thesis
    using g0 n1 n2 r1 r2 r3 r4 r5' r6' r7 r8 by (intro conjI)
qed

subsection \<open>Saving a grid and previewing it\<close>

lemma ws_name_getRow: "ws_name (getRow ws r) = ws_name ws"
  by (simp add: getRow_def)

lemma ws_name_getCell: "ws_name (getCell ws r c) = ws_name ws"
  by (simp add: getCell_def Let_def)

lemma ws_name_set_cell: "ws_name (set_cell ws r c v) = ws_name ws"
  by (simp add: set_cell_def Let_def)

lemma ws_name_write_cell: "ws_name (write_cell grid ws r c) = ws_name ws"
  by (simp add: write_cell_def Let_def ws_name_set_cell)

lemma ws_name_clear_cell: "ws_name (clear_cell ws r c) = ws_name ws"
  by (simp add: clear_cell_def ws_name_set_cell)

lemma ws_name_fold_cols:
  assumes "\<And>w r c. ws_name (f w r c) = ws_name w"
  shows "ws_name (fold (\<lambda>c w'. f (getCell w' r c) r c) cs w) = ws_name w"
  by (induction cs arbitrary: w) (simp_all add: assms ws_name_getCell)

lemma ws_name_for_cells:
  assumes "\<And>w r c. ws_name (f w r c) = ws_name w"
  shows "ws_name (for_cells rs cs f w) = ws_name w"
proof (induction rs arbitrary: w)
  case Nil
  then show ?case by (simp add: for_cells_def)
next
  case (Cons r rs)
  have "for_cells (r # rs) cs f w =
        for_cells rs cs f (fold (\<lambda>c w'. f (getCell w' r c) r c) cs (getRow w r))"
    by (simp add: for_cells_def)
  moreover have "ws_name (fold (\<lambda>c w'. f (getCell w' r c) r c) cs (getRow w r))
                   = ws_name (getRow w r)"
    by (rule ws_name_fold_cols [OF assms])
  ultimately show ?case
    by (simp add: Cons.IH ws_name_getRow)
qed

lemma ws_name_apply_grid: "ws_name (apply_grid grid ws) = ws_name ws"
  unfolding apply_grid_def Let_def
  by (simp only: ws_name_for_cells [OF ws_name_clear_cell]
      ws_name_for_cells [OF ws_name_write_cell])

lemma getWorksheet_name: "getWorksheet wb name = Some ws \<Longrightarrow> ws_name ws = name"
  unfolding getWorksheet_def by (induction wb) (auto split: if_splits)

lemma getWorksheet_replace_sheet:
  assumes "getWorksheet wb name = Some ws" and "ws_name ws' = name"
  shows "getWorksheet (replace_sheet wb name ws') name = Some ws'"
  using assms unfolding getWorksheet_def
  by (induction wb) (auto split: if_splits)

lemma save_all_store_success:
  assumes "save_all_store env req key sheet d wb ws st = (Success (), st')"
  shows "upload_error env = None"
  using assms by (cases "upload_error env") (simp_all add: save_all_store_def Let_def)

lemma excel_save_all_admitted:
  assumes "excel_save_all cfg env req sheet d st = (Success (), st')"
  shows "sheet \<noteq> []" and "d \<noteq> NoData" and "save_all_quota env req st = None"
    and "\<not> (userPlan req = ''free'' \<and> maxRowsSaveAll < rowsCount d)"
    and "fileKey req \<noteq> []"
proof -
  show a: "sheet \<noteq> []"
    using assms by (auto simp: excel_save_all_def)
  show b: "d \<noteq> NoData"
    using assms by (auto simp: excel_save_all_def)
  show c: "save_all_quota env req st = None"
    using assms a b by (cases "save_all_quota env req st") (auto simp: excel_save_all_def)
  show e: "\<not> (userPlan req = ''free'' \<and> maxRowsSaveAll < rowsCount d)"
    using assms a b c by (auto simp: excel_save_all_def)
  show "fileKey req \<noteq> []"
    using assms a b c e by (auto simp: excel_save_all_def Let_def)
qed

lemma excel_save_all_existing:
  assumes "excel_save_all cfg env req sheet d st = (Success (), st')"
    and "getBufferFromStorage st (fileKey req) = Some (Book wb)"
    and "getWorksheet wb sheet = Some ws"
  shows "st' = broadcastSSE ''excel:save_all'' sheet
           (audit_insert env req ''save_all'' (Some sheet)
              (updateBufferToStorage st (fileKey req)
                 (Book (replace_sheet wb sheet (apply_grid (normalize_grid d) ws)))))"
proof -
  note adm = excel_save_all_admitted [OF assms(1)]
  have r: "excel_save_all cfg env req sheet d st =
           save_all_store env req (fileKey req) sheet d wb ws st"
    using adm assms(2,3) by (auto simp: excel_save_all_def Let_def)
  with assms(1) have s: "save_all_store env req (fileKey req) sheet d wb ws st = (Success (), st')"
    by simp
  have up: "upload_error env = None"
    by (rule save_all_store_success [OF s])
  from s show ?thesis
    unfolding save_all_store_ok [OF up getWorksheet_name [OF assms(3)]] by simp
qed

lemma excel_preview_existing:
  assumes "sheet \<noteq> []" and "fileKey req \<noteq> []"
    and "getBufferFromStorage st (fileKey req) = Some (Book wb)"
    and "getWorksheet wb sheet = Some ws"
  shows "excel_preview cfg env req sheet st = (Success (preview_of sheet ws), st)"
  using assms by (simp add: excel_preview_def Let_def)

lemma excel_save_all_run:
  assumes "sheet \<noteq> []" and "d \<noteq> NoData" and "save_all_quota env req st = None"
    and "\<not> maxRowsSaveAll < rowsCount d" and "fileKey req \<noteq> []"
    and "getBufferFromStorage st (fileKey req) = Some (Book wb)"
    and "getWorksheet wb sheet = Some ws" and up: "upload_error env = None"
  shows "excel_save_all cfg env req sheet d st =
     (Success (),
      broadcastSSE ''excel:save_all'' sheet
        (audit_insert env req ''save_all'' (Some sheet)
           (updateBufferToStorage st (fileKey req)
              (Book (replace_sheet wb sheet (apply_grid (normalize_grid d) ws))))))"
proof -
  have "excel_save_all cfg env req sheet d st =
        save_all_store env req (fileKey req) sheet d wb ws st"
    using assms by (auto simp: excel_save_all_def Let_def)
  then show ?thesis by (simp only: save_all_store_ok [OF up getWorksheet_name [OF assms(7)]])
qed

lemma buffer_after_write:
  "getBufferFromStorage (broadcastSSE ev x (audit_insert env req action sheet
      (updateBufferToStorage st key b))) key = Some b"
  unfolding getBufferFromStorage_def by (rule storage_after_write)

lemma example_file_key: "fileKey example_request = ''users/u1/uploaded.xlsx''"
  by (simp add: example_request_def)

lemma example_upload: "upload_error example_excel_env = None"
  by (simp add: example_excel_env_def)

lemma example_save_all:
  assumes "d \<noteq> NoData" and "\<not> maxRowsSaveAll < rowsCount d"
  shows "excel_save_all default_config example_excel_env example_request ''A'' d (example_state []) =
     (Success (),
      broadcastSSE ''excel:save_all'' ''A''
        (audit_insert example_excel_env example_request ''save_all'' (Some ''A'')
           (updateBufferToStorage (example_state []) ''users/u1/uploaded.xlsx''
              (Book [apply_grid (normalize_grid d)
                       (sheet_of ''A'' [[Str ''a1'', Str ''b1''], [Str ''a2'', Str ''b2'']]),
                     sheet_of ''B'' [[Num 1]], sheet_of ''C'' [[Num 2]]]))))"
proof -
  have w: "getWorksheet example_workbook ''A''
             = Some (sheet_of ''A'' [[Str ''a1'', Str ''b1''], [Str ''a2'', Str ''b2'']])"
    by (simp add: getWorksheet_def example_workbook_def sheet_of_def)
  have b: "getBufferFromStorage (example_state []) (fileKey example_request)
             = Some (Book example_workbook)"
    by (simp add: example_file_key example_storage)
  have r: "replace_sheet example_workbook ''A'' x
             = [x, sheet_of ''B'' [[Num 1]], sheet_of ''C'' [[Num 2]]]" for x
    by (simp add: example_workbook_def sheet_of_def)
  have "excel_save_all default_config example_excel_env example_request ''A'' d (example_state []) =
     (Success (),
      broadcastSSE ''excel:save_all'' ''A''
        (audit_insert example_excel_env example_request ''save_all'' (Some ''A'')
           (updateBufferToStorage (example_state []) (fileKey example_request)
              (Book (replace_sheet example_workbook ''A''
                 (apply_grid (normalize_grid d)
                    (sheet_of ''A'' [[Str ''a1'', Str ''b1''], [Str ''a2'', Str ''b2'']])))))))"
    by (rule excel_save_all_run [OF _ assms(1) example_quota_free(4) assms(2) _ b w example_upload])
       (simp_all add: example_file_key)
  then show ?thesis by (simp only: r example_file_key)
qed

lemma example_preview_after:
  assumes "ws_name ws = ''A''"
  shows "excel_preview default_config example_excel_env example_request ''A''
     (broadcastSSE ev x (audit_insert example_excel_env example_request action sh
        (updateBufferToStorage st0 ''users/u1/uploaded.xlsx'' (Book (ws # rest)))))
   = (Success (preview_of ''A'' ws),
      broadcastSSE ev x (audit_insert example_excel_env example_request action sh
        (updateBufferToStorage st0 ''users/u1/uploaded.xlsx'' (Book (ws # rest)))))"
proof (rule excel_preview_existing)
  show "''A'' \<noteq> []" by simp
  show "fileKey example_request \<noteq> []" by (simp add: example_file_key)
  show "getBufferFromStorage
     (broadcastSSE ev x (audit_insert example_excel_env example_request action sh
        (updateBufferToStorage st0 ''users/u1/uploaded.xlsx'' (Book (ws # rest)))))
     (fileKey example_request) = Some (Book (ws # rest))"
    unfolding example_file_key by (rule buffer_after_write)
  show "getWorksheet (ws # rest) ''A'' = Some ws"
    using assms by (simp add: getWorksheet_def)
qed

text \<open>
  The two clearing loops of save-all, which the route's comment sets against the
  "existing sheet dimensions", are bounded by the counts of rows and columns that
  hold a value, read after the writes. On a sheet with a row without a value above a
  row with one, the count is less than the number of the last row in use: saving
  \<open>[["x"]]\<close> over a sheet whose only value is in row 3 leaves that value in place.
\<close>

lemma save_all_sparse_sheet:
  "cell_value (sheet_of ''S'' [[], [], [Str ''old'']]) 3 1 = Str ''old'' \<and>
   getBufferFromStorage
     (snd (excel_save_all default_config example_excel_env example_request ''S''
             (DataArray [RowArray [Str ''x'']]) sparse_state)) (fileKey example_request)
     = Some (Book [sheet_of ''S'' [[Str ''x''], [Null], [Str ''old'']]]) \<and>
   cell_value (sheet_of ''S'' [[Str ''x''], [Null], [Str ''old'']]) 3 1 = Str ''old''"
proof -
  let ?e = "DataArray [RowArray [Str ''x'']]"
  have e: "?e \<noteq> NoData" "\<not> maxRowsSaveAll < rowsCount ?e"
    by (simp_all add: rowsCount_def maxRowsSaveAll_def)
  have q: "save_all_quota example_excel_env example_request sparse_state = None"
    by (simp add: save_all_quota_def audit_count_def over_limit_def count_today_def
        sparse_state_def example_excel_env_def example_request_def)
  have b: "getBufferFromStorage sparse_state (fileKey example_request)
             = Some (Book [sheet_of ''S'' [[], [], [Str ''old'']]])"
    by (simp add: getBufferFromStorage_def sparse_state_def example_file_key)
  have w: "getWorksheet [sheet_of ''S'' [[], [], [Str ''old'']]] ''S''
             = Some (sheet_of ''S'' [[], [], [Str ''old'']])"
    by (simp add: getWorksheet_def sheet_of_def)
  have ag2: "apply_grid (normalize_grid ?e) (sheet_of ''S'' [[], [], [Str ''old'']])
               = sheet_of ''S'' [[Str ''x''], [Null], [Str ''old'']]"
    by code_simp
  have rp: "replace_sheet [sheet_of ''S'' [[], [], [Str ''old'']]] ''S'' x = [x]" for x
    by (simp add: sheet_of_def)
  have s: "excel_save_all default_config example_excel_env example_request ''S'' ?e sparse_state =
     (Success (),
      broadcastSSE ''excel:save_all'' ''S''
        (audit_insert example_excel_env example_request ''save_all'' (Some ''S'')
           (updateBufferToStorage sparse_state (fileKey example_request)
              (Book (replace_sheet [sheet_of ''S'' [[], [], [Str ''old'']]] ''S''
                 (apply_grid (normalize_grid ?e) (sheet_of ''S'' [[], [], [Str ''old'']])))))))"
    by (rule excel_save_all_run [OF _ e(1) q e(2) _ b w example_upload])
       (simp_all add: example_file_key)
  have p2: "getBufferFromStorage
     (snd (excel_save_all default_config example_excel_env example_request ''S'' ?e sparse_state))
     (fileKey example_request)
     = Some (Book [sheet_of ''S'' [[Str ''x''], [Null], [Str ''old'']]])"
    unfolding s snd_conv ag2 rp by (rule buffer_after_write)
  have c0: "cell_value (sheet_of ''S'' [[], [], [Str ''old'']]) 3 1 = Str ''old''"
    by code_simp
  have c1: "cell_value (sheet_of ''S'' [[Str ''x''], [Null], [Str ''old'']]) 3 1 = Str ''old''"
    by code_simp
  show ?thesis
    using c0 p2 c1 by (intro conjI)
qed

text \<open>
  C2, as stated, fails: the preview is as large as the rows and columns that hold a
  value, not as the grid that was saved. After saving the one-row, two-column grid
  \<open>[["x", null]]\<close> over the 2 by 2 sheet A, the preview of A is 1 by 1.
\<close>

theorem save_all_preview_counterexample:
  "length (normalize_grid (DataArray [RowArray [Str ''x'', Null]])) = 1 \<and>
   maxColIn (normalize_grid (DataArray [RowArray [Str ''x'', Null]])) = 2 \<and>
   fst (excel_preview default_config example_excel_env example_request ''A''
          (snd (excel_save_all default_config example_excel_env example_request ''A''
                  (DataArray [RowArray [Str ''x'', Null]]) (example_state []))))
     = Success \<lparr>pv_sheet = ''A'', pv_grid = [[Str ''x'']], pv_rows = 1, pv_cols = 1\<rparr>"
proof -
  let ?d = "DataArray [RowArray [Str ''x'', Null]]"
  have n: "length (normalize_grid ?d) = 1" "maxColIn (normalize_grid ?d) = 2"
    by (simp_all add: normalize_grid_def maxColIn_def)
  have d: "?d \<noteq> NoData" "\<not> maxRowsSaveAll < rowsCount ?d"
    by (simp_all add: rowsCount_def maxRowsSaveAll_def)
  have ag: "apply_grid (normalize_grid ?d)
              (sheet_of ''A'' [[Str ''a1'', Str ''b1''], [Str ''a2'', Str ''b2'']])
            = sheet_of ''A'' [[Str ''x'', Null], [Null, Null]]"
    by code_simp
  have pv: "preview_of ''A'' (sheet_of ''A'' [[Str ''x'', Null], [Null, Null]])
            = \<lparr>pv_sheet = ''A'', pv_grid = [[Str ''x'']], pv_rows = 1, pv_cols = 1\<rparr>"
    by code_simp
  have nm: "ws_name (sheet_of ''A'' [[Str ''x'', Null], [Null, Null]]) = ''A''"
    by (simp add: sheet_of_def)
  have p1: "fst (excel_preview default_config example_excel_env example_request ''A''
          (snd (excel_save_all default_config example_excel_env example_request ''A'' ?d
                  (example_state []))))
     = Success \<lparr>pv_sheet = ''A'', pv_grid = [[Str ''x'']], pv_rows = 1, pv_cols = 1\<rparr>"
    unfolding example_save_all [OF d] ag snd_conv example_preview_after [OF nm] pv fst_conv
    by (rule refl)
  show ?thesis
    using n p1 by (intro conjI)
qed

text \<open>
  C2, amended. Let save-all succeed on a sheet that exists in the stored workbook, let
  that sheet have no row without a value above a row with one and no column without
  a value left of a column with one, and let the normalized grid (R rows, C columns, R
  at least 1) hold a non-null value in every row and in every column. Then in the
  stored sheet every cell inside the R by C bounds holds the grid's value (\<open>null\<close>
  where a row is shorter than C) and every cell outside the bounds is \<open>null\<close>; and a
  preview of the sheet right after returns the grid padded to R by C, with \<open>rows\<close> = R
  and \<open>cols\<close> = C.
\<close>

theorem save_all_then_preview:
  assumes "excel_save_all cfg env req sheet d st = (Success (), st')"
    and "getBufferFromStorage st (fileKey req) = Some (Book wb)"
    and "getWorksheet wb sheet = Some ws"
    and "no_row_gap ws" and "no_column_gap ws"
    and "full_grid (normalize_grid d)"
  shows "(\<exists>wb' ws'. getBufferFromStorage st' (fileKey req) = Some (Book wb') \<and>
            getWorksheet wb' sheet = Some ws' \<and>
            (\<forall>r c. cell_value ws' r c =
               (if 1 \<le> r \<and> r \<le> length (normalize_grid d) \<and>
                   1 \<le> c \<and> c \<le> maxColIn (normalize_grid d)
                then grid_value (normalize_grid d) (r - 1) (c - 1) else Null))) \<and>
         excel_preview cfg env2 req sheet st' =
           (Success \<lparr>pv_sheet = sheet, pv_grid = padded_grid (normalize_grid d),
                     pv_rows = length (normalize_grid d),
                     pv_cols = maxColIn (normalize_grid d)\<rparr>, st')"
proof -
  let ?grid = "normalize_grid d"
  let ?ws' = "apply_grid ?grid ws"
  let ?wb' = "replace_sheet wb sheet ?ws'"
  have st': "st' = broadcastSSE ''excel:save_all'' sheet
           (audit_insert env req ''save_all'' (Some sheet)
              (updateBufferToStorage st (fileKey req) (Book ?wb')))"
    by (rule excel_save_all_existing [OF assms(1,2,3)])
  have b: "getBufferFromStorage st' (fileKey req) = Some (Book ?wb')"
    unfolding st' by (rule buffer_after_write)
  have "ws_name ?ws' = ws_name ws" by (rule ws_name_apply_grid)
  also have "\<dots> = sheet" by (rule getWorksheet_name [OF assms(3)])
  finally have nm: "ws_name ?ws' = sheet" .
  have w: "getWorksheet ?wb' sheet = Some ?ws'"
    by (rule getWorksheet_replace_sheet [OF assms(3) nm])
  have cells: "cell_value ?ws' r c =
      (if 1 \<le> r \<and> r \<le> length ?grid \<and> 1 \<le> c \<and> c \<le> maxColIn ?grid
       then grid_value ?grid (r - 1) (c - 1) else Null)" for r c
    by (rule apply_grid_cells [OF assms(6,4,5)])
  have pv: "preview_of sheet ?ws' =
      \<lparr>pv_sheet = sheet, pv_grid = padded_grid ?grid,
       pv_rows = length ?grid, pv_cols = maxColIn ?grid\<rparr>"
    by (rule preview_of_grid [OF assms(6) cells])
  have "excel_preview cfg env2 req sheet st' = (Success (preview_of sheet ?ws'), st')"
    by (rule excel_preview_existing
        [OF excel_save_all_admitted(1) [OF assms(1)] excel_save_all_admitted(5) [OF assms(1)] b w])
  then have p: "excel_preview cfg env2 req sheet st' =
           (Success \<lparr>pv_sheet = sheet, pv_grid = padded_grid ?grid,
                     pv_rows = length ?grid, pv_cols = maxColIn ?grid\<rparr>, st')"
    by (simp only: pv)
  from b w cells have "\<exists>wb' ws'. getBufferFromStorage st' (fileKey req) = Some (Book wb') \<and>
            getWorksheet wb' sheet = Some ws' \<and>
            (\<forall>r c. cell_value ws' r c =
               (if 1 \<le> r \<and> r \<le> length ?grid \<and> 1 \<le> c \<and> c \<le> maxColIn ?grid
                then grid_value ?grid (r - 1) (c - 1) else Null))"
    by blast
  with p show ?thesis by (rule conjI [rotated])
qed

theorem save_all_then_preview_witness:
  "fst (excel_save_all default_config example_excel_env example_request ''A''
          (DataArray [RowArray [Str ''x'']]) (example_state [])) = Success () \<and>
   getBufferFromStorage (example_state []) (fileKey example_request)
     = Some (Book example_workbook) \<and>
   getWorksheet example_workbook ''A''
     = Some (sheet_of ''A'' [[Str ''a1'', Str ''b1''], [Str ''a2'', Str ''b2'']]) \<and>
   no_row_gap (sheet_of ''A'' [[Str ''a1'', Str ''b1''], [Str ''a2'', Str ''b2'']]) \<and>
   no_column_gap (sheet_of ''A'' [[Str ''a1'', Str ''b1''], [Str ''a2'', Str ''b2'']]) \<and>
   full_grid (normalize_grid (DataArray [RowArray [Str ''x'']])) \<and>
   excel_preview default_config example_excel_env example_request ''A''
     (snd (excel_save_all default_config example_excel_env example_request ''A''
             (DataArray [RowArray [Str ''x'']]) (example_state [])))
   = (Success \<lparr>pv_sheet = ''A'', pv_grid = [[Str ''x'']], pv_rows = 1, pv_cols = 1\<rparr>,
      snd (excel_save_all default_config example_excel_env example_request ''A''
             (DataArray [RowArray [Str ''x'']]) (example_state [])))"
proof -
  let ?d = "DataArray [RowArray [Str ''x'']]"
  let ?A = "sheet_of ''A'' [[Str ''a1'', Str ''b1''], [Str ''a2'', Str ''b2'']]"
  let ?r = "excel_save_all default_config example_excel_env example_request ''A'' ?d
              (example_state [])"
  have d: "?d \<noteq> NoData" "\<not> maxRowsSaveAll < rowsCount ?d"
    by (simp_all add: rowsCount_def maxRowsSaveAll_def)
  have f: "fst ?r = Success ()"
    unfolding example_save_all [OF d] by simp
  then have s: "?r = (Success (), snd ?r)"
    by (metis prod.collapse)
  have b: "getBufferFromStorage (example_state []) (fileKey example_request)
             = Some (Book example_workbook)"
    by (simp add: example_file_key example_storage)
  have w: "getWorksheet example_workbook ''A'' = Some ?A"
    by (simp add: getWorksheet_def example_workbook_def sheet_of_def)
  have g1: "no_row_gap ?A" by code_simp
  have g2: "no_column_gap ?A" by code_simp
  have fg: "full_grid (normalize_grid ?d)" by code_simp
  have pg: "padded_grid (normalize_grid ?d) = [[Str ''x'']]"
    "length (normalize_grid ?d) = 1" "maxColIn (normalize_grid ?d) = 1"
    by (simp_all add: padded_grid_def normalize_grid_def maxColIn_def pad_def)
  note t = save_all_then_preview [OF s b w g1 g2 fg, where ?env2.0 = example_excel_env,
      THEN conjunct2, unfolded pg]
  show ?thesis using f b w g1 g2 fg t by (intro conjI)
qed

end
